(* ===== verification/Prelude.thy ===== *)
theory Prelude
  imports Main
begin

text \<open>
  Shared vocabulary of the development. The program (\<open>src/university_admission.py\<close>)
  keeps its data in SQLite tables and answers JSON requests; this theory fixes how
  both are read in HOL:
  \<^item> a table is the list of its rows in rowid order; \<open>UPDATE ... WHERE\<close> is
    \<open>update_where\<close>, \<open>DELETE ... WHERE\<close> is \<open>delete_where\<close>, and
    \<open>SELECT ... LIMIT 1\<close> / \<open>fetchone()\<close> is \<open>List.find\<close>;
  \<^item> a JSON field read with \<open>data.get(k)\<close> is an option (\<open>None\<close> for a missing
    key or \<open>null\<close>), and Python's \<open>if not x\<close> on it is \<open>truthy_int\<close> /
    \<open>truthy_str\<close>;
  \<^item> a failed request is \<open>Inl\<close> of \<open>api_error\<close>, whose HTTP status code is
    \<open>status_code\<close>; an \<open>sqlite3.IntegrityError\<close> caught by a handler's
    \<open>except Exception\<close> is \<open>DbError\<close> of the violated constraint.
  Time (\<open>datetime.now()\<close>, \<open>CURRENT_TIMESTAMP\<close>) is an \<open>int\<close> count of
  microseconds; Python integers and SQLite \<open>INTEGER\<close> values are \<open>int\<close>.
\<close>

type_synonym row_id = int
type_synonym time = int

text \<open>\<open>users.role\<close>: \<open>CHECK(role IN ('admin', 'manager', 'candidate'))\<close>.\<close>

datatype role = Admin | Manager | Candidate

text \<open>The integrity constraints of the schema (\<open>init_database\<close>) that a request can violate.\<close>

datatype sql_error =
    NotNullPriority     \<comment> \<open>\<open>priority_order INTEGER NOT NULL\<close>\<close>
  | CheckPriority       \<comment> \<open>\<open>CHECK(priority_order BETWEEN 1 AND 10)\<close>\<close>
  | UniqueSlot          \<comment> \<open>\<open>UNIQUE(candidate_id, exam_id, priority_order)\<close>\<close>
  | UniqueTransaction   \<comment> \<open>\<open>payments.transaction_id TEXT UNIQUE\<close>\<close>
  | UniqueUser          \<comment> \<open>\<open>users.username\<close> / \<open>users.email UNIQUE\<close>\<close>
  | NotNullUser         \<comment> \<open>\<open>users.email\<close> / \<open>users.full_name NOT NULL\<close>\<close>
  | UniqueCitizen       \<comment> \<open>\<open>candidates.citizen_id UNIQUE\<close>\<close>
  | UniqueExam          \<comment> \<open>\<open>exams.code UNIQUE\<close>\<close>
  | UniqueUniversity    \<comment> \<open>\<open>universities.code UNIQUE\<close>\<close>
  | UniqueMajor         \<comment> \<open>\<open>UNIQUE(university_id, code)\<close> of \<open>majors\<close>\<close>

text \<open>
  The failure responses of the handlers. \<open>Unauthorized\<close> and \<open>InvalidToken\<close> are the
  two 401 answers of the token check, \<open>InvalidCredentials\<close> the 401 of \<open>login\<close>,
  \<open>PermissionDenied\<close> the 403 of the staff check; \<open>BadRequest\<close> is a 400 with its
  message; \<open>Failure\<close> and \<open>DbError\<close> are answered with status 200 and
  \<open>success: False\<close>; \<open>EndpointNotFound\<close> is \<open>send_error(404)\<close> for an
  unknown path.
\<close>

datatype api_error =
    Unauthorized
  | InvalidToken
  | InvalidCredentials
  | PermissionDenied
  | BadRequest string
  | Failure string
  | DbError sql_error
  | EndpointNotFound

fun status_code :: "api_error \<Rightarrow> nat" where
  "status_code Unauthorized = 401"
| "status_code InvalidToken = 401"
| "status_code InvalidCredentials = 401"
| "status_code PermissionDenied = 403"
| "status_code (BadRequest _) = 400"
| "status_code (Failure _) = 200"
| "status_code (DbError _) = 200"
| "status_code EndpointNotFound = 404"

subsection \<open>Python truthiness of JSON fields\<close>

text \<open>\<open>if not x\<close> rejects \<open>None\<close> and \<open>0\<close> (numbers), \<open>None\<close> and \<open>''\<close> (strings).\<close>

fun truthy_int :: "int option \<Rightarrow> int option" where
  "truthy_int None = None"
| "truthy_int (Some n) = (if n = 0 then None else Some n)"

fun truthy_str :: "string option \<Rightarrow> string option" where
  "truthy_str None = None"
| "truthy_str (Some s) = (if s = [] then None else Some s)"

subsection \<open>Tables as row lists\<close>

definition update_where :: "('a \<Rightarrow> bool) \<Rightarrow> ('a \<Rightarrow> 'a) \<Rightarrow> 'a list \<Rightarrow> 'a list" where
  "update_where P f xs = map (\<lambda>r. if P r then f r else r) xs"

definition delete_where :: "('a \<Rightarrow> bool) \<Rightarrow> 'a list \<Rightarrow> 'a list" where
  "delete_where P xs = filter (\<lambda>r. \<not> P r) xs"

named_theorems table_simps "rewrite rules for the row-list operations"
named_theorems eval_simps "definitions unfolded to run a handler on a concrete store"

lemma truthy_int_Some [simp]: "truthy_int x = Some n \<longleftrightarrow> x = Some n \<and> n \<noteq> 0"
  by (cases x) auto

lemma truthy_str_Some [simp]: "truthy_str x = Some s \<longleftrightarrow> x = Some s \<and> s \<noteq> []"
  by (cases x) auto

lemma update_where_Nil [simp, table_simps]: "update_where P f [] = []"
  by (simp add: update_where_def)

lemma update_where_Cons [simp, table_simps]:
  "update_where P f (r # xs) = (if P r then f r else r) # update_where P f xs"
  by (simp add: update_where_def)

lemma update_where_append [simp, table_simps]:
  "update_where P f (xs @ ys) = update_where P f xs @ update_where P f ys"
  by (simp add: update_where_def)

lemma length_update_where [simp]: "length (update_where P f xs) = length xs"
  by (simp add: update_where_def)

lemma delete_where_Nil [simp, table_simps]: "delete_where P [] = []"
  by (simp add: delete_where_def)

lemma delete_where_Cons [simp, table_simps]:
  "delete_where P (r # xs) = (if P r then delete_where P xs else r # delete_where P xs)"
  by (simp add: delete_where_def)

lemma set_delete_where [simp]: "set (delete_where P xs) = {r \<in> set xs. \<not> P r}"
  by (auto simp: delete_where_def)

lemma update_where_no_match:
  "\<forall>r \<in> set xs. \<not> P r \<Longrightarrow> update_where P f xs = xs"
  by (induction xs) auto

lemma map_update_where_frame:
  "(\<And>r. P r \<Longrightarrow> g (f r) = g r) \<Longrightarrow> map g (update_where P f xs) = map g xs"
  by (induction xs) auto

lemma set_update_where:
  "set (update_where P f xs) = {f r |r. r \<in> set xs \<and> P r} \<union> {r \<in> set xs. \<not> P r}"
  by (induction xs) auto

lemma update_where_idem:
  "(\<And>r. P r \<Longrightarrow> P (f r) \<and> f (f r) = f r) \<Longrightarrow>
   update_where P f (update_where P f xs) = update_where P f xs"
  by (induction xs) auto

lemma update_where_disables:
  "(\<And>r. P r \<Longrightarrow> \<not> P (f r)) \<Longrightarrow>
   update_where P g (update_where P f xs) = update_where P f xs"
  by (induction xs) auto

lemma find_update_where_frame:
  assumes "\<And>r. P r \<Longrightarrow> Q (f r) = Q r" and "\<And>r. P r \<Longrightarrow> Q r \<Longrightarrow> g (f r) = g r"
  shows "map_option g (find Q (update_where P f xs)) = map_option g (find Q xs)"
  using assms by (induction xs) auto

lemma find_Some_in_set: "find P xs = Some x \<Longrightarrow> x \<in> set xs \<and> P x"
  by (auto simp: find_Some_iff)

lemma distinct_map_delete_where:
  "distinct (map g xs) \<Longrightarrow> distinct (map g (delete_where P xs))"
  by (simp add: delete_where_def distinct_map_filter)

lemma distinct_update_where_key:
  assumes "distinct (map key xs)" and "distinct (map g xs)"
    and "\<And>r s. r \<in> set xs \<Longrightarrow> key r = k \<Longrightarrow> s \<in> set xs \<Longrightarrow> key s \<noteq> k \<Longrightarrow> g s \<noteq> g (f r)"
  shows "distinct (map g (update_where (\<lambda>r. key r = k) f xs))"
  using assms
proof (induction xs)
  case Nil
  then show ?case by simp
next
  case (Cons r xs)
  show ?case
  proof (cases "key r = k")
    case True
    with Cons.prems(1) have "\<forall>s \<in> set xs. key s \<noteq> k" by (auto simp: image_iff)
    then have same: "update_where (\<lambda>r. key r = k) f xs = xs" by (rule update_where_no_match)
    have "g (f r) \<notin> g ` set xs"
    proof
      assume "g (f r) \<in> g ` set xs"
      then obtain s where "s \<in> set xs" and "g s = g (f r)" by auto
      with True Cons.prems(3) \<open>\<forall>s \<in> set xs. key s \<noteq> k\<close> show False
        by (metis list.set_intros(1) list.set_intros(2))
    qed
    with True same Cons.prems(2) show ?thesis by simp
  next
    case False
    with Cons have IH: "distinct (map g (update_where (\<lambda>r. key r = k) f xs))" by auto
    from False Cons.prems have "g r \<notin> g ` set (update_where (\<lambda>r. key r = k) f xs)"
      by (auto simp: set_update_where)
    with False IH show ?thesis by simp
  qed
qed

lemma filter_update_where_frame:
  "(\<And>r. r \<in> set xs \<Longrightarrow> P r \<Longrightarrow> \<not> Q r \<and> \<not> Q (f r)) \<Longrightarrow>
   filter Q (update_where P f xs) = filter Q xs"
  by (induction xs) auto

lemma find_distinct_key:
  "distinct (map k xs) \<Longrightarrow> x \<in> set xs \<Longrightarrow> find (\<lambda>y. k y = k x) xs = Some x"
  by (induction xs) (auto simp: image_iff)

lemma ball_map_eq:
  assumes "map f xs = map f ys"
  shows "(\<forall>x \<in> set xs. P (f x)) \<longleftrightarrow> (\<forall>y \<in> set ys. P (f y))"
proof -
  have "f ` set xs = f ` set ys" using assms by (metis set_map)
  then have "(\<forall>z \<in> f ` set xs. P z) \<longleftrightarrow> (\<forall>z \<in> f ` set ys. P z)" by simp
  then show ?thesis by simp
qed

end
