(* ===== verification/Session.thy ===== *)
theory Session
  imports Prelude
begin

text \<open>
  The session store of \<open>src/university_admission.py\<close> (lines 311--331): the
  module-global dictionary \<open>active_tokens\<close>, filled by \<open>create_token\<close> at login and
  read by \<open>verify_token\<close>, and the two token checks every protected handler opens
  with. A token is valid while less than \<open>timedelta(hours=24)\<close> has passed since it
  was issued; entries are never removed.
\<close>

record token_data =
  td_user_id :: row_id
  td_username :: string
  td_role :: role
  created_at :: time

type_synonym token_store = "string \<rightharpoonup> token_data"

text \<open>\<open>timedelta(hours=24)\<close>, in microseconds (the resolution of \<open>datetime\<close>).\<close>

definition token_ttl :: int where
  "token_ttl = 24 * 60 * 60 * 1000000"

text \<open>
  \<open>create_token\<close>: the fresh token \<open>tok\<close> is \<open>secrets.token_hex(32)\<close>, chosen by the
  environment; the dictionary assignment overwrites an entry with the same key.
\<close>

definition create_token ::
  "token_store \<Rightarrow> string \<Rightarrow> row_id \<Rightarrow> string \<Rightarrow> role \<Rightarrow> time \<Rightarrow> token_store \<times> string" where
  "create_token toks tok uid uname r now =
     (toks(tok \<mapsto> \<lparr>td_user_id = uid, td_username = uname, td_role = r, created_at = now\<rparr>), tok)"

definition verify_token :: "token_store \<Rightarrow> string \<Rightarrow> time \<Rightarrow> token_data option" where
  "verify_token toks tok now =
     (case toks tok of
        None \<Rightarrow> None
      | Some d \<Rightarrow> if now - created_at d < token_ttl then Some d else None)"

text \<open>
  The check every protected handler opens with: the \<open>Authorization\<close> header (\<open>None\<close>
  when absent) must be non-empty (else 401 \<open>Unauthorized\<close>) and a valid token (else
  401 \<open>Invalid token\<close>).
\<close>

definition authenticate :: "token_store \<Rightarrow> string option \<Rightarrow> time \<Rightarrow> api_error + token_data" where
  "authenticate toks hdr now =
     (case truthy_str hdr of
        None \<Rightarrow> Inl Unauthorized
      | Some tok \<Rightarrow>
          (case verify_token toks tok now of
             None \<Rightarrow> Inl InvalidToken
           | Some d \<Rightarrow> Inr d))"

text \<open>
  The staff variant (\<open>get_pending_aspirations\<close>, \<open>approve_aspiration\<close>,
  \<open>reject_aspiration\<close> handlers): an invalid token and a non-staff role both give 403.
\<close>

definition authenticate_staff :: "token_store \<Rightarrow> string option \<Rightarrow> time \<Rightarrow> api_error + token_data" where
  "authenticate_staff toks hdr now =
     (case truthy_str hdr of
        None \<Rightarrow> Inl Unauthorized
      | Some tok \<Rightarrow>
          (case verify_token toks tok now of
             None \<Rightarrow> Inl PermissionDenied
           | Some d \<Rightarrow> if td_role d \<in> {Manager, Admin} then Inr d else Inl PermissionDenied))"

declare token_ttl_def [eval_simps] verify_token_def [eval_simps] authenticate_def [eval_simps]
  authenticate_staff_def [eval_simps] create_token_def [eval_simps]

subsection \<open>Lemmas\<close>

lemma verify_token_Some:
  "verify_token toks tok now = Some d \<longleftrightarrow> toks tok = Some d \<and> now - created_at d < token_ttl"
  by (auto simp: verify_token_def split: option.splits)

lemma authenticate_Inr:
  "authenticate toks hdr now = Inr d \<longleftrightarrow>
     (\<exists>tok. hdr = Some tok \<and> tok \<noteq> [] \<and> verify_token toks tok now = Some d)"
  by (auto simp: authenticate_def split: option.splits)

lemma authenticate_staff_Inr:
  "authenticate_staff toks hdr now = Inr d \<longleftrightarrow>
     (\<exists>tok. hdr = Some tok \<and> tok \<noteq> [] \<and> verify_token toks tok now = Some d \<and> td_role d \<noteq> Candidate)"
  by (cases "td_role d") (auto simp: authenticate_staff_def split: option.splits)

subsection \<open>Properties of the session store\<close>

text \<open>C13: Token lifetime (P5): a token issued at \<open>T\<close> is accepted exactly while less
  than 24 hours have passed, so it is accepted at \<open>T + 23h59m\<close> and refused at
  \<open>T + 24h01m\<close>.\<close>

theorem verify_token_ttl:
  "verify_token (fst (create_token toks tok uid uname r T)) tok now \<noteq> None \<longleftrightarrow> now - T < token_ttl"
  by (simp add: create_token_def verify_token_def)

text \<open>Scenario E: once 24 hours have passed, every protected handler's token check
  answers 401 \<open>Invalid token\<close> (and the staff check 403), for every later time.\<close>

theorem authenticate_expired:
  assumes "tok \<noteq> []" and "T + token_ttl \<le> now"
  shows "authenticate (fst (create_token toks tok uid uname r T)) (Some tok) now = Inl InvalidToken \<and>
         authenticate_staff (fst (create_token toks tok uid uname r T)) (Some tok) now = Inl PermissionDenied"
  using assms by (simp add: create_token_def authenticate_def authenticate_staff_def verify_token_def)

theorem authenticate_expired_witness:
  "authenticate (fst (create_token Map.empty ''t0'' 3 ''candidate'' Candidate 0)) (Some ''t0'') 86400000000
     = Inl InvalidToken"
  using authenticate_expired [of "''t0''" 0 86400000000 Map.empty 3 "''candidate''" Candidate]
  by (simp add: token_ttl_def)

text \<open>No lost update: issuing a token leaves every other session exactly as it was,
  valid or expired.\<close>

theorem create_token_other_sessions:
  "tok' \<noteq> tok \<Longrightarrow>
   verify_token (fst (create_token toks tok uid uname r T)) tok' now = verify_token toks tok' now"
  by (simp add: create_token_def verify_token_def)

theorem create_token_other_sessions_witness:
  "verify_token (fst (create_token (fst (create_token Map.empty ''a'' 3 ''candidate'' Candidate 0))
       ''b'' 2 ''manager'' Manager 5)) ''a'' 10 =
   Some \<lparr>td_user_id = 3, td_username = ''candidate'', td_role = Candidate, created_at = 0\<rparr>"
proof -
  have "verify_token (fst (create_token (fst (create_token Map.empty ''a'' 3 ''candidate'' Candidate 0))
       ''b'' 2 ''manager'' Manager 5)) ''a'' 10 =
        verify_token (fst (create_token Map.empty ''a'' 3 ''candidate'' Candidate 0)) ''a'' 10"
    by (rule create_token_other_sessions) simp
  then show ?thesis by (simp add: create_token_def verify_token_def token_ttl_def)
qed

end
