(* ===== verification/Database.thy ===== *)
theory Database
  imports Prelude
begin

text \<open>
  The relational store of \<open>src/university_admission.py\<close>: the tables created by
  \<open>init_database\<close> (lines 39--187) as lists of rows in rowid order, their
  \<open>AUTOINCREMENT\<close> counters, and the integrity constraints the engine enforces on the
  statements the handlers issue. Foreign keys are not enforced by
  SQLite unless \<open>PRAGMA foreign_keys\<close> is set, which the program never does, so
  they are not part of the model. Each insert and priority update below fails with the
  first constraint the engine checks (\<open>NOT NULL\<close>, then \<open>CHECK\<close>, then \<open>UNIQUE\<close>)
  and otherwise returns the new store.
\<close>

datatype exam_status = Upcoming | Active | Completed

text \<open>\<open>aspirations.status\<close> (line 132) is \<open>TEXT DEFAULT 'pending'\<close> with no
  \<open>CHECK\<close>; the program writes only the default and the literals \<open>'approved'\<close>
  (\<open>approve_aspiration\<close>) and \<open>'rejected'\<close> (\<open>reject_aspiration\<close>), so in every
  state it reaches the column holds one of these three values.\<close>

datatype asp_status = Pending | Approved | Rejected

text \<open>\<open>aspirations.payment_status\<close>: \<open>'pending'\<close> or \<open>'paid'\<close>.\<close>

datatype pay_flag = Unpaid | Paid

text \<open>\<open>payments.status\<close>: \<open>'pending'\<close> or \<open>'completed'\<close>.\<close>

datatype payment_status = TxnPending | TxnCompleted

text \<open>\<open>users\<close> without \<open>created_at\<close> (line 70), a default no statement reads.\<close>

record user_row =
  u_id :: row_id
  username :: string
  password :: string
  email :: string
  full_name :: string
  u_role :: role
  u_active :: bool

text \<open>The demographic columns of \<open>candidates\<close>, all nullable.\<close>

record profile =
  date_of_birth :: "string option"
  gender :: "string option"
  address :: "string option"
  phone :: "string option"
  high_school :: "string option"
  graduation_year :: "int option"

record candidate_row =
  c_id :: row_id
  c_user_id :: row_id
  citizen_id :: string
  c_profile :: profile

text \<open>\<open>exams\<close>; the dates are the \<open>DATE\<close> texts as stored, \<open>aspiration_fee\<close> (a \<open>REAL\<close>
  column) holds whole numbers of dong.\<close>

record exam_row =
  e_id :: row_id
  e_code :: string
  e_name :: string
  e_description :: "string option"
  registration_start :: string
  registration_end :: string
  result_announcement :: string
  e_status :: exam_status
  max_aspirations :: int
  e_fee :: int
  e_created_at :: time

text \<open>\<open>universities\<close>; \<open>un_active\<close> is \<open>status = 'active'\<close>.\<close>

record university_row =
  un_id :: row_id
  un_code :: string
  un_name :: string
  un_address :: "string option"
  un_phone :: "string option"
  un_email :: "string option"
  un_website :: "string option"
  un_description :: "string option"
  un_active :: bool

text \<open>\<open>majors\<close>; \<open>tuition_fee\<close> (a \<open>REAL\<close> column) in whole dong.\<close>

record major_row =
  m_id :: row_id
  m_university :: row_id
  m_code :: string
  m_name :: string
  m_description :: "string option"
  m_quota :: int
  m_subject_group :: string
  m_duration :: int
  m_tuition_fee :: "int option"
  m_active :: bool

record aspiration_row =
  a_id :: row_id
  a_candidate :: row_id
  a_exam :: row_id
  a_university :: row_id
  a_major :: row_id
  priority_order :: int
  a_status :: asp_status
  a_payment :: pay_flag
  registered_at :: time
  approved_by :: "row_id option"
  approved_at :: "time option"
  manager_notes :: "string option"

record payment_row =
  p_id :: row_id
  p_candidate :: row_id
  p_exam :: row_id
  p_aspiration :: row_id
  amount :: int
  payment_method :: string
  transaction_id :: string
  p_status :: payment_status
  payment_date :: "time option"
  p_created_at :: time

text \<open>\<open>documents.category\<close>: \<open>CHECK(category IN ('guide', 'regulation', 'template',
  'announcement'))\<close>; the column is nullable.\<close>

datatype doc_category = Guide | Regulation | Template | Announcement

record document_row =
  doc_id :: row_id
  title :: string
  doc_description :: "string option"
  file_path :: "string option"
  file_type :: "string option"
  file_size :: "int option"
  category :: "doc_category option"
  doc_active :: bool
  created_by :: "row_id option"
  doc_created_at :: time

text \<open>The database file; \<open>seq_*\<close> are the \<open>sqlite_sequence\<close> entries of the
  \<open>AUTOINCREMENT\<close> tables the requests insert into.\<close>

record db =
  users :: "user_row list"
  candidates :: "candidate_row list"
  exams :: "exam_row list"
  universities :: "university_row list"
  majors :: "major_row list"
  aspirations :: "aspiration_row list"
  payments :: "payment_row list"
  documents :: "document_row list"
  seq_users :: row_id
  seq_candidates :: row_id
  seq_aspirations :: row_id
  seq_payments :: row_id
  seq_documents :: row_id
  seq_exams :: row_id
  seq_universities :: row_id
  seq_majors :: row_id

subsection \<open>The constraints on \<open>aspirations\<close>\<close>

definition slot_of :: "aspiration_row \<Rightarrow> row_id \<times> row_id \<times> int" where
  "slot_of a = (a_candidate a, a_exam a, priority_order a)"

definition priority_ok :: "int \<Rightarrow> bool" where
  "priority_ok p \<longleftrightarrow> 1 \<le> p \<and> p \<le> 10"

text \<open>
  \<open>INSERT INTO aspirations (candidate_id, exam_id, university_id, major_id,
  priority_order)\<close> of \<open>add_aspiration\<close>; the other columns take their defaults
  (\<open>'pending'\<close>, \<open>'pending'\<close>, \<open>CURRENT_TIMESTAMP\<close>, \<open>NULL\<close>).
\<close>

definition insert_aspiration ::
  "db \<Rightarrow> row_id \<Rightarrow> row_id \<Rightarrow> row_id \<Rightarrow> row_id \<Rightarrow> int \<Rightarrow> time \<Rightarrow> sql_error + db" where
  "insert_aspiration d cid eid uid mid p now =
     (if \<not> priority_ok p then Inl CheckPriority
      else if (cid, eid, p) \<in> set (map slot_of (aspirations d)) then Inl UniqueSlot
      else Inr (d\<lparr>aspirations := aspirations d @
                   [\<lparr>a_id = seq_aspirations d + 1, a_candidate = cid, a_exam = eid,
                     a_university = uid, a_major = mid, priority_order = p,
                     a_status = Pending, a_payment = Unpaid, registered_at = now,
                     approved_by = None, approved_at = None, manager_notes = None\<rparr>],
                 seq_aspirations := seq_aspirations d + 1\<rparr>))"

text \<open>
  \<open>UPDATE aspirations SET priority_order = ? WHERE id = ?\<close> of
  \<open>reorder_aspirations\<close>: the new value (\<open>None\<close> for JSON \<open>null\<close>) is checked
  against the row it is written to, and \<open>UNIQUE\<close> against every other row.
\<close>

definition update_priority :: "db \<Rightarrow> row_id \<Rightarrow> int option \<Rightarrow> sql_error + db" where
  "update_priority d aid po =
     (case find (\<lambda>a. a_id a = aid) (aspirations d) of
        None \<Rightarrow> Inr d
      | Some a \<Rightarrow>
          (case po of
             None \<Rightarrow> Inl NotNullPriority
           | Some p \<Rightarrow>
               if \<not> priority_ok p then Inl CheckPriority
               else if (\<exists>b \<in> set (aspirations d). a_id b \<noteq> aid \<and>
                          slot_of b = (a_candidate a, a_exam a, p)) then Inl UniqueSlot
               else Inr (d\<lparr>aspirations := update_where (\<lambda>b. a_id b = aid)
                                            (\<lambda>b. b\<lparr>priority_order := p\<rparr>) (aspirations d)\<rparr>)))"

subsection \<open>The constraints on \<open>payments\<close>, \<open>users\<close> and \<open>candidates\<close>\<close>

text \<open>\<open>INSERT INTO payments (candidate_id, exam_id, aspiration_id, amount,
  payment_method, transaction_id)\<close>; status defaults to \<open>'pending'\<close>, \<open>created_at\<close>
  to \<open>CURRENT_TIMESTAMP\<close>.\<close>

definition insert_payment ::
  "db \<Rightarrow> row_id \<Rightarrow> row_id \<Rightarrow> row_id \<Rightarrow> int \<Rightarrow> string \<Rightarrow> string \<Rightarrow> time \<Rightarrow> sql_error + db \<times> row_id" where
  "insert_payment d cid eid aid amt meth tx now =
     (if tx \<in> set (map transaction_id (payments d)) then Inl UniqueTransaction
      else Inr (d\<lparr>payments := payments d @
                   [\<lparr>p_id = seq_payments d + 1, p_candidate = cid, p_exam = eid,
                     p_aspiration = aid, amount = amt, payment_method = meth,
                     transaction_id = tx, p_status = TxnPending, payment_date = None,
                     p_created_at = now\<rparr>],
                 seq_payments := seq_payments d + 1\<rparr>, seq_payments d + 1))"

text \<open>\<open>INSERT INTO users (username, password, email, full_name, role)\<close>; status
  defaults to \<open>'active'\<close>.\<close>

definition insert_user ::
  "db \<Rightarrow> string \<Rightarrow> string \<Rightarrow> string \<Rightarrow> string \<Rightarrow> role \<Rightarrow> sql_error + db \<times> row_id" where
  "insert_user d un pw em fn r =
     (if un \<in> set (map username (users d)) \<or> em \<in> set (map email (users d)) then Inl UniqueUser
      else Inr (d\<lparr>users := users d @
                   [\<lparr>u_id = seq_users d + 1, username = un, password = pw, email = em,
                     full_name = fn, u_role = r, u_active = True\<rparr>],
                 seq_users := seq_users d + 1\<rparr>, seq_users d + 1))"

definition insert_candidate :: "db \<Rightarrow> row_id \<Rightarrow> string \<Rightarrow> profile \<Rightarrow> sql_error + db" where
  "insert_candidate d uid cit prof =
     (if cit \<in> set (map citizen_id (candidates d)) then Inl UniqueCitizen
      else Inr (d\<lparr>candidates := candidates d @
                   [\<lparr>c_id = seq_candidates d + 1, c_user_id = uid, citizen_id = cit, c_profile = prof\<rparr>],
                 seq_candidates := seq_candidates d + 1\<rparr>))"

subsection \<open>The inserts of the seed data\<close>

text \<open>\<open>INSERT INTO exams (code, name, description, registration_start,
  registration_end, result_announcement, status)\<close>; \<open>max_aspirations\<close> and
  \<open>aspiration_fee\<close> take their defaults 4 and 50000.\<close>

definition insert_exam ::
  "db \<Rightarrow> string \<Rightarrow> string \<Rightarrow> string option \<Rightarrow> string \<Rightarrow> string \<Rightarrow> string \<Rightarrow> exam_status \<Rightarrow> time \<Rightarrow>
   sql_error + db" where
  "insert_exam d code name descr rs re ra st now =
     (if code \<in> set (map e_code (exams d)) then Inl UniqueExam
      else Inr (d\<lparr>exams := exams d @
                   [\<lparr>e_id = seq_exams d + 1, e_code = code, e_name = name, e_description = descr,
                     registration_start = rs, registration_end = re, result_announcement = ra,
                     e_status = st, max_aspirations = 4, e_fee = 50000, e_created_at = now\<rparr>],
                 seq_exams := seq_exams d + 1\<rparr>))"

text \<open>\<open>INSERT INTO universities (code, name, address)\<close>.\<close>

definition insert_university :: "db \<Rightarrow> string \<Rightarrow> string \<Rightarrow> string \<Rightarrow> sql_error + db" where
  "insert_university d code name addr =
     (if code \<in> set (map un_code (universities d)) then Inl UniqueUniversity
      else Inr (d\<lparr>universities := universities d @
                   [\<lparr>un_id = seq_universities d + 1, un_code = code, un_name = name,
                     un_address = Some addr, un_phone = None, un_email = None, un_website = None,
                     un_description = None, un_active = True\<rparr>],
                 seq_universities := seq_universities d + 1\<rparr>))"

text \<open>\<open>INSERT INTO majors (university_id, code, name, quota, subject_group)\<close>.\<close>

definition insert_major :: "db \<Rightarrow> row_id \<Rightarrow> string \<Rightarrow> string \<Rightarrow> int \<Rightarrow> string \<Rightarrow> sql_error + db" where
  "insert_major d uid code name quota sg =
     (if (uid, code) \<in> set (map (\<lambda>m. (m_university m, m_code m)) (majors d)) then Inl UniqueMajor
      else Inr (d\<lparr>majors := majors d @
                   [\<lparr>m_id = seq_majors d + 1, m_university = uid, m_code = code, m_name = name,
                     m_description = None, m_quota = quota, m_subject_group = sg, m_duration = 4,
                     m_tuition_fee = None, m_active = True\<rparr>],
                 seq_majors := seq_majors d + 1\<rparr>))"

text \<open>\<open>INSERT INTO documents (title, description, category, created_by)\<close>: the table
  has no \<open>UNIQUE\<close> constraint, and the typed category always passes its \<open>CHECK\<close>.\<close>

definition insert_document :: "db \<Rightarrow> string \<Rightarrow> string \<Rightarrow> doc_category \<Rightarrow> row_id \<Rightarrow> time \<Rightarrow> db" where
  "insert_document d t descr cat uid now =
     d\<lparr>documents := documents d @
        [\<lparr>doc_id = seq_documents d + 1, title = t, doc_description = Some descr, file_path = None,
          file_type = None, file_size = None, category = Some cat, doc_active = True,
          created_by = Some uid, doc_created_at = now\<rparr>],
      seq_documents := seq_documents d + 1\<rparr>"

text \<open>\<open>INSERT OR IGNORE\<close>: a statement that violates a constraint leaves the store as
  it was.\<close>

definition or_ignore :: "sql_error + db \<Rightarrow> db \<Rightarrow> db" where
  "or_ignore r d = (case r of Inl _ \<Rightarrow> d | Inr d' \<Rightarrow> d')"

text \<open>A database file with the tables and no rows.\<close>

definition empty_db :: db where
  "empty_db =
     \<lparr>users = [], candidates = [], exams = [], universities = [], majors = [], aspirations = [],
      payments = [], documents = [], seq_users = 0, seq_candidates = 0, seq_aspirations = 0,
      seq_payments = 0, seq_documents = 0, seq_exams = 0, seq_universities = 0, seq_majors = 0\<rparr>"

subsection \<open>Queries shared by the handlers\<close>

text \<open>\<open>SELECT id FROM candidates WHERE user_id = ?\<close> with \<open>fetchone()\<close>.\<close>

definition candidate_of_user :: "db \<Rightarrow> row_id \<Rightarrow> row_id option" where
  "candidate_of_user d uid = map_option c_id (find (\<lambda>c. c_user_id c = uid) (candidates d))"

text \<open>\<open>SELECT id FROM exams WHERE status = "active" LIMIT 1\<close>.\<close>

definition active_exam :: "db \<Rightarrow> row_id option" where
  "active_exam d = map_option e_id (find (\<lambda>e. e_status e = Active) (exams d))"

declare slot_of_def [eval_simps] priority_ok_def [eval_simps] insert_aspiration_def [eval_simps]
  update_priority_def [eval_simps] insert_payment_def [eval_simps] insert_user_def [eval_simps]
  insert_candidate_def [eval_simps] candidate_of_user_def [eval_simps] active_exam_def [eval_simps]
  insert_exam_def [eval_simps] insert_university_def [eval_simps] insert_major_def [eval_simps]
  insert_document_def [eval_simps] or_ignore_def [eval_simps] empty_db_def [eval_simps]

subsection \<open>What the constraints guarantee\<close>

text \<open>
  The well-formedness of a store: the primary keys are distinct and below their
  \<open>AUTOINCREMENT\<close> counter, and every \<open>UNIQUE\<close> and \<open>CHECK\<close> constraint of the
  schema holds. The engine keeps it because every insert and update above checks it.
\<close>

definition db_wf :: "db \<Rightarrow> bool" where
  "db_wf d \<longleftrightarrow>
     distinct (map a_id (aspirations d)) \<and> (\<forall>a \<in> set (aspirations d). a_id a \<le> seq_aspirations d) \<and>
     distinct (map slot_of (aspirations d)) \<and>
     (\<forall>a \<in> set (aspirations d). priority_ok (priority_order a)) \<and>
     distinct (map p_id (payments d)) \<and> (\<forall>p \<in> set (payments d). p_id p \<le> seq_payments d) \<and>
     distinct (map transaction_id (payments d)) \<and>
     distinct (map u_id (users d)) \<and> (\<forall>u \<in> set (users d). u_id u \<le> seq_users d) \<and>
     distinct (map username (users d)) \<and> distinct (map email (users d)) \<and>
     distinct (map c_id (candidates d)) \<and> (\<forall>c \<in> set (candidates d). c_id c \<le> seq_candidates d) \<and>
     distinct (map citizen_id (candidates d))"

subsection \<open>Every constrained statement keeps the store well formed\<close>

lemma slot_of_priority_update [simp]:
  "slot_of (a\<lparr>priority_order := p\<rparr>) = (a_candidate a, a_exam a, p)"
  by (simp add: slot_of_def)

lemma insert_aspiration_wf:
  assumes "insert_aspiration d cid eid uid mid p now = Inr d'" and wf: "db_wf d"
  shows "db_wf d'"
proof -
  from assms(1) have ok: "priority_ok p" and free: "(cid, eid, p) \<notin> set (map slot_of (aspirations d))"
    and d': "d' = d\<lparr>aspirations := aspirations d @
                   [\<lparr>a_id = seq_aspirations d + 1, a_candidate = cid, a_exam = eid,
                     a_university = uid, a_major = mid, priority_order = p,
                     a_status = Pending, a_payment = Unpaid, registered_at = now,
                     approved_by = None, approved_at = None, manager_notes = None\<rparr>],
                 seq_aspirations := seq_aspirations d + 1\<rparr>"
    by (auto simp: insert_aspiration_def split: if_splits)
  from wf have fresh: "seq_aspirations d + 1 \<notin> set (map a_id (aspirations d))"
    and le: "\<forall>a \<in> set (aspirations d). a_id a \<le> seq_aspirations d + 1"
    by (auto simp: db_wf_def)
  from wf fresh le ok free show ?thesis unfolding d' by (simp add: db_wf_def slot_of_def)
qed

lemma update_priority_wf:
  assumes "update_priority d aid po = Inr d'" and "db_wf d"
  shows "db_wf d'"
proof (cases "find (\<lambda>a. a_id a = aid) (aspirations d)")
  case None
  with assms show ?thesis by (simp add: update_priority_def)
next
  case (Some a)
  then have a: "a \<in> set (aspirations d)" "a_id a = aid" by (auto dest: find_Some_in_set)
  from assms Some obtain p where po: "po = Some p" and ok: "priority_ok p"
    and free: "\<forall>b \<in> set (aspirations d). a_id b \<noteq> aid \<longrightarrow> slot_of b \<noteq> (a_candidate a, a_exam a, p)"
    and d': "d' = d\<lparr>aspirations := update_where (\<lambda>b. a_id b = aid)
                      (\<lambda>b. b\<lparr>priority_order := p\<rparr>) (aspirations d)\<rparr>"
    by (auto simp: update_priority_def split: option.splits if_splits)
  have same_row: "\<And>r. r \<in> set (aspirations d) \<Longrightarrow> a_id r = aid \<Longrightarrow> r = a"
    using assms(2) a unfolding db_wf_def distinct_map inj_on_def by auto
  have ids: "map a_id (update_where (\<lambda>b. a_id b = aid) (\<lambda>b. b\<lparr>priority_order := p\<rparr>) (aspirations d))
             = map a_id (aspirations d)"
    by (rule map_update_where_frame) simp
  have slots: "distinct (map slot_of (update_where (\<lambda>b. a_id b = aid)
                 (\<lambda>b. b\<lparr>priority_order := p\<rparr>) (aspirations d)))"
    using assms(2) free same_row
    by (intro distinct_update_where_key) (auto simp: db_wf_def)
  have ids_set: "set (map a_id (update_where (\<lambda>b. a_id b = aid) (\<lambda>b. b\<lparr>priority_order := p\<rparr>) (aspirations d)))
             = set (map a_id (aspirations d))"
    by (simp only: ids)
  from assms(2) ok have "\<forall>r \<in> set (update_where (\<lambda>b. a_id b = aid) (\<lambda>b. b\<lparr>priority_order := p\<rparr>) (aspirations d)).
      priority_ok (priority_order r) \<and> a_id r \<le> seq_aspirations d"
    by (auto simp: set_update_where db_wf_def)
  with assms(2) d' ids slots show ?thesis
    by (simp add: db_wf_def)
qed

lemma insert_payment_wf:
  assumes "insert_payment d cid eid aid amt meth tx now = Inr (d', pid)" and wf: "db_wf d"
  shows "db_wf d'"
proof -
  from assms(1) have tx: "tx \<notin> set (map transaction_id (payments d))"
    and d': "d' = d\<lparr>payments := payments d @
                   [\<lparr>p_id = seq_payments d + 1, p_candidate = cid, p_exam = eid,
                     p_aspiration = aid, amount = amt, payment_method = meth,
                     transaction_id = tx, p_status = TxnPending, payment_date = None,
                     p_created_at = now\<rparr>],
                 seq_payments := seq_payments d + 1\<rparr>"
    by (auto simp: insert_payment_def split: if_splits)
  from wf have fresh: "seq_payments d + 1 \<notin> set (map p_id (payments d))"
    and le: "\<forall>p \<in> set (payments d). p_id p \<le> seq_payments d + 1"
    by (auto simp: db_wf_def)
  from wf fresh le tx show ?thesis unfolding d' by (simp add: db_wf_def)
qed

lemma insert_user_wf:
  assumes "insert_user d un pw em fn r = Inr (d', uid)" and wf: "db_wf d"
  shows "db_wf d'"
proof -
  from assms(1) have un: "un \<notin> set (map username (users d))"
    and em: "em \<notin> set (map email (users d))"
    and d': "d' = d\<lparr>users := users d @
                   [\<lparr>u_id = seq_users d + 1, username = un, password = pw, email = em,
                     full_name = fn, u_role = r, u_active = True\<rparr>],
                 seq_users := seq_users d + 1\<rparr>"
    by (auto simp: insert_user_def split: if_splits)
  from wf have fresh: "seq_users d + 1 \<notin> set (map u_id (users d))"
    and le: "\<forall>u \<in> set (users d). u_id u \<le> seq_users d + 1"
    by (auto simp: db_wf_def)
  from wf fresh le un em show ?thesis unfolding d' by (simp add: db_wf_def)
qed

lemma insert_candidate_wf:
  assumes "insert_candidate d uid cit prof = Inr d'" and wf: "db_wf d"
  shows "db_wf d'"
proof -
  from assms(1) have cit: "cit \<notin> set (map citizen_id (candidates d))"
    and d': "d' = d\<lparr>candidates := candidates d @
                   [\<lparr>c_id = seq_candidates d + 1, c_user_id = uid, citizen_id = cit, c_profile = prof\<rparr>],
                 seq_candidates := seq_candidates d + 1\<rparr>"
    by (auto simp: insert_candidate_def split: if_splits)
  from wf have fresh: "seq_candidates d + 1 \<notin> set (map c_id (candidates d))"
    and le: "\<forall>c \<in> set (candidates d). c_id c \<le> seq_candidates d + 1"
    by (auto simp: db_wf_def)
  from wf fresh le cit show ?thesis unfolding d' by (simp add: db_wf_def)
qed

lemma wf_find_aspiration:
  "db_wf d \<Longrightarrow> a \<in> set (aspirations d) \<Longrightarrow> find (\<lambda>x. a_id x = a_id a) (aspirations d) = Some a"
  by (rule find_distinct_key) (simp_all add: db_wf_def)

lemma wf_same_id:
  "db_wf d \<Longrightarrow> a \<in> set (aspirations d) \<Longrightarrow> b \<in> set (aspirations d) \<Longrightarrow> a_id a = a_id b \<Longrightarrow> a = b"
  unfolding db_wf_def distinct_map inj_on_def by auto

lemma update_priority_frame:
  "update_priority d aid po = Inr d' \<Longrightarrow> d' = d\<lparr>aspirations := aspirations d'\<rparr>"
  by (auto simp: update_priority_def split: option.splits if_splits)

lemma db_wf_aspirations_frame:
  assumes wf: "db_wf d"
    and ids: "map a_id xs = map a_id (aspirations d)"
    and slots: "map slot_of xs = map slot_of (aspirations d)"
  shows "db_wf (d\<lparr>aspirations := xs\<rparr>)"
proof -
  have "\<forall>a \<in> set xs. a_id a \<le> seq_aspirations d"
    using wf ball_map_eq [OF ids, where P = "\<lambda>x. x \<le> seq_aspirations d"] by (simp add: db_wf_def)
  moreover have "\<forall>a \<in> set xs. priority_ok (priority_order a)"
    using wf ball_map_eq [OF slots, where P = "\<lambda>s. priority_ok (snd (snd s))"]
    by (simp add: db_wf_def slot_of_def)
  ultimately show ?thesis
    using wf ids slots by (simp add: db_wf_def)
qed

subsection \<open>The payment flags of the aspirations\<close>

definition pay_view :: "db \<Rightarrow> (row_id \<times> pay_flag) list" where
  "pay_view d = map (\<lambda>a. (a_id a, a_payment a)) (aspirations d)"

text \<open>From \<open>d\<close> to \<open>d'\<close> no aspiration that was paid stops being paid.\<close>

definition keeps_paid :: "db \<Rightarrow> db \<Rightarrow> bool" where
  "keeps_paid d d' \<longleftrightarrow>
     (\<forall>a' \<in> set (aspirations d'). \<forall>b \<in> set (aspirations d).
        a_id b = a_id a' \<longrightarrow> a_payment b = Paid \<longrightarrow> a_payment a' = Paid)"

lemma keeps_paid_intro:
  assumes wf: "db_wf d"
    and rows: "\<And>a'. a' \<in> set (aspirations d') \<Longrightarrow>
       a_payment a' = Paid \<or> (a_id a', a_payment a') \<in> set (pay_view d) \<or>
       a_id a' \<notin> set (map a_id (aspirations d))"
  shows "keeps_paid d d'"
  unfolding keeps_paid_def
proof (intro ballI impI)
  fix a' b
  assume a': "a' \<in> set (aspirations d')" and b: "b \<in> set (aspirations d)"
    and same: "a_id b = a_id a'" and paid: "a_payment b = Paid"
  from rows [OF a'] show "a_payment a' = Paid"
  proof (elim disjE)
    assume "(a_id a', a_payment a') \<in> set (pay_view d)"
    then obtain c where c: "c \<in> set (aspirations d)" "a_id c = a_id a'" "a_payment c = a_payment a'"
      by (auto simp: pay_view_def)
    with b same wf have "c = b" by (intro wf_same_id) simp_all
    with c paid show ?thesis by simp
  next
    assume "a_id a' \<notin> set (map a_id (aspirations d))"
    with b same show ?thesis by (metis imageI set_map)
  qed
qed

lemma keeps_paid_same_view:
  assumes wf: "db_wf d" and view: "pay_view d' = pay_view d"
  shows "keeps_paid d d'"
proof (rule keeps_paid_intro [OF wf])
  fix a' assume "a' \<in> set (aspirations d')"
  then have "(a_id a', a_payment a') \<in> set (pay_view d')" by (auto simp: pay_view_def)
  with view show "a_payment a' = Paid \<or> (a_id a', a_payment a') \<in> set (pay_view d) \<or>
       a_id a' \<notin> set (map a_id (aspirations d))" by simp
qed

lemma keeps_paid_subset:
  "db_wf d \<Longrightarrow> set (aspirations d') \<subseteq> set (aspirations d) \<Longrightarrow> keeps_paid d d'"
  by (rule keeps_paid_intro) (auto simp: pay_view_def)

lemma pay_view_update_priority:
  "update_priority d aid po = Inr d' \<Longrightarrow> pay_view d' = pay_view d"
  by (auto simp: update_priority_def pay_view_def map_update_where_frame split: option.splits if_splits)

text \<open>From \<open>d\<close> to \<open>d'\<close> no aspiration became paid.\<close>

definition pays_nothing :: "db \<Rightarrow> db \<Rightarrow> bool" where
  "pays_nothing d d' \<longleftrightarrow>
     (\<forall>a' \<in> set (aspirations d'). a_payment a' = Paid \<longrightarrow>
        (\<exists>b \<in> set (aspirations d). a_id b = a_id a' \<and> a_payment b = Paid))"

lemma pays_nothing_same_view:
  assumes view: "pay_view d' = pay_view d"
  shows "pays_nothing d d'"
  unfolding pays_nothing_def
proof (intro ballI impI)
  fix a' assume "a' \<in> set (aspirations d')" and "a_payment a' = Paid"
  then have "(a_id a', Paid) \<in> set (pay_view d')" by (force simp: pay_view_def)
  with view have "(a_id a', Paid) \<in> set (pay_view d)" by simp
  then show "\<exists>b \<in> set (aspirations d). a_id b = a_id a' \<and> a_payment b = Paid"
    by (auto simp: pay_view_def)
qed

lemma pays_nothing_subset: "set (aspirations d') \<subseteq> set (aspirations d) \<Longrightarrow> pays_nothing d d'"
  unfolding pays_nothing_def by blast

lemma pays_nothing_append_unpaid:
  "aspirations d' = aspirations d @ [r] \<Longrightarrow> a_payment r = Unpaid \<Longrightarrow> pays_nothing d d'"
  unfolding pays_nothing_def by auto

lemma keeps_paid_append_fresh:
  assumes wf: "db_wf d" and rows: "aspirations d' = aspirations d @ [r]"
    and fresh: "a_id r = seq_aspirations d + 1"
  shows "keeps_paid d d'"
proof (rule keeps_paid_intro [OF wf])
  fix a' assume "a' \<in> set (aspirations d')"
  with rows have "a' \<in> set (aspirations d) \<or> a' = r" by auto
  then show "a_payment a' = Paid \<or> (a_id a', a_payment a') \<in> set (pay_view d) \<or>
       a_id a' \<notin> set (map a_id (aspirations d))"
  proof
    assume "a' \<in> set (aspirations d)"
    then show ?thesis by (auto simp: pay_view_def)
  next
    assume "a' = r"
    with wf fresh show ?thesis by (auto simp: db_wf_def)
  qed
qed

text \<open>Every completed payment of \<open>d\<close> is still a row of \<open>d'\<close>.\<close>

definition keeps_completed :: "db \<Rightarrow> db \<Rightarrow> bool" where
  "keeps_completed d d' \<longleftrightarrow>
     (\<forall>p \<in> set (payments d). p_status p = TxnCompleted \<longrightarrow> p \<in> set (payments d'))"

lemma pays_nothing_refl [simp]: "pays_nothing d d"
  by (simp add: pays_nothing_subset)

lemma keeps_completed_refl [simp]: "keeps_completed d d"
  by (simp add: keeps_completed_def)

text \<open>Invariant I3 as a state predicate: a paid aspiration has a completed payment.\<close>

definition paid_backed :: "db \<Rightarrow> bool" where
  "paid_backed d \<longleftrightarrow>
     (\<forall>a \<in> set (aspirations d). a_payment a = Paid \<longrightarrow>
        (\<exists>p \<in> set (payments d). p_aspiration p = a_id a \<and> p_status p = TxnCompleted))"

lemma paid_backed_step:
  "paid_backed d \<Longrightarrow> pays_nothing d d' \<Longrightarrow> keeps_completed d d' \<Longrightarrow> paid_backed d'"
  unfolding paid_backed_def pays_nothing_def keeps_completed_def by metis

end
