(* ===== verification/Fixtures.thy ===== *)
theory Fixtures
  imports Session Database
begin

text \<open>
  The seed data: \<open>insert_default_data\<close> (lines 189--303), which \<open>init_database\<close>
  runs on every start of the server, on a new or an existing database file.
  \<open>fresh_seed\<close> is the store it writes into a new file, stated row by row;
  \<open>insert_default_data\<close> below is the function itself, block by block
  (\<open>seed_users\<close>, \<open>seed_candidate_exam\<close>, \<open>seed_universities\<close>,
  \<open>seed_majors\<close>, \<open>seed_aspirations\<close>, \<open>seed_documents\<close>), on any store, and
  the two are proved to agree on an empty file. Passwords are stored as
  \<open>hash_password\<close> of the demo password; \<open>hash_password\<close> (SHA-256, line 305) is a
  parameter of the model. Non-ASCII display names are transliterated; no request reads
  them. The sample majors are looked up through the dictionary
  \<open>major_ids = {code: id}\<close>, in which the second \<open>'IT1'\<close> and \<open>'BA1'\<close> (those of
  HPU, ids 7 and 8) overwrite the first, so the first and third sample aspirations
  reference majors 7 and 8.

  The lemmas show that seeding an existing store keeps the invariants of the other
  theories (\<open>seed_safe\<close>), that it never deletes a key it looks up (\<open>keys_kept\<close>),
  so that it succeeds whenever the demo users, universities and majors are present
  (\<open>insert_default_data_Some\<close>), and that every run appends the sample documents.
\<close>

definition fresh_seed :: "(string \<Rightarrow> string) \<Rightarrow> time \<Rightarrow> db" where
  "fresh_seed hash now =
     \<lparr>users =
        [\<lparr>u_id = 1, username = ''admin'', password = hash ''admin123'',
          email = ''admin@university.edu.vn'', full_name = ''Quan tri vien he thong'',
          u_role = Admin, u_active = True\<rparr>,
         \<lparr>u_id = 2, username = ''manager'', password = hash ''manager123'',
          email = ''manager@university.edu.vn'', full_name = ''Can bo tuyen sinh'',
          u_role = Manager, u_active = True\<rparr>,
         \<lparr>u_id = 3, username = ''candidate'', password = hash ''candidate123'',
          email = ''candidate@example.com'', full_name = ''Nguyen Van A'',
          u_role = Candidate, u_active = True\<rparr>],
      candidates =
        [\<lparr>c_id = 1, c_user_id = 3, citizen_id = ''00123456789'',
          c_profile = \<lparr>date_of_birth = Some ''2005-03-15'', gender = Some ''male'',
            address = Some ''123 Duong ABC, Quan XYZ, Ha Noi'', phone = Some ''0912345678'',
            high_school = Some ''THPT Chuyen Ha Noi - Amsterdam'', graduation_year = Some 2024\<rparr>\<rparr>],
      exams = [\<lparr>e_id = 1, e_code = ''EXAM_2025'', e_name = ''Ky thi tuyen sinh Dai hoc 2025'',
                 e_description = Some ''Ky thi tuyen sinh dai hoc chinh quy nam 2025'',
                 registration_start = ''2025-01-01'', registration_end = ''2025-12-31'',
                 result_announcement = ''2025-06-15'', e_status = Active, max_aspirations = 4,
                 e_fee = 50000, e_created_at = now\<rparr>],
      universities =
        [\<lparr>un_id = 1, un_code = ''HUST'', un_name = ''Dai hoc Bach Khoa Ha Noi'',
          un_address = Some ''So 1 Dai Co Viet, Hai Ba Trung, Ha Noi'',
          un_phone = None, un_email = None, un_website = None, un_description = None, un_active = True\<rparr>,
         \<lparr>un_id = 2, un_code = ''NEU'', un_name = ''Dai hoc Kinh te Quoc dan'',
          un_address = Some ''207 Giai Phong, Dong Tam, Quan Hai Ba Trung, Ha Noi'',
          un_phone = None, un_email = None, un_website = None, un_description = None, un_active = True\<rparr>,
         \<lparr>un_id = 3, un_code = ''UET'', un_name = ''Dai hoc Cong nghe - DHQGHN'',
          un_address = Some ''E3, 144 Xuan Thuy, Cau Giay, Ha Noi'',
          un_phone = None, un_email = None, un_website = None, un_description = None, un_active = True\<rparr>,
         \<lparr>un_id = 4, un_code = ''HPU'', un_name = ''Dai hoc Hai Phong'',
          un_address = Some ''171 Phan Dang Luu, Kien An, Hai Phong'',
          un_phone = None, un_email = None, un_website = None, un_description = None, un_active = True\<rparr>],
      majors =
        [\<lparr>m_id = 1, m_university = 1, m_code = ''IT1'', m_name = ''Cong nghe Thong tin'',
          m_description = None, m_quota = 200, m_subject_group = ''A00,A01'',
          m_duration = 4, m_tuition_fee = None, m_active = True\<rparr>,
         \<lparr>m_id = 2, m_university = 1, m_code = ''ET1'', m_name = ''Dien tu Vien thong'',
          m_description = None, m_quota = 150, m_subject_group = ''A00,A01'',
          m_duration = 4, m_tuition_fee = None, m_active = True\<rparr>,
         \<lparr>m_id = 3, m_university = 2, m_code = ''BA1'', m_name = ''Quan tri Kinh doanh'',
          m_description = None, m_quota = 220, m_subject_group = ''A00,A01,D01'',
          m_duration = 4, m_tuition_fee = None, m_active = True\<rparr>,
         \<lparr>m_id = 4, m_university = 2, m_code = ''FA1'', m_name = ''Tai chinh Ngan hang'',
          m_description = None, m_quota = 160, m_subject_group = ''A00,A01,D01'',
          m_duration = 4, m_tuition_fee = None, m_active = True\<rparr>,
         \<lparr>m_id = 5, m_university = 3, m_code = ''CS1'', m_name = ''Khoa hoc May tinh'',
          m_description = None, m_quota = 180, m_subject_group = ''A00,A01'',
          m_duration = 4, m_tuition_fee = None, m_active = True\<rparr>,
         \<lparr>m_id = 6, m_university = 3, m_code = ''SE1'', m_name = ''Ky thuat Phan mem'',
          m_description = None, m_quota = 200, m_subject_group = ''A00,A01'',
          m_duration = 4, m_tuition_fee = None, m_active = True\<rparr>,
         \<lparr>m_id = 7, m_university = 4, m_code = ''IT1'', m_name = ''Cong nghe Thong tin'',
          m_description = None, m_quota = 180, m_subject_group = ''A00,A01'',
          m_duration = 4, m_tuition_fee = None, m_active = True\<rparr>,
         \<lparr>m_id = 8, m_university = 4, m_code = ''BA1'', m_name = ''Quan tri Kinh doanh'',
          m_description = None, m_quota = 200, m_subject_group = ''A00,A01,D01'',
          m_duration = 4, m_tuition_fee = None, m_active = True\<rparr>],
      aspirations =
        [\<lparr>a_id = 1, a_candidate = 1, a_exam = 1, a_university = 1, a_major = 7,
          priority_order = 1, a_status = Pending, a_payment = Unpaid, registered_at = now,
          approved_by = None, approved_at = None, manager_notes = None\<rparr>,
         \<lparr>a_id = 2, a_candidate = 1, a_exam = 1, a_university = 3, a_major = 5,
          priority_order = 2, a_status = Pending, a_payment = Unpaid, registered_at = now,
          approved_by = None, approved_at = None, manager_notes = None\<rparr>,
         \<lparr>a_id = 3, a_candidate = 1, a_exam = 1, a_university = 2, a_major = 8,
          priority_order = 3, a_status = Pending, a_payment = Unpaid, registered_at = now,
          approved_by = None, approved_at = None, manager_notes = None\<rparr>],
      payments = [],
      documents =
        [\<lparr>doc_id = 1, title = ''Huong dan dang ky nguyen vong'',
          doc_description = Some ''Huong dan chi tiet cach dang ky nguyen vong truc tuyen'',
          file_path = None, file_type = None, file_size = None, category = Some Guide,
          doc_active = True, created_by = Some 1, doc_created_at = now\<rparr>,
         \<lparr>doc_id = 2, title = ''Quy che tuyen sinh 2025'',
          doc_description = Some ''Quy che tuyen sinh dai hoc chinh quy nam 2025'',
          file_path = None, file_type = None, file_size = None, category = Some Regulation,
          doc_active = True, created_by = Some 1, doc_created_at = now\<rparr>,
         \<lparr>doc_id = 3, title = ''Mau don dang ky xet tuyen'',
          doc_description = Some ''Mau don dang ky xet tuyen dai hoc'',
          file_path = None, file_type = None, file_size = None, category = Some Template,
          doc_active = True, created_by = Some 1, doc_created_at = now\<rparr>,
         \<lparr>doc_id = 4, title = ''Lich trinh tuyen sinh'',
          doc_description = Some ''Lich trinh cac moc thoi gian quan trong trong tuyen sinh'',
          file_path = None, file_type = None, file_size = None, category = Some Announcement,
          doc_active = True, created_by = Some 1, doc_created_at = now\<rparr>],
      seq_users = 3, seq_candidates = 1, seq_aspirations = 3, seq_payments = 0,
      seq_documents = 4, seq_exams = 1, seq_universities = 4, seq_majors = 8\<rparr>"

subsection \<open>The seeding statements\<close>

text \<open>
  \<open>insert_default_data\<close> itself: \<open>INSERT OR IGNORE\<close> statements run on whatever the
  database file holds (it is called on every start of the server), and dictionaries
  built from \<open>SELECT\<close>s in between. A dictionary comprehension keeps the last row of
  a repeated key (\<open>key_map\<close>); a missing key raises \<open>KeyError\<close>, which aborts
  \<open>init_database\<close> before its commit (\<open>None\<close>).
\<close>

definition key_map :: "('a \<Rightarrow> 'k) \<Rightarrow> ('a \<Rightarrow> 'v) \<Rightarrow> 'a list \<Rightarrow> 'k \<Rightarrow> 'v option" where
  "key_map k v rows = map_of (rev (map (\<lambda>r. (k r, v r)) rows))"

definition ignore_user :: "db \<Rightarrow> string \<Rightarrow> string \<Rightarrow> string \<Rightarrow> string \<Rightarrow> role \<Rightarrow> db" where
  "ignore_user d un pw em fn r = or_ignore (map_sum id fst (insert_user d un pw em fn r)) d"

definition seed_profile :: profile where
  "seed_profile =
     \<lparr>date_of_birth = Some ''2005-03-15'', gender = Some ''male'',
      address = Some ''123 Duong ABC, Quan XYZ, Ha Noi'', phone = Some ''0912345678'',
      high_school = Some ''THPT Chuyen Ha Noi - Amsterdam'', graduation_year = Some 2024\<rparr>"

definition universities_data :: "(string \<times> string \<times> string) list" where
  "universities_data =
     [(''HUST'', ''Dai hoc Bach Khoa Ha Noi'', ''So 1 Dai Co Viet, Hai Ba Trung, Ha Noi''),
      (''NEU'', ''Dai hoc Kinh te Quoc dan'', ''207 Giai Phong, Dong Tam, Quan Hai Ba Trung, Ha Noi''),
      (''UET'', ''Dai hoc Cong nghe - DHQGHN'', ''E3, 144 Xuan Thuy, Cau Giay, Ha Noi''),
      (''HPU'', ''Dai hoc Hai Phong'', ''171 Phan Dang Luu, Kien An, Hai Phong'')]"

definition majors_data :: "row_id \<Rightarrow> row_id \<Rightarrow> row_id \<Rightarrow> row_id \<Rightarrow> (row_id \<times> string \<times> string \<times> int \<times> string) list" where
  "majors_data hust neu uet hpu =
     [(hust, ''IT1'', ''Cong nghe Thong tin'', 200, ''A00,A01''),
      (hust, ''ET1'', ''Dien tu Vien thong'', 150, ''A00,A01''),
      (neu, ''BA1'', ''Quan tri Kinh doanh'', 220, ''A00,A01,D01''),
      (neu, ''FA1'', ''Tai chinh Ngan hang'', 160, ''A00,A01,D01''),
      (uet, ''CS1'', ''Khoa hoc May tinh'', 180, ''A00,A01''),
      (uet, ''SE1'', ''Ky thuat Phan mem'', 200, ''A00,A01''),
      (hpu, ''IT1'', ''Cong nghe Thong tin'', 180, ''A00,A01''),
      (hpu, ''BA1'', ''Quan tri Kinh doanh'', 200, ''A00,A01,D01'')]"

definition documents_data :: "(string \<times> string \<times> doc_category) list" where
  "documents_data =
     [(''Huong dan dang ky nguyen vong'', ''Huong dan chi tiet cach dang ky nguyen vong truc tuyen'', Guide),
      (''Quy che tuyen sinh 2025'', ''Quy che tuyen sinh dai hoc chinh quy nam 2025'', Regulation),
      (''Mau don dang ky xet tuyen'', ''Mau don dang ky xet tuyen dai hoc'', Template),
      (''Lich trinh tuyen sinh'', ''Lich trinh cac moc thoi gian quan trong trong tuyen sinh'', Announcement)]"

text \<open>The sample aspirations, inserted when a candidate and an exam exist
  (\<open>SELECT id FROM candidates LIMIT 1\<close>, \<open>SELECT id FROM exams LIMIT 1\<close>).\<close>

definition seed_aspirations ::
  "time \<Rightarrow> (string \<Rightarrow> row_id option) \<Rightarrow> (string \<Rightarrow> row_id option) \<Rightarrow> db \<Rightarrow> db option" where
  "seed_aspirations now university_ids major_ids d =
     (case (candidates d, exams d) of
        (c # _, e # _) \<Rightarrow>
          (case (university_ids ''HUST'', major_ids ''IT1'', university_ids ''UET'', major_ids ''CS1'',
                 university_ids ''NEU'', major_ids ''BA1'') of
             (Some hust, Some it1, Some uet, Some cs1, Some neu, Some ba1) \<Rightarrow>
               Some (fold (\<lambda>(u, m, p) d. or_ignore (insert_aspiration d (c_id c) (e_id e) u m p now) d)
                       [(hust, it1, 1), (uet, cs1, 2), (neu, ba1, 3)] d)
           | _ \<Rightarrow> None)
      | _ \<Rightarrow> Some d)"

text \<open>The blocks of \<open>insert_default_data\<close>, in the order of the source.\<close>

definition seed_users :: "(string \<Rightarrow> string) \<Rightarrow> db \<Rightarrow> db" where
  "seed_users hash d =
     ignore_user (ignore_user (ignore_user d
       ''admin'' (hash ''admin123'') ''admin@university.edu.vn'' ''Quan tri vien he thong'' Admin)
       ''manager'' (hash ''manager123'') ''manager@university.edu.vn'' ''Can bo tuyen sinh'' Manager)
       ''candidate'' (hash ''candidate123'') ''candidate@example.com'' ''Nguyen Van A'' Candidate"

definition seed_candidate_exam :: "time \<Rightarrow> row_id \<Rightarrow> db \<Rightarrow> db" where
  "seed_candidate_exam now cu d =
     (let d2 = or_ignore (insert_candidate d cu ''00123456789'' seed_profile) d
      in or_ignore (insert_exam d2 ''EXAM_2025'' ''Ky thi tuyen sinh Dai hoc 2025''
           (Some ''Ky thi tuyen sinh dai hoc chinh quy nam 2025'')
           ''2025-01-01'' ''2025-12-31'' ''2025-06-15'' Active now) d2)"

definition seed_universities :: "db \<Rightarrow> db" where
  "seed_universities d =
     fold (\<lambda>(code, name, addr) d. or_ignore (insert_university d code name addr) d) universities_data d"

definition seed_majors :: "row_id \<Rightarrow> row_id \<Rightarrow> row_id \<Rightarrow> row_id \<Rightarrow> db \<Rightarrow> db" where
  "seed_majors hust neu uet hpu d =
     fold (\<lambda>(u, code, name, q, sg) d. or_ignore (insert_major d u code name q sg) d)
       (majors_data hust neu uet hpu) d"

definition seed_documents :: "row_id \<Rightarrow> time \<Rightarrow> db \<Rightarrow> db" where
  "seed_documents admin now d =
     fold (\<lambda>(t, descr, cat) d. insert_document d t descr cat admin now) documents_data d"

definition insert_default_data :: "(string \<Rightarrow> string) \<Rightarrow> time \<Rightarrow> db \<Rightarrow> db option" where
  "insert_default_data hash now d0 =
     (let d1 = seed_users hash d0;
          user_ids = key_map username u_id (users d1)
      in case user_ids ''candidate'' of
           None \<Rightarrow> None
         | Some cu \<Rightarrow>
             (let d4 = seed_universities (seed_candidate_exam now cu d1);
                  university_ids = key_map un_code un_id (universities d4)
              in case (university_ids ''HUST'', university_ids ''NEU'', university_ids ''UET'',
                       university_ids ''HPU'') of
                   (Some hust, Some neu, Some uet, Some hpu) \<Rightarrow>
                     (let d5 = seed_majors hust neu uet hpu d4;
                          major_ids = key_map m_code m_id (majors d5)
                      in case seed_aspirations now university_ids major_ids d5 of
                           None \<Rightarrow> None
                         | Some d6 \<Rightarrow>
                             (case user_ids ''admin'' of
                                None \<Rightarrow> None
                              | Some admin \<Rightarrow> Some (seed_documents admin now d6)))
                 | _ \<Rightarrow> None))"

declare key_map_def [eval_simps] ignore_user_def [eval_simps] seed_profile_def [eval_simps]
  universities_data_def [eval_simps] majors_data_def [eval_simps] documents_data_def [eval_simps]
  seed_aspirations_def [eval_simps] seed_users_def [eval_simps] seed_candidate_exam_def [eval_simps]
  seed_universities_def [eval_simps] seed_majors_def [eval_simps] seed_documents_def [eval_simps]
  insert_default_data_def [eval_simps]

declare fresh_seed_def [eval_simps]

lemma fresh_seed_wf: "db_wf (fresh_seed hash now)"
  by (simp add: fresh_seed_def db_wf_def slot_of_def priority_ok_def)

subsection \<open>Seeding a fresh file\<close>

text \<open>Each block of \<open>insert_default_data\<close> on a fresh file gives the corresponding
  tables of \<open>fresh_seed\<close>.\<close>

lemma seed_users_empty: "seed_users hash empty_db = empty_db\<lparr>users := users (fresh_seed hash 0), seq_users := 3\<rparr>"
  by (simp add: seed_users_def ignore_user_def insert_user_def or_ignore_def empty_db_def fresh_seed_def)
lemma seed_universities_empty: "seed_universities (seed_candidate_exam now 3 (empty_db\<lparr>users := users (fresh_seed hash 0), seq_users := 3\<rparr>)) =
  empty_db\<lparr>users := users (fresh_seed hash now), candidates := candidates (fresh_seed hash now),
     exams := exams (fresh_seed hash now), universities := universities (fresh_seed hash now),
     seq_users := 3, seq_candidates := 1, seq_exams := 1, seq_universities := 4\<rparr>"
  by (simp add: seed_universities_def seed_candidate_exam_def universities_data_def insert_university_def
     insert_candidate_def insert_exam_def or_ignore_def empty_db_def fresh_seed_def seed_profile_def)
lemma seed_majors_empty: "seed_majors 1 2 3 4 (empty_db\<lparr>users := users (fresh_seed hash now), candidates := candidates (fresh_seed hash now),
     exams := exams (fresh_seed hash now), universities := universities (fresh_seed hash now),
     seq_users := 3, seq_candidates := 1, seq_exams := 1, seq_universities := 4\<rparr>) =
  empty_db\<lparr>users := users (fresh_seed hash now), candidates := candidates (fresh_seed hash now),
     exams := exams (fresh_seed hash now), universities := universities (fresh_seed hash now),
     majors := majors (fresh_seed hash now),
     seq_users := 3, seq_candidates := 1, seq_exams := 1, seq_universities := 4, seq_majors := 8\<rparr>"
  by (simp add: seed_majors_def majors_data_def insert_major_def or_ignore_def empty_db_def fresh_seed_def)
lemma seed_aspirations_empty: "seed_aspirations now (key_map un_code un_id (universities (fresh_seed hash now)))
     (key_map m_code m_id (majors (fresh_seed hash now)))
    (empty_db\<lparr>users := users (fresh_seed hash now), candidates := candidates (fresh_seed hash now),
     exams := exams (fresh_seed hash now), universities := universities (fresh_seed hash now),
     majors := majors (fresh_seed hash now),
     seq_users := 3, seq_candidates := 1, seq_exams := 1, seq_universities := 4, seq_majors := 8\<rparr>) =
  Some ((fresh_seed hash now)\<lparr>payments := [], documents := [], seq_documents := 0\<rparr>)"
  by (simp add: seed_aspirations_def key_map_def insert_aspiration_def priority_ok_def slot_of_def
      or_ignore_def empty_db_def fresh_seed_def)
lemma seed_documents_empty: "seed_documents 1 now ((fresh_seed hash now)\<lparr>payments := [], documents := [], seq_documents := 0\<rparr>) =
  fresh_seed hash now"
  by (simp add: seed_documents_def documents_data_def insert_document_def fresh_seed_def)
lemma fresh_seed_keys:
  "key_map username u_id (users (fresh_seed hash now)) ''candidate'' = Some 3"
  "key_map username u_id (users (fresh_seed hash now)) ''admin'' = Some 1"
  "key_map un_code un_id (universities (fresh_seed hash now)) ''HUST'' = Some 1"
  "key_map un_code un_id (universities (fresh_seed hash now)) ''NEU'' = Some 2"
  "key_map un_code un_id (universities (fresh_seed hash now)) ''UET'' = Some 3"
  "key_map un_code un_id (universities (fresh_seed hash now)) ''HPU'' = Some 4"
  by (simp_all add: key_map_def fresh_seed_def)

subsection \<open>Seeding leaves every table but one as the constraints allow\<close>

lemma documents_ignore [simp]:
  "documents (ignore_user d un pw em fn r) = documents d"
  "documents (or_ignore (insert_candidate d u cit prof) d) = documents d"
  "documents (or_ignore (insert_exam d code name descr rs re ra st now) d) = documents d"
  "documents (or_ignore (insert_university d code name addr) d) = documents d"
  "documents (or_ignore (insert_major d uid code name q sg) d) = documents d"
  "documents (or_ignore (insert_aspiration d cid eid uid mid p now) d) = documents d"
  by (simp_all add: ignore_user_def or_ignore_def insert_user_def insert_candidate_def insert_exam_def
        insert_university_def insert_major_def insert_aspiration_def)

lemma fold_frame: "(\<And>x d. f (g x d) = f d) \<Longrightarrow> f (fold g xs d) = f d"
  by (induction xs arbitrary: d) simp_all

lemma seed_blocks_documents:
  "documents (seed_users hash d) = documents d"
  "documents (seed_candidate_exam now cu d) = documents d"
  "documents (seed_universities d) = documents d"
  "documents (seed_majors hust neu uet hpu d) = documents d"
proof -
  show "documents (seed_users hash d) = documents d"
    by (simp add: seed_users_def)
  show "documents (seed_candidate_exam now cu d) = documents d"
    by (simp add: seed_candidate_exam_def Let_def)
  show "documents (seed_universities d) = documents d"
    unfolding seed_universities_def by (rule fold_frame) (simp split: prod.splits)
  show "documents (seed_majors hust neu uet hpu d) = documents d"
    unfolding seed_majors_def by (rule fold_frame) (simp split: prod.splits)
qed

lemma seed_aspirations_documents:
  assumes "seed_aspirations now uids mids d = Some d'"
  shows "documents d' = documents d"
proof -
  have fold: "documents (fold (\<lambda>(u, m, p) d. or_ignore (insert_aspiration d cid eid u m p now) d) xs d) =
              documents d" for cid eid xs d
    by (rule fold_frame) (simp split: prod.splits)
  from assms show ?thesis
    by (auto simp: seed_aspirations_def fold split: list.splits option.splits)
qed

lemma seed_documents_length:
  "length (documents (seed_documents admin now d)) = length (documents d) + 4"
  by (simp add: seed_documents_def documents_data_def insert_document_def)

subsection \<open>Seeding an existing store keeps the invariants\<close>

text \<open>What a block of the seeding may do to a store: keep it well formed, mark no
  aspiration paid and drop no completed payment.\<close>

definition seed_safe :: "db \<Rightarrow> db \<Rightarrow> bool" where
  "seed_safe d d' \<longleftrightarrow> (db_wf d \<longrightarrow> db_wf d') \<and> pays_nothing d d' \<and> keeps_completed d d'"

lemma seed_safe_refl [simp]: "seed_safe d d"
  by (simp add: seed_safe_def)

lemma seed_safe_trans: "seed_safe d1 d2 \<Longrightarrow> seed_safe d2 d3 \<Longrightarrow> seed_safe d1 d3"
  unfolding seed_safe_def pays_nothing_def keeps_completed_def by metis

lemma seed_safe_fold: "(\<And>x d. seed_safe d (g x d)) \<Longrightarrow> seed_safe d (fold g xs d)"
proof (induction xs arbitrary: d)
  case (Cons x xs)
  then show ?case by (auto intro: seed_safe_trans)
qed simp

lemma seed_safe_frame:
  "aspirations d' = aspirations d \<Longrightarrow> payments d' = payments d \<Longrightarrow> (db_wf d \<Longrightarrow> db_wf d') \<Longrightarrow>
   seed_safe d d'"
  by (simp add: seed_safe_def pays_nothing_subset keeps_completed_def)

lemma seed_safe_inserts:
  "seed_safe d (ignore_user d un pw em fn r)"
  "seed_safe d (or_ignore (insert_candidate d u cit prof) d)"
  "seed_safe d (or_ignore (insert_exam d code name descr rs re ra st now) d)"
  "seed_safe d (or_ignore (insert_university d code name addr) d)"
  "seed_safe d (or_ignore (insert_major d uid code name q sg) d)"
  "seed_safe d (or_ignore (insert_aspiration d cid eid uid mid p now) d)"
  "seed_safe d (insert_document d t dd cat admin now)"
proof -
  show "seed_safe d (ignore_user d un pw em fn r)"
  proof (cases "insert_user d un pw em fn r")
    case (Inr x)
    then obtain d' uid where x: "insert_user d un pw em fn r = Inr (d', uid)" by (cases x) auto
    then have "aspirations d' = aspirations d" "payments d' = payments d"
      by (auto simp: insert_user_def split: if_splits)
    with x show ?thesis
      by (auto simp: ignore_user_def or_ignore_def intro!: seed_safe_frame intro: insert_user_wf)
  qed (simp add: ignore_user_def or_ignore_def)
  show "seed_safe d (or_ignore (insert_candidate d u cit prof) d)"
  proof (cases "insert_candidate d u cit prof")
    case (Inr d')
    then have "aspirations d' = aspirations d" "payments d' = payments d"
      by (auto simp: insert_candidate_def split: if_splits)
    with Inr show ?thesis by (auto simp: or_ignore_def intro!: seed_safe_frame intro: insert_candidate_wf)
  qed (simp add: or_ignore_def)
  show "seed_safe d (or_ignore (insert_exam d code name descr rs re ra st now) d)"
    by (rule seed_safe_frame) (auto simp: or_ignore_def insert_exam_def db_wf_def)
  show "seed_safe d (or_ignore (insert_university d code name addr) d)"
    by (rule seed_safe_frame) (auto simp: or_ignore_def insert_university_def db_wf_def)
  show "seed_safe d (or_ignore (insert_major d uid code name q sg) d)"
    by (rule seed_safe_frame) (auto simp: or_ignore_def insert_major_def db_wf_def)
  show "seed_safe d (insert_document d t dd cat admin now)"
    by (rule seed_safe_frame) (auto simp: insert_document_def db_wf_def)
  show "seed_safe d (or_ignore (insert_aspiration d cid eid uid mid p now) d)"
  proof (cases "insert_aspiration d cid eid uid mid p now")
    case (Inr d')
    then have "payments d' = payments d" and "\<exists>r. aspirations d' = aspirations d @ [r] \<and> a_payment r = Unpaid"
      by (auto simp: insert_aspiration_def split: if_splits)
    with Inr show ?thesis
      by (auto simp: or_ignore_def seed_safe_def keeps_completed_def intro: insert_aspiration_wf
               pays_nothing_append_unpaid)
  qed (simp add: or_ignore_def)
qed

lemma insert_default_data_safe:
  assumes "insert_default_data hash now d = Some d'"
  shows "seed_safe d d'"
proof -
  have users: "seed_safe d (seed_users hash d)" for d
    unfolding seed_users_def by (meson seed_safe_inserts(1) seed_safe_trans)
  have ce: "seed_safe d (seed_candidate_exam now cu d)" for cu d
    unfolding seed_candidate_exam_def Let_def by (meson seed_safe_inserts(2,3) seed_safe_trans)
  have univ: "seed_safe d (seed_universities d)" for d
    unfolding seed_universities_def by (rule seed_safe_fold) (simp add: seed_safe_inserts split: prod.splits)
  have maj: "seed_safe d (seed_majors a b c e d)" for a b c e d
    unfolding seed_majors_def by (rule seed_safe_fold) (simp add: seed_safe_inserts split: prod.splits)
  have fold: "seed_safe d (fold (\<lambda>(u, m, p) d. or_ignore (insert_aspiration d cid eid u m p now) d) xs d)"
    for cid eid xs d
    by (rule seed_safe_fold) (simp add: seed_safe_inserts split: prod.splits)
  have asp: "seed_aspirations now u m d = Some d' \<Longrightarrow> seed_safe d d'" for u m d d'
    by (auto simp: seed_aspirations_def fold simp del: fold.simps split: list.splits option.splits)
  have docs: "seed_safe d (seed_documents a now d)" for a d
    unfolding seed_documents_def by (rule seed_safe_fold) (simp add: seed_safe_inserts split: prod.splits)
  from assms show ?thesis
    by (auto simp: insert_default_data_def Let_def split: option.splits prod.splits
             intro: seed_safe_trans [OF users] seed_safe_trans [OF ce] dest!: asp)
       (meson asp ce docs maj seed_safe_trans univ users)
qed

subsection \<open>When the seeding succeeds\<close>

text \<open>The keys \<open>insert_default_data\<close> looks up: the demo user names, the four
  university codes and the major codes of the sample aspirations.\<close>

definition seed_keys :: "db \<Rightarrow> bool" where
  "seed_keys d \<longleftrightarrow>
     {''admin'', ''candidate''} \<subseteq> set (map username (users d)) \<and>
     {''HUST'', ''NEU'', ''UET'', ''HPU''} \<subseteq> set (map un_code (universities d)) \<and>
     {''IT1'', ''CS1'', ''BA1''} \<subseteq> set (map m_code (majors d))"

definition keys_kept :: "db \<Rightarrow> db \<Rightarrow> bool" where
  "keys_kept d d' \<longleftrightarrow>
     set (map username (users d)) \<subseteq> set (map username (users d')) \<and>
     set (map un_code (universities d)) \<subseteq> set (map un_code (universities d')) \<and>
     set (map m_code (majors d)) \<subseteq> set (map m_code (majors d'))"

lemma keys_kept_refl [simp]: "keys_kept d d"
  by (simp add: keys_kept_def)

lemma keys_kept_trans: "keys_kept d1 d2 \<Longrightarrow> keys_kept d2 d3 \<Longrightarrow> keys_kept d1 d3"
  unfolding keys_kept_def by blast

lemma keys_kept_seed_keys: "keys_kept d d' \<Longrightarrow> seed_keys d \<Longrightarrow> seed_keys d'"
  unfolding keys_kept_def seed_keys_def
  by (elim conjE) (intro conjI; rule subset_trans; assumption)

lemma keys_kept_fold: "(\<And>x d. keys_kept d (g x d)) \<Longrightarrow> keys_kept d (fold g xs d)"
proof (induction xs arbitrary: d)
  case (Cons x xs)
  then show ?case by (auto intro: keys_kept_trans)
qed simp

lemma keys_kept_inserts:
  "keys_kept d (ignore_user d un pw em fn r)"
  "keys_kept d (or_ignore (insert_candidate d u cit prof) d)"
  "keys_kept d (or_ignore (insert_exam d code name descr rs re ra st now) d)"
  "keys_kept d (or_ignore (insert_university d code name addr) d)"
  "keys_kept d (or_ignore (insert_major d uid code name q sg) d)"
  "keys_kept d (or_ignore (insert_aspiration d cid eid uid mid p now) d)"
  "keys_kept d (insert_document d t dd cat admin now)"
  unfolding keys_kept_def ignore_user_def or_ignore_def
  by (simp_all add: insert_user_def insert_candidate_def insert_exam_def insert_university_def
        insert_major_def insert_aspiration_def insert_document_def subset_insertI)

lemma key_map_Some: "x \<in> set (map k rows) \<Longrightarrow> \<exists>y. key_map k v rows x = Some y"
  by (cases "key_map k v rows x") (auto simp: key_map_def map_of_eq_None_iff image_iff)

lemma seed_blocks_keys:
  "keys_kept d (seed_users hash d)"
  "keys_kept d (seed_candidate_exam now cu d)"
  "keys_kept d (seed_universities d)"
  "keys_kept d (seed_majors hust neu uet hpu d)"
  "keys_kept d (seed_documents admin now d)"
proof -
  show "keys_kept d (seed_users hash d)"
    unfolding seed_users_def by (meson keys_kept_inserts(1) keys_kept_trans)
  show "keys_kept d (seed_candidate_exam now cu d)"
    unfolding seed_candidate_exam_def Let_def by (meson keys_kept_inserts(2,3) keys_kept_trans)
  show "keys_kept d (seed_universities d)"
    unfolding seed_universities_def by (rule keys_kept_fold) (simp add: keys_kept_inserts split: prod.splits)
  show "keys_kept d (seed_majors hust neu uet hpu d)"
    unfolding seed_majors_def by (rule keys_kept_fold) (simp add: keys_kept_inserts split: prod.splits)
  show "keys_kept d (seed_documents admin now d)"
    unfolding seed_documents_def by (rule keys_kept_fold) (simp add: keys_kept_inserts split: prod.splits)
qed

lemma seed_aspirations_keys:
  assumes "seed_aspirations now u m d = Some d'"
  shows "keys_kept d d'"
proof -
  have fold: "keys_kept d (fold (\<lambda>(u, m, p) d. or_ignore (insert_aspiration d cid eid u m p now) d) xs d)"
    for cid eid xs d
    by (rule keys_kept_fold) (simp add: keys_kept_inserts split: prod.splits)
  from assms show ?thesis
    by (auto simp: seed_aspirations_def fold simp del: fold.simps split: list.splits option.splits)
qed

lemma seed_aspirations_Some:
  assumes "\<exists>y. u ''HUST'' = Some y" "\<exists>y. u ''UET'' = Some y" "\<exists>y. u ''NEU'' = Some y"
    "\<exists>y. m ''IT1'' = Some y" "\<exists>y. m ''CS1'' = Some y" "\<exists>y. m ''BA1'' = Some y"
  shows "\<exists>d'. seed_aspirations now u m d = Some d'"
  using assms by (auto simp: seed_aspirations_def split: list.splits)

lemma insert_default_data_keys:
  assumes "insert_default_data hash now d = Some d'"
  shows "keys_kept d d'"
proof -
  obtain cu hust neu uet hpu admin d6 where
    d6: "seed_aspirations now (key_map un_code un_id (universities
            (seed_universities (seed_candidate_exam now cu (seed_users hash d)))))
          (key_map m_code m_id (majors (seed_majors hust neu uet hpu
            (seed_universities (seed_candidate_exam now cu (seed_users hash d))))))
          (seed_majors hust neu uet hpu (seed_universities (seed_candidate_exam now cu (seed_users hash d))))
        = Some d6"
    and d': "d' = seed_documents admin now d6"
    using assms by (auto simp: insert_default_data_def Let_def split: option.splits prod.splits)
  have "keys_kept d (seed_majors hust neu uet hpu (seed_universities (seed_candidate_exam now cu (seed_users hash d))))"
    by (meson seed_blocks_keys keys_kept_trans)
  then have "keys_kept d d6" using seed_aspirations_keys [OF d6] by (rule keys_kept_trans)
  then show ?thesis unfolding d' using seed_blocks_keys(5) by (rule keys_kept_trans)
qed

lemma fresh_seed_seed_keys: "seed_keys (fresh_seed hash now)"
  by (simp add: seed_keys_def fresh_seed_def)

lemma seed_keys_mem:
  "seed_keys d \<longleftrightarrow>
     ''admin'' \<in> set (map username (users d)) \<and> ''candidate'' \<in> set (map username (users d)) \<and>
     ''HUST'' \<in> set (map un_code (universities d)) \<and> ''NEU'' \<in> set (map un_code (universities d)) \<and>
     ''UET'' \<in> set (map un_code (universities d)) \<and> ''HPU'' \<in> set (map un_code (universities d)) \<and>
     ''IT1'' \<in> set (map m_code (majors d)) \<and> ''CS1'' \<in> set (map m_code (majors d)) \<and>
     ''BA1'' \<in> set (map m_code (majors d))"
  by (simp only: seed_keys_def insert_subset empty_subsetI simp_thms conj_assoc)

lemma insert_default_data_Some:
  assumes "seed_keys d"
  shows "\<exists>d'. insert_default_data hash now d = Some d'"
proof -
  define d1 where "d1 = seed_users hash d"
  have k1: "seed_keys d1"
    unfolding d1_def using seed_blocks_keys(1) assms by (rule keys_kept_seed_keys)
  then obtain cu adm where cu: "key_map username u_id (users d1) ''candidate'' = Some cu"
    and adm: "key_map username u_id (users d1) ''admin'' = Some adm"
    unfolding seed_keys_mem by (meson key_map_Some)
  define d4 where "d4 = seed_universities (seed_candidate_exam now cu d1)"
  have k4: "seed_keys d4"
    unfolding d4_def using keys_kept_trans [OF seed_blocks_keys(2,3)] k1 by (rule keys_kept_seed_keys)
  then obtain hust neu uet hpu where
    u: "key_map un_code un_id (universities d4) ''HUST'' = Some hust"
       "key_map un_code un_id (universities d4) ''NEU'' = Some neu"
       "key_map un_code un_id (universities d4) ''UET'' = Some uet"
       "key_map un_code un_id (universities d4) ''HPU'' = Some hpu"
    unfolding seed_keys_mem by (meson key_map_Some)
  define d5 where "d5 = seed_majors hust neu uet hpu d4"
  have "seed_keys d5"
    unfolding d5_def using seed_blocks_keys(4) k4 by (rule keys_kept_seed_keys)
  then have "\<exists>y. key_map m_code m_id (majors d5) ''IT1'' = Some y"
    "\<exists>y. key_map m_code m_id (majors d5) ''CS1'' = Some y"
    "\<exists>y. key_map m_code m_id (majors d5) ''BA1'' = Some y"
    unfolding seed_keys_mem by (simp_all add: key_map_Some)
  with u obtain d6 where
    d6: "seed_aspirations now (key_map un_code un_id (universities d4)) (key_map m_code m_id (majors d5)) d5 = Some d6"
    using seed_aspirations_Some [of "key_map un_code un_id (universities d4)"] by blast
  show ?thesis
    unfolding insert_default_data_def Let_def d1_def [symmetric]
    by (simp add: cu adm d4_def [symmetric] u d5_def [symmetric] d6)
qed

text \<open>A session store after the demo candidate (user 3) and the demo manager (user 2)
  have logged in at time 0.\<close>

definition demo_tokens :: token_store where
  "demo_tokens =
     fst (create_token (fst (create_token Map.empty ''tok-c'' 3 ''candidate'' Candidate 0))
            ''tok-m'' 2 ''manager'' Manager 0)"

lemma demo_tokens_simps [simp]:
  "demo_tokens ''tok-c'' = Some \<lparr>td_user_id = 3, td_username = ''candidate'', td_role = Candidate, created_at = 0\<rparr>"
  "demo_tokens ''tok-m'' = Some \<lparr>td_user_id = 2, td_username = ''manager'', td_role = Manager, created_at = 0\<rparr>"
  by (simp_all add: demo_tokens_def create_token_def)

lemma seed_documents_titles:
  "map title (documents (seed_documents admin now d)) = map title (documents d) @ map fst documents_data"
  by (simp add: seed_documents_def documents_data_def insert_document_def)

subsection \<open>Properties of the seeding\<close>

text \<open>C31: Every start of the server appends the four sample documents again: the
  \<open>documents\<close> table has no \<open>UNIQUE\<close> column, so its \<open>INSERT OR IGNORE\<close>
  statements never ignore anything, unlike those of every other table; whenever
  \<open>insert_default_data\<close> succeeds on a store, the document titles are those it had
  followed by the four sample titles.\<close>

theorem seed_documents_appended:
  assumes "insert_default_data hash now d = Some d'"
  shows "map title (documents d') = map title (documents d) @ map fst documents_data"
proof -
  from assms obtain admin d6 where d': "d' = seed_documents admin now d6"
    and "documents d6 = documents d"
    by (auto simp: insert_default_data_def Let_def seed_blocks_documents split: option.splits prod.splits
             dest!: seed_aspirations_documents)
  then show ?thesis by (simp add: seed_documents_titles)
qed

theorem seed_documents_appended_witness:
  "\<exists>d'. insert_default_data id 1 (fresh_seed id 0) = Some d' \<and>
        map title (documents d') = map fst documents_data @ map fst documents_data"
proof -
  obtain d' where d': "insert_default_data id 1 (fresh_seed id 0) = Some d'"
    using insert_default_data_Some [OF fresh_seed_seed_keys] by blast
  moreover have "map title (documents (fresh_seed id 0)) = map fst documents_data"
    by (simp add: fresh_seed_def documents_data_def)
  ultimately show ?thesis using seed_documents_appended [OF d'] by auto
qed


end
