(* ===== verification/Aspirations.thy ===== *)
theory Aspirations
  imports Fixtures
begin

text \<open>
  The aspiration ledger: the handler methods \<open>add_aspiration\<close> (lines 4354--4414),
  \<open>remove_aspiration\<close> (4416--4456), \<open>reorder_aspirations\<close> (4458--4510) and
  \<open>get_candidate_aspirations\<close> (4051--4101) of \<open>AdmissionRequestHandler\<close>. Each
  handler is one function from the session store, the clock, the \<open>Authorization\<close>
  header, the JSON fields and the database to an error or the new database; an error
  leaves the database as it was, because every failing path either returns before its
  first write or raises before \<open>conn.commit()\<close>, and the uncommitted transaction is
  rolled back when the connection is dropped.
\<close>

subsection \<open>Adding an aspiration\<close>

record add_request =
  req_university :: "int option"
  req_major :: "int option"
  req_priority :: "int option"

text \<open>\<open>SELECT id FROM aspirations WHERE candidate_id = ? AND exam_id = ? AND
  priority_order = ?\<close>\<close>

definition slot_taken :: "db \<Rightarrow> row_id \<Rightarrow> row_id \<Rightarrow> int \<Rightarrow> bool" where
  "slot_taken d cid eid p \<longleftrightarrow>
     (\<exists>a \<in> set (aspirations d). a_candidate a = cid \<and> a_exam a = eid \<and> priority_order a = p)"

definition add_aspiration ::
  "token_store \<Rightarrow> time \<Rightarrow> string option \<Rightarrow> add_request \<Rightarrow> db \<Rightarrow> api_error + db" where
  "add_aspiration toks now hdr req d =
     (case authenticate toks hdr now of
        Inl e \<Rightarrow> Inl e
      | Inr user \<Rightarrow>
          (case (truthy_int (req_university req), truthy_int (req_major req),
                 truthy_int (req_priority req)) of
             (Some uid, Some mid, Some p) \<Rightarrow>
               (case candidate_of_user d (td_user_id user) of
                  None \<Rightarrow> Inl (Failure ''Candidate not found'')
                | Some cid \<Rightarrow>
                    (case active_exam d of
                       None \<Rightarrow> Inl (Failure ''No active exam'')
                     | Some eid \<Rightarrow>
                         if slot_taken d cid eid p then Inl (Failure ''Priority order already exists'')
                         else (case insert_aspiration d cid eid uid mid p now of
                                 Inl e \<Rightarrow> Inl (DbError e)
                               | Inr d' \<Rightarrow> Inr d')))
           | _ \<Rightarrow> Inl (BadRequest ''Missing required fields'')))"

subsection \<open>Removing an aspiration\<close>

text \<open>\<open>SELECT a.id FROM aspirations a JOIN candidates c ON a.candidate_id = c.id
  WHERE a.id = ? AND c.user_id = ?\<close>\<close>

definition owns_aspiration :: "db \<Rightarrow> row_id \<Rightarrow> row_id \<Rightarrow> bool" where
  "owns_aspiration d uid aid \<longleftrightarrow>
     (\<exists>a \<in> set (aspirations d). a_id a = aid \<and>
        (\<exists>c \<in> set (candidates d). a_candidate a = c_id c \<and> c_user_id c = uid))"

definition remove_aspiration ::
  "token_store \<Rightarrow> time \<Rightarrow> string option \<Rightarrow> int option \<Rightarrow> db \<Rightarrow> api_error + db" where
  "remove_aspiration toks now hdr aid_field d =
     (case authenticate toks hdr now of
        Inl e \<Rightarrow> Inl e
      | Inr user \<Rightarrow>
          (case truthy_int aid_field of
             None \<Rightarrow> Inl (BadRequest ''Aspiration ID is required'')
           | Some aid \<Rightarrow>
               if owns_aspiration d (td_user_id user) aid
               then Inr (d\<lparr>aspirations := delete_where (\<lambda>a. a_id a = aid) (aspirations d)\<rparr>)
               else Inl (Failure ''Aspiration not found or access denied'')))"

subsection \<open>Reordering\<close>

text \<open>One element of the JSON list \<open>aspirations\<close>: \<open>aspiration.get('id')\<close> and
  \<open>aspiration.get('priority')\<close>.\<close>

record reorder_item =
  item_id :: "int option"
  item_priority :: "int option"

text \<open>
  The \<open>for\<close> loop: an item whose id is not one of the caller's aspirations
  (\<open>SELECT id FROM aspirations WHERE id = ? AND candidate_id = ?\<close>; \<open>id = NULL\<close>
  matches nothing) is skipped, every other item issues its \<open>UPDATE\<close> at once, and
  the first statement the engine rejects ends the loop with the exception.
\<close>

fun reorder_loop :: "row_id \<Rightarrow> reorder_item list \<Rightarrow> db \<Rightarrow> sql_error + db" where
  "reorder_loop cid [] d = Inr d"
| "reorder_loop cid (it # its) d =
     (case item_id it of
        None \<Rightarrow> reorder_loop cid its d
      | Some aid \<Rightarrow>
          if (\<exists>a \<in> set (aspirations d). a_id a = aid \<and> a_candidate a = cid)
          then (case update_priority d aid (item_priority it) of
                  Inl e \<Rightarrow> Inl e
                | Inr d' \<Rightarrow> reorder_loop cid its d')
          else reorder_loop cid its d)"

text \<open>\<open>data.get('aspirations', [])\<close>: a missing key, \<open>null\<close> and \<open>[]\<close> are all the
  empty list here, and all fail \<open>if not aspirations\<close>.\<close>

definition reorder_aspirations ::
  "token_store \<Rightarrow> time \<Rightarrow> string option \<Rightarrow> reorder_item list \<Rightarrow> db \<Rightarrow> api_error + db" where
  "reorder_aspirations toks now hdr items d =
     (case authenticate toks hdr now of
        Inl e \<Rightarrow> Inl e
      | Inr user \<Rightarrow>
          if items = [] then Inl (BadRequest ''No aspirations provided'')
          else (case candidate_of_user d (td_user_id user) of
                  None \<Rightarrow> Inl (Failure ''Candidate not found'')
                | Some cid \<Rightarrow>
                    (case reorder_loop cid items d of
                       Inl e \<Rightarrow> Inl (DbError e)
                     | Inr d' \<Rightarrow> Inr d')))"

subsection \<open>Listing\<close>

text \<open>
  The query of \<open>get_candidate_aspirations\<close>: the caller's aspirations joined with
  \<open>universities\<close> and \<open>majors\<close> (an inner join, so a row whose university or major
  id names no catalog row is not listed), \<open>ORDER BY a.priority_order\<close>. Ties (equal
  priorities in different exams) are kept in rowid order.
\<close>

definition candidate_aspirations :: "db \<Rightarrow> row_id \<Rightarrow> aspiration_row list" where
  "candidate_aspirations d cid =
     sort_key priority_order
       (filter (\<lambda>a. a_candidate a = cid \<and>
                    (\<exists>u \<in> set (universities d). un_id u = a_university a) \<and>
                    (\<exists>m \<in> set (majors d). m_id m = a_major a)) (aspirations d))"

definition get_candidate_aspirations ::
  "token_store \<Rightarrow> time \<Rightarrow> string option \<Rightarrow> db \<Rightarrow> api_error + aspiration_row list" where
  "get_candidate_aspirations toks now hdr d =
     (case authenticate toks hdr now of
        Inl e \<Rightarrow> Inl e
      | Inr user \<Rightarrow>
          (case candidate_of_user d (td_user_id user) of
             None \<Rightarrow> Inr []
           | Some cid \<Rightarrow> Inr (candidate_aspirations d cid)))"

declare slot_taken_def [eval_simps] add_aspiration_def [eval_simps] owns_aspiration_def [eval_simps]
  remove_aspiration_def [eval_simps] reorder_aspirations_def [eval_simps]
  candidate_aspirations_def [eval_simps] get_candidate_aspirations_def [eval_simps]

subsection \<open>Characterisation of each handler's outcome\<close>

lemma add_aspiration_Inr:
  "add_aspiration toks now hdr req d = Inr d' \<longleftrightarrow>
   (\<exists>user uid mid p cid eid.
      authenticate toks hdr now = Inr user \<and>
      truthy_int (req_university req) = Some uid \<and> truthy_int (req_major req) = Some mid \<and>
      truthy_int (req_priority req) = Some p \<and>
      candidate_of_user d (td_user_id user) = Some cid \<and> active_exam d = Some eid \<and>
      \<not> slot_taken d cid eid p \<and> insert_aspiration d cid eid uid mid p now = Inr d')"
  by (auto simp: add_aspiration_def split: sum.splits option.splits if_splits)

lemma remove_aspiration_Inr:
  "remove_aspiration toks now hdr aid_field d = Inr d' \<longleftrightarrow>
   (\<exists>user aid. authenticate toks hdr now = Inr user \<and> truthy_int aid_field = Some aid \<and>
      owns_aspiration d (td_user_id user) aid \<and>
      d' = d\<lparr>aspirations := delete_where (\<lambda>a. a_id a = aid) (aspirations d)\<rparr>)"
  by (auto simp: remove_aspiration_def split: sum.splits option.splits if_splits)

lemma reorder_aspirations_Inr:
  "reorder_aspirations toks now hdr items d = Inr d' \<longleftrightarrow>
   (\<exists>user cid. authenticate toks hdr now = Inr user \<and> items \<noteq> [] \<and>
      candidate_of_user d (td_user_id user) = Some cid \<and> reorder_loop cid items d = Inr d')"
  by (auto simp: reorder_aspirations_def split: sum.splits option.splits if_splits)

subsection \<open>The ledger keeps the store well formed\<close>

lemma add_aspiration_wf:
  "add_aspiration toks now hdr req d = Inr d' \<Longrightarrow> db_wf d \<Longrightarrow> db_wf d'"
  by (auto simp: add_aspiration_Inr intro: insert_aspiration_wf)

lemma remove_aspiration_wf:
  assumes "remove_aspiration toks now hdr aid_field d = Inr d'" and "db_wf d"
  shows "db_wf d'"
  using assms by (auto simp: remove_aspiration_Inr db_wf_def distinct_map_delete_where)

lemma reorder_loop_wf:
  "reorder_loop cid items d = Inr d' \<Longrightarrow> db_wf d \<Longrightarrow> db_wf d'"
proof (induction cid items d rule: reorder_loop.induct)
  case (1 cid d)
  then show ?case by simp
next
  case (2 cid it its d)
  then show ?case
    by (auto split: option.splits if_splits sum.splits intro: update_priority_wf)
qed

lemma reorder_aspirations_wf:
  "reorder_aspirations toks now hdr items d = Inr d' \<Longrightarrow> db_wf d \<Longrightarrow> db_wf d'"
  by (auto simp: reorder_aspirations_Inr intro: reorder_loop_wf)

subsection \<open>Reordering: frame, isolation and refinement\<close>

lemma reorder_loop_frame:
  "reorder_loop cid items d = Inr d' \<Longrightarrow> d' = d\<lparr>aspirations := aspirations d'\<rparr>"
proof (induction cid items d rule: reorder_loop.induct)
  case (1 cid d)
  then show ?case by simp
next
  case (2 cid it its d)
  show ?case
  proof (cases "item_id it")
    case None
    with 2 show ?thesis by simp
  next
    case (Some aid)
    show ?thesis
    proof (cases "\<exists>a \<in> set (aspirations d). a_id a = aid \<and> a_candidate a = cid")
      case owned: True
      with Some "2.prems" obtain d1 where d1: "update_priority d aid (item_priority it) = Inr d1"
        and rest: "reorder_loop cid its d1 = Inr d'"
        by (auto split: sum.splits)
      from d1 have "d1 = d\<lparr>aspirations := aspirations d1\<rparr>" by (rule update_priority_frame)
      moreover have "d' = d1\<lparr>aspirations := aspirations d'\<rparr>"
        using "2.IH"(2) Some owned d1 rest by blast
      ultimately show ?thesis by (metis db.update_convs(6) db.surjective)
    next
      case False
      with Some "2.prems" "2.IH"(3) show ?thesis by simp
    qed
  qed
qed

text \<open>An owned id names exactly one row, and that row is the caller's.\<close>

lemma wf_owned_row:
  assumes "db_wf d" and "\<exists>a \<in> set (aspirations d). a_id a = aid \<and> a_candidate a = cid"
    and "r \<in> set (aspirations d)" and "a_id r = aid"
  shows "a_candidate r = cid"
proof -
  from assms(2) obtain a where a: "a \<in> set (aspirations d)" "a_id a = aid" "a_candidate a = cid"
    by blast
  with assms(1,3,4) have "r = a" by (intro wf_same_id) simp_all
  with a show ?thesis by simp
qed

lemma update_priority_Inr:
  assumes "update_priority d aid po = Inr d'"
    and "\<exists>a \<in> set (aspirations d). a_id a = aid"
  shows "\<exists>p. po = Some p \<and>
           aspirations d' = update_where (\<lambda>b. a_id b = aid) (\<lambda>b. b\<lparr>priority_order := p\<rparr>) (aspirations d)"
proof -
  from assms(2) obtain a where "find (\<lambda>a. a_id a = aid) (aspirations d) = Some a"
    by (cases "find (\<lambda>a. a_id a = aid) (aspirations d)") (auto simp: find_None_iff)
  with assms(1) show ?thesis
    by (auto simp: update_priority_def split: option.splits if_splits)
qed

definition last_priority :: "reorder_item list \<Rightarrow> row_id \<Rightarrow> int \<Rightarrow> int" where
  "last_priority items aid p =
     foldl (\<lambda>q it. if item_id it = Some aid then (case item_priority it of None \<Rightarrow> q | Some r \<Rightarrow> r) else q)
       p items"

definition reorder_spec :: "row_id \<Rightarrow> reorder_item list \<Rightarrow> aspiration_row list \<Rightarrow> aspiration_row list" where
  "reorder_spec cid items rows =
     map (\<lambda>a. if a_candidate a = cid
              then a\<lparr>priority_order := last_priority items (a_id a) (priority_order a)\<rparr> else a) rows"

lemma last_priority_Cons:
  "last_priority (it # its) aid p =
     last_priority its aid (if item_id it = Some aid then (case item_priority it of None \<Rightarrow> p | Some r \<Rightarrow> r) else p)"
  by (simp add: last_priority_def)

lemma reorder_loop_refines:
  "reorder_loop cid items d = Inr d' \<Longrightarrow> db_wf d \<Longrightarrow>
   aspirations d' = reorder_spec cid items (aspirations d)"
proof (induction cid items d rule: reorder_loop.induct)
  case (1 cid d)
  then show ?case by (simp add: reorder_spec_def last_priority_def map_idI)
next
  case (2 cid it its d)
  show ?case
  proof (cases "item_id it")
    case None
    with 2 show ?thesis by (simp add: reorder_spec_def last_priority_Cons)
  next
    case (Some aid)
    show ?thesis
    proof (cases "\<exists>a \<in> set (aspirations d). a_id a = aid \<and> a_candidate a = cid")
      case owned: True
      with Some "2.prems"(1) obtain d1 where d1: "update_priority d aid (item_priority it) = Inr d1"
        and rest: "reorder_loop cid its d1 = Inr d'"
        by (auto split: sum.splits)
      from d1 owned obtain p where p: "item_priority it = Some p"
        and rows: "aspirations d1 = update_where (\<lambda>b. a_id b = aid)
                                     (\<lambda>b. b\<lparr>priority_order := p\<rparr>) (aspirations d)"
        by (auto dest!: update_priority_Inr)
      have wf1: "db_wf d1" using d1 "2.prems"(2) by (rule update_priority_wf)
      have IH: "aspirations d' = reorder_spec cid its (aspirations d1)"
        using "2.IH"(2) Some owned d1 rest wf1 by blast
      have "\<And>r. r \<in> set (aspirations d) \<Longrightarrow> a_id r = aid \<Longrightarrow> a_candidate r = cid"
        using "2.prems"(2) owned by (rule wf_owned_row)
      then have "reorder_spec cid its (update_where (\<lambda>b. a_id b = aid)
                   (\<lambda>b. b\<lparr>priority_order := p\<rparr>) (aspirations d)) =
                 reorder_spec cid (it # its) (aspirations d)"
        using Some p
        by (auto simp: reorder_spec_def update_where_def last_priority_Cons)
      with IH rows show ?thesis by simp
    next
      case False
      with Some "2.prems" "2.IH"(3) have "aspirations d' = reorder_spec cid its (aspirations d)"
        by simp
      moreover from False Some have "reorder_spec cid its (aspirations d) = reorder_spec cid (it # its) (aspirations d)"
        by (auto simp: reorder_spec_def last_priority_Cons)
      ultimately show ?thesis by simp
    qed
  qed
qed

lemma add_aspiration_succeeds:
  assumes "authenticate toks hdr now = Inr user"
    and "candidate_of_user d (td_user_id user) = Some cid" and "active_exam d = Some eid"
    and "uid \<noteq> 0" and "mid \<noteq> 0" and "priority_ok p" and "\<not> slot_taken d cid eid p"
  shows "add_aspiration toks now hdr
           \<lparr>req_university = Some uid, req_major = Some mid, req_priority = Some p\<rparr> d =
         Inr (d\<lparr>aspirations := aspirations d @
                   [\<lparr>a_id = seq_aspirations d + 1, a_candidate = cid, a_exam = eid,
                     a_university = uid, a_major = mid, priority_order = p,
                     a_status = Pending, a_payment = Unpaid, registered_at = now,
                     approved_by = None, approved_at = None, manager_notes = None\<rparr>],
                 seq_aspirations := seq_aspirations d + 1\<rparr>)"
proof -
  have "p \<noteq> 0" using assms(6) by (simp add: priority_ok_def)
  moreover have "(cid, eid, p) \<notin> set (map slot_of (aspirations d))"
    using assms(7) by (auto simp: slot_taken_def slot_of_def)
  ultimately show ?thesis
    using assms by (simp add: add_aspiration_def insert_aspiration_def)
qed

subsection \<open>Properties of the ledger\<close>

text \<open>The insert of \<open>add_aspiration\<close>: a successful request appends exactly one row, in the
  caller's first candidate profile, the active exam and the requested priority (which the
  \<open>CHECK\<close> constraint has bounded to 1..10), pending and unpaid, with a fresh id; no
  other table changes.\<close>

theorem add_aspiration_appends_pending:
  assumes "add_aspiration toks now hdr req d = Inr d'"
  shows "\<exists>user cid eid uid mid p.
     authenticate toks hdr now = Inr user \<and> candidate_of_user d (td_user_id user) = Some cid \<and>
     active_exam d = Some eid \<and> req_university req = Some uid \<and> req_major req = Some mid \<and>
     req_priority req = Some p \<and> priority_ok p \<and> \<not> slot_taken d cid eid p \<and>
     aspirations d' = aspirations d @
       [\<lparr>a_id = seq_aspirations d + 1, a_candidate = cid, a_exam = eid, a_university = uid,
         a_major = mid, priority_order = p, a_status = Pending, a_payment = Unpaid,
         registered_at = now, approved_by = None, approved_at = None, manager_notes = None\<rparr>] \<and>
     payments d' = payments d \<and> users d' = users d \<and> candidates d' = candidates d \<and>
     exams d' = exams d"
  using assms
  by (auto simp: add_aspiration_Inr insert_aspiration_def split: if_splits)

theorem add_aspiration_appends_pending_witness:
  "\<exists>d'. add_aspiration demo_tokens 1 (Some ''tok-c'')
          \<lparr>req_university = Some 1, req_major = Some 1, req_priority = Some 4\<rparr>
          (fresh_seed id 0) = Inr d' \<and>
        a_status (last (aspirations d')) = Pending \<and> length (aspirations d') = 4"
proof -
  obtain d' where h: "add_aspiration demo_tokens 1 (Some ''tok-c'')
          \<lparr>req_university = Some 1, req_major = Some 1, req_priority = Some 4\<rparr>
          (fresh_seed id 0) = Inr d'"
    by (simp add: eval_simps)
  from add_aspiration_appends_pending [OF h] h show ?thesis
    by (auto simp: fresh_seed_def)
qed

text \<open>C9: Scenario A: once a request has filled a priority slot, the same request for
  that priority with any university and major fails with \<open>Priority order already
  exists\<close>.\<close>

theorem add_aspiration_same_slot_conflict:
  assumes ok: "add_aspiration toks now hdr req d = Inr d'"
    and same: "req_priority req' = req_priority req"
    and fields: "truthy_int (req_university req') \<noteq> None" "truthy_int (req_major req') \<noteq> None"
  shows "add_aspiration toks now hdr req' d' = Inl (Failure ''Priority order already exists'')"
proof -
  from ok obtain user uid mid p cid eid where
    auth: "authenticate toks hdr now = Inr user" and
    p: "truthy_int (req_priority req) = Some p" and
    cid: "candidate_of_user d (td_user_id user) = Some cid" and
    eid: "active_exam d = Some eid" and
    ins: "insert_aspiration d cid eid uid mid p now = Inr d'"
    by (auto simp: add_aspiration_Inr)
  from ins have "candidate_of_user d' (td_user_id user) = Some cid" and "active_exam d' = Some eid"
    and "slot_taken d' cid eid p"
    using cid eid by (auto simp: insert_aspiration_def candidate_of_user_def active_exam_def
                          slot_taken_def split: if_splits)
  with auth p same fields show ?thesis
    by (auto simp: add_aspiration_def)
qed

theorem add_aspiration_same_slot_conflict_witness:
  "\<exists>d'. add_aspiration demo_tokens 1 (Some ''tok-c'')
          \<lparr>req_university = Some 1, req_major = Some 1, req_priority = Some 4\<rparr>
          (fresh_seed id 0) = Inr d' \<and>
        add_aspiration demo_tokens 1 (Some ''tok-c'')
          \<lparr>req_university = Some 3, req_major = Some 5, req_priority = Some 4\<rparr> d' =
          Inl (Failure ''Priority order already exists'')"
proof -
  obtain d' where h: "add_aspiration demo_tokens 1 (Some ''tok-c'')
          \<lparr>req_university = Some 1, req_major = Some 1, req_priority = Some 4\<rparr>
          (fresh_seed id 0) = Inr d'"
    by (simp add: eval_simps)
  have "add_aspiration demo_tokens 1 (Some ''tok-c'')
          \<lparr>req_university = Some 3, req_major = Some 5, req_priority = Some 4\<rparr> d' =
          Inl (Failure ''Priority order already exists'')"
    by (rule add_aspiration_same_slot_conflict [OF h]) simp_all
  with h show ?thesis by blast
qed

text \<open>C21: The quota of four aspirations per exam (\<open>SystemConfig.max_aspirations\<close>,
  \<open>exams.max_aspirations\<close>) is never enforced: a request with a free priority slot
  succeeds and adds a row to the caller's aspirations for the active exam, however many
  the caller already holds there.\<close>

theorem add_aspiration_quota_unchecked:
  assumes "authenticate toks hdr now = Inr user"
    and "candidate_of_user d (td_user_id user) = Some cid" and "active_exam d = Some eid"
    and "uid \<noteq> 0" and "mid \<noteq> 0" and "priority_ok p" and "\<not> slot_taken d cid eid p"
  shows "\<exists>d'. add_aspiration toks now hdr
           \<lparr>req_university = Some uid, req_major = Some mid, req_priority = Some p\<rparr> d = Inr d' \<and>
         length (filter (\<lambda>a. a_candidate a = cid \<and> a_exam a = eid) (aspirations d')) =
         Suc (length (filter (\<lambda>a. a_candidate a = cid \<and> a_exam a = eid) (aspirations d)))"
  using add_aspiration_succeeds [OF assms] by simp

theorem add_aspiration_quota_unchecked_witness:
  "\<exists>d'. add_aspiration demo_tokens 2 (Some ''tok-c'')
          \<lparr>req_university = Some 1, req_major = Some 1, req_priority = Some 5\<rparr>
          (projr (add_aspiration demo_tokens 1 (Some ''tok-c'')
             \<lparr>req_university = Some 1, req_major = Some 1, req_priority = Some 4\<rparr>
             (fresh_seed id 0))) = Inr d' \<and>
        length (filter (\<lambda>a. a_candidate a = 1 \<and> a_exam a = 1) (aspirations d')) = 5"
  using add_aspiration_quota_unchecked [where toks = demo_tokens and hdr = "Some ''tok-c''" and now = 2
      and d = "projr (add_aspiration demo_tokens 1 (Some ''tok-c'')
             \<lparr>req_university = Some 1, req_major = Some 1, req_priority = Some 4\<rparr> (fresh_seed id 0))"
      and cid = 1 and eid = 1 and uid = 1 and mid = 1 and p = 5]
  by (simp add: eval_simps)

text \<open>C33: Registration does not check what an aspiration refers to: the specification
  has a major belong to one university and answers a reference to an absent entity
  with \<open>NotFoundError\<close>, but \<open>add_aspiration\<close> stores any non-zero university and
  major ids it is given, whether or not the tables hold them or the major belongs to
  the university.\<close>

theorem add_aspiration_references_unchecked:
  assumes "authenticate toks hdr now = Inr user"
    and "candidate_of_user d (td_user_id user) = Some cid" and "active_exam d = Some eid"
    and "uid \<noteq> 0" and "mid \<noteq> 0" and "priority_ok p" and "\<not> slot_taken d cid eid p"
  shows "\<exists>d'. add_aspiration toks now hdr
           \<lparr>req_university = Some uid, req_major = Some mid, req_priority = Some p\<rparr> d = Inr d' \<and>
         (cid, eid, uid, mid) \<in> set (map (\<lambda>a. (a_candidate a, a_exam a, a_university a, a_major a))
                                     (aspirations d'))"
  using add_aspiration_succeeds [OF assms] by simp

theorem add_aspiration_references_unchecked_witness:
  "\<exists>d'. add_aspiration demo_tokens 1 (Some ''tok-c'')
          \<lparr>req_university = Some 99, req_major = Some 99, req_priority = Some 4\<rparr>
          (fresh_seed id 0) = Inr d' \<and>
        (1, 1, 99, 99) \<in> set (map (\<lambda>a. (a_candidate a, a_exam a, a_university a, a_major a))
                                (aspirations d')) \<and>
        99 \<notin> set (map un_id (universities (fresh_seed id 0))) \<and>
        99 \<notin> set (map m_id (majors (fresh_seed id 0)))"
  using add_aspiration_references_unchecked [where toks = demo_tokens and hdr = "Some ''tok-c''"
      and now = 1 and d = "fresh_seed id 0" and cid = 1 and eid = 1 and uid = 99 and mid = 99 and p = 4]
  by (simp add: eval_simps)

text \<open>C15: Ownership isolation of \<open>remove_aspiration\<close> (P6): a row that belongs to no
  candidate profile of the caller survives every successful removal.\<close>

theorem remove_aspiration_isolation:
  assumes wf: "db_wf d"
    and auth: "authenticate toks hdr now = Inr user"
    and ok: "remove_aspiration toks now hdr aid_field d = Inr d'"
    and a: "a \<in> set (aspirations d)"
    and other: "\<forall>c \<in> set (candidates d). c_id c = a_candidate a \<longrightarrow> c_user_id c \<noteq> td_user_id user"
  shows "a \<in> set (aspirations d')"
proof -
  from ok auth obtain aid where owns: "owns_aspiration d (td_user_id user) aid"
    and d': "d' = d\<lparr>aspirations := delete_where (\<lambda>a. a_id a = aid) (aspirations d)\<rparr>"
    by (auto simp: remove_aspiration_Inr)
  from owns obtain b c where b: "b \<in> set (aspirations d)" "a_id b = aid"
    and c: "c \<in> set (candidates d)" "a_candidate b = c_id c" "c_user_id c = td_user_id user"
    by (auto simp: owns_aspiration_def)
  have "a_id a \<noteq> aid"
  proof
    assume "a_id a = aid"
    with wf a b have "a = b" by (intro wf_same_id) simp_all
    with c other show False by auto
  qed
  with a d' show ?thesis by simp
qed

theorem remove_aspiration_isolation_witness:
  "\<exists>d'. remove_aspiration demo_tokens 1 (Some ''tok-c'') (Some 1)
          ((fresh_seed id 0)\<lparr>aspirations := aspirations (fresh_seed id 0) @
             [(hd (aspirations (fresh_seed id 0)))\<lparr>a_id := 9, a_candidate := 2, priority_order := 1\<rparr>],
           seq_aspirations := 9\<rparr>) = Inr d' \<and>
        (hd (aspirations (fresh_seed id 0)))\<lparr>a_id := 9, a_candidate := 2, priority_order := 1\<rparr>
          \<in> set (aspirations d')"
proof -
  let ?d = "(fresh_seed id 0)\<lparr>aspirations := aspirations (fresh_seed id 0) @
             [(hd (aspirations (fresh_seed id 0)))\<lparr>a_id := 9, a_candidate := 2, priority_order := 1\<rparr>],
           seq_aspirations := 9\<rparr>"
  let ?a = "(hd (aspirations (fresh_seed id 0)))\<lparr>a_id := 9, a_candidate := 2, priority_order := 1\<rparr>"
  have wf: "db_wf ?d" by (simp add: eval_simps db_wf_def)
  have auth: "authenticate demo_tokens (Some ''tok-c'') 1 = Inr
      \<lparr>td_user_id = 3, td_username = ''candidate'', td_role = Candidate, created_at = 0\<rparr>"
    by (simp add: eval_simps)
  obtain d' where h: "remove_aspiration demo_tokens 1 (Some ''tok-c'') (Some 1) ?d = Inr d'"
    by (simp add: eval_simps)
  have "?a \<in> set (aspirations d')"
    by (rule remove_aspiration_isolation [OF wf auth h]) (simp_all add: eval_simps)
  with h show ?thesis by blast
qed

text \<open>C22: A candidate can delete an aspiration whatever its status (the specification
  allows deletion only while it is pending): every aspiration of one of the caller's
  candidate profiles, approved or rejected included, is removed by
  \<open>remove_aspiration\<close>.\<close>

theorem remove_aspiration_any_status:
  assumes "authenticate toks hdr now = Inr user"
    and "a \<in> set (aspirations d)" and "c \<in> set (candidates d)"
    and "a_candidate a = c_id c" and "c_user_id c = td_user_id user" and "a_id a \<noteq> 0"
  shows "\<exists>d'. remove_aspiration toks now hdr (Some (a_id a)) d = Inr d' \<and>
         a_id a \<notin> set (map a_id (aspirations d'))"
proof -
  have "owns_aspiration d (td_user_id user) (a_id a)"
    using assms(2-5) unfolding owns_aspiration_def by blast
  then show ?thesis using assms(1,6) by (auto simp: remove_aspiration_def)
qed

theorem remove_aspiration_any_status_witness:
  "\<exists>d'. remove_aspiration demo_tokens 1 (Some ''tok-c'') (Some 1)
          ((fresh_seed id 0)\<lparr>aspirations := update_where (\<lambda>a. a_id a = 1)
             (\<lambda>a. a\<lparr>a_status := Approved\<rparr>) (aspirations (fresh_seed id 0))\<rparr>) = Inr d' \<and>
        1 \<notin> set (map a_id (aspirations d'))"
proof -
  define d where "d = (fresh_seed id 0)\<lparr>aspirations := update_where (\<lambda>a. a_id a = 1)
             (\<lambda>a. a\<lparr>a_status := Approved\<rparr>) (aspirations (fresh_seed id 0))\<rparr>"
  have u: "authenticate demo_tokens (Some ''tok-c'') 1 = Inr
      \<lparr>td_user_id = 3, td_username = ''candidate'', td_role = Candidate, created_at = 0\<rparr>"
    by (simp add: eval_simps)
  have a: "a_id (hd (aspirations d)) = 1" "a_status (hd (aspirations d)) = Approved"
    by (simp_all add: d_def eval_simps)
  have "\<exists>d'. remove_aspiration demo_tokens 1 (Some ''tok-c'') (Some (a_id (hd (aspirations d)))) d = Inr d' \<and>
         a_id (hd (aspirations d)) \<notin> set (map a_id (aspirations d'))"
    by (rule remove_aspiration_any_status [OF u, where c = "hd (candidates d)"])
       (simp_all add: d_def eval_simps)
  with a show ?thesis by (simp add: d_def)
qed

text \<open>C16: Ownership isolation of \<open>reorder_aspirations\<close> (P6): a successful batch leaves
  every row of every other candidate, and every other table, exactly as it was.\<close>

theorem reorder_aspirations_isolation:
  assumes wf: "db_wf d"
    and auth: "authenticate toks hdr now = Inr user"
    and cid: "candidate_of_user d (td_user_id user) = Some cid"
    and ok: "reorder_aspirations toks now hdr items d = Inr d'"
  shows "filter (\<lambda>a. a_candidate a \<noteq> cid) (aspirations d') =
           filter (\<lambda>a. a_candidate a \<noteq> cid) (aspirations d) \<and>
         d' = d\<lparr>aspirations := aspirations d'\<rparr>"
proof -
  from ok auth cid have loop: "reorder_loop cid items d = Inr d'"
    by (auto simp: reorder_aspirations_Inr)
  then have "aspirations d' = reorder_spec cid items (aspirations d)"
    using wf by (rule reorder_loop_refines)
  moreover have "filter (\<lambda>a. a_candidate a \<noteq> cid) (reorder_spec cid items rows) =
                 filter (\<lambda>a. a_candidate a \<noteq> cid) rows" for rows
    by (induction rows) (auto simp: reorder_spec_def)
  moreover from loop have "d' = d\<lparr>aspirations := aspirations d'\<rparr>" by (rule reorder_loop_frame)
  ultimately show ?thesis by simp
qed

theorem reorder_aspirations_isolation_witness:
  "\<exists>d'. reorder_aspirations demo_tokens 1 (Some ''tok-c'')
          [\<lparr>item_id = Some 1, item_priority = Some 5\<rparr>] (fresh_seed id 0) = Inr d' \<and>
        filter (\<lambda>a. a_candidate a \<noteq> 1) (aspirations d') = []"
proof -
  have wf: "db_wf (fresh_seed id 0)" by (rule fresh_seed_wf)
  have auth: "authenticate demo_tokens (Some ''tok-c'') 1 = Inr
      \<lparr>td_user_id = 3, td_username = ''candidate'', td_role = Candidate, created_at = 0\<rparr>"
    by (simp add: eval_simps)
  have cid: "candidate_of_user (fresh_seed id 0) 3 = Some 1"
    by (simp add: eval_simps)
  obtain d' where h: "reorder_aspirations demo_tokens 1 (Some ''tok-c'')
          [\<lparr>item_id = Some 1, item_priority = Some 5\<rparr>] (fresh_seed id 0) = Inr d'"
    by (simp add: eval_simps)
  from reorder_aspirations_isolation [OF wf auth _ h] cid have
    "filter (\<lambda>a. a_candidate a \<noteq> 1) (aspirations d') =
     filter (\<lambda>a. a_candidate a \<noteq> 1) (aspirations (fresh_seed id 0))"
    by simp
  with h show ?thesis by (simp add: eval_simps)
qed

text \<open>C8: Refinement of \<open>reorder_aspirations\<close>: whenever the batch commits, each of
  the caller's aspirations ends with the priority of the last item naming its id (its
  old priority if none does): the sequential \<open>UPDATE\<close>s implement last-write-wins.\<close>

theorem reorder_aspirations_last_write_wins:
  assumes wf: "db_wf d"
    and auth: "authenticate toks hdr now = Inr user"
    and cid: "candidate_of_user d (td_user_id user) = Some cid"
    and ok: "reorder_aspirations toks now hdr items d = Inr d'"
  shows "aspirations d' = reorder_spec cid items (aspirations d)"
proof -
  from ok auth cid have "reorder_loop cid items d = Inr d'"
    by (auto simp: reorder_aspirations_Inr)
  then show ?thesis using wf by (rule reorder_loop_refines)
qed

theorem reorder_aspirations_last_write_wins_witness:
  "\<exists>d'. reorder_aspirations demo_tokens 1 (Some ''tok-c'')
          [\<lparr>item_id = Some 1, item_priority = Some 5\<rparr>, \<lparr>item_id = Some 1, item_priority = Some 7\<rparr>]
          (fresh_seed id 0) = Inr d' \<and>
        map priority_order (aspirations d') = [7, 2, 3]"
proof -
  have wf: "db_wf (fresh_seed id 0)" by (rule fresh_seed_wf)
  have auth: "authenticate demo_tokens (Some ''tok-c'') 1 = Inr
      \<lparr>td_user_id = 3, td_username = ''candidate'', td_role = Candidate, created_at = 0\<rparr>"
    by (simp add: eval_simps)
  have cid: "candidate_of_user (fresh_seed id 0) 3 = Some 1"
    by (simp add: eval_simps)
  obtain d' where h: "reorder_aspirations demo_tokens 1 (Some ''tok-c'')
          [\<lparr>item_id = Some 1, item_priority = Some 5\<rparr>, \<lparr>item_id = Some 1, item_priority = Some 7\<rparr>]
          (fresh_seed id 0) = Inr d'"
    by (simp add: eval_simps)
  from reorder_aspirations_last_write_wins [OF wf auth _ h] cid h show ?thesis
    by (simp add: eval_simps reorder_spec_def last_priority_def)
qed

text \<open>C17: Swapping two priorities is impossible (a finding): each \<open>UPDATE\<close> is checked
  against \<open>UNIQUE(candidate_id, exam_id, priority_order)\<close> on its own, so the first
  half of a swap of two aspirations of one exam collides with the second row and the
  whole batch fails.\<close>

theorem reorder_swap_rejected:
  assumes wf: "db_wf d"
    and auth: "authenticate toks hdr now = Inr user"
    and cid: "candidate_of_user d (td_user_id user) = Some cid"
    and a: "a \<in> set (aspirations d)" "a_candidate a = cid"
    and b: "b \<in> set (aspirations d)" "a_candidate b = cid"
    and same_exam: "a_exam a = a_exam b" and diff: "a_id a \<noteq> a_id b"
  shows "reorder_aspirations toks now hdr
           [\<lparr>item_id = Some (a_id a), item_priority = Some (priority_order b)\<rparr>,
            \<lparr>item_id = Some (a_id b), item_priority = Some (priority_order a)\<rparr>] d =
         Inl (DbError UniqueSlot)"
proof -
  have find_a: "find (\<lambda>x. a_id x = a_id a) (aspirations d) = Some a"
    using wf a(1) by (rule wf_find_aspiration)
  have ok_b: "priority_ok (priority_order b)" using wf b(1) by (auto simp: db_wf_def)
  have clash: "\<exists>x \<in> set (aspirations d). a_id x \<noteq> a_id a \<and>
                 slot_of x = (a_candidate a, a_exam a, priority_order b)"
  proof
    show "b \<in> set (aspirations d)" by (rule b(1))
    show "a_id b \<noteq> a_id a \<and> slot_of b = (a_candidate a, a_exam a, priority_order b)"
      using a(2) b(2) same_exam diff by (simp add: slot_of_def)
  qed
  have "update_priority d (a_id a) (Some (priority_order b)) = Inl UniqueSlot"
    using find_a ok_b clash by (simp add: update_priority_def)
  then have "reorder_loop cid
           [\<lparr>item_id = Some (a_id a), item_priority = Some (priority_order b)\<rparr>,
            \<lparr>item_id = Some (a_id b), item_priority = Some (priority_order a)\<rparr>] d = Inl UniqueSlot"
    using a by auto
  with auth cid show ?thesis by (simp add: reorder_aspirations_def)
qed

theorem reorder_swap_rejected_witness:
  "reorder_aspirations demo_tokens 1 (Some ''tok-c'')
     [\<lparr>item_id = Some 1, item_priority = Some 2\<rparr>, \<lparr>item_id = Some 2, item_priority = Some 1\<rparr>]
     (fresh_seed id 0) = Inl (DbError UniqueSlot)"
proof -
  have wf: "db_wf (fresh_seed id 0)" by (rule fresh_seed_wf)
  have auth: "authenticate demo_tokens (Some ''tok-c'') 1 = Inr
      \<lparr>td_user_id = 3, td_username = ''candidate'', td_role = Candidate, created_at = 0\<rparr>"
    by (simp add: eval_simps)
  have cid: "candidate_of_user (fresh_seed id 0) 3 = Some 1"
    by (simp add: eval_simps)
  let ?a = "aspirations (fresh_seed id 0) ! 0"
  let ?b = "aspirations (fresh_seed id 0) ! 1"
  have "reorder_aspirations demo_tokens 1 (Some ''tok-c'')
     [\<lparr>item_id = Some (a_id ?a), item_priority = Some (priority_order ?b)\<rparr>,
      \<lparr>item_id = Some (a_id ?b), item_priority = Some (priority_order ?a)\<rparr>]
     (fresh_seed id 0) = Inl (DbError UniqueSlot)"
    by (rule reorder_swap_rejected [OF wf auth, where cid = 1]) (simp_all add: eval_simps)
  then show ?thesis by (simp add: eval_simps)
qed

subsection \<open>Payment flags\<close>

lemma add_aspiration_new_row:
  assumes "add_aspiration toks now hdr req d = Inr d'"
  shows "\<exists>r. aspirations d' = aspirations d @ [r] \<and> a_payment r = Unpaid \<and>
             a_id r = seq_aspirations d + 1"
  using assms by (auto simp: add_aspiration_Inr insert_aspiration_def split: if_splits)

lemma reorder_loop_pay_view:
  "reorder_loop cid items d = Inr d' \<Longrightarrow> pay_view d' = pay_view d"
proof (induction cid items d rule: reorder_loop.induct)
  case (1 cid d)
  then show ?case by simp
next
  case (2 cid it its d)
  then show ?case
    by (auto split: option.splits if_splits sum.splits dest!: pay_view_update_priority)
qed

lemma remove_aspiration_rows:
  "remove_aspiration toks now hdr aid_field d = Inr d' \<Longrightarrow>
   set (aspirations d') \<subseteq> set (aspirations d) \<and> payments d' = payments d"
  by (auto simp: remove_aspiration_Inr)

lemma reorder_aspirations_pay_view:
  assumes "reorder_aspirations toks now hdr items d = Inr d'"
  shows "pay_view d' = pay_view d \<and> payments d' = payments d"
proof -
  from assms obtain cid where loop: "reorder_loop cid items d = Inr d'"
    by (auto simp: reorder_aspirations_Inr)
  from loop have "d' = d\<lparr>aspirations := aspirations d'\<rparr>" by (rule reorder_loop_frame)
  then have "payments d' = payments d" by (metis db.select_convs(7) db.surjective db.update_convs(6))
  with reorder_loop_pay_view [OF loop] show ?thesis by simp
qed

end
