(* ===== verification/Payments.thy ===== *)
theory Payments
  imports Fixtures
begin

text \<open>
  The payment ledger: the module functions \<open>create_payment\<close> (lines 333--356) and
  \<open>verify_payment\<close> (358--380), and the handler methods that call them,
  \<open>create_payment\<close> (3709--3772), \<open>verify_payment\<close> (3774--3793) and
  \<open>get_payment_history\<close> (3656--3707). A payment is created \<open>pending\<close> with a
  transaction id; verifying the id completes the payment and marks its aspiration
  paid. The transaction id is \<open>TXN\<close>, the local time as \<open>%Y%m%d%H%M%S\<close> and
  \<open>secrets.token_hex(4)\<close>: both parts are chosen by the environment and passed in.
\<close>

text \<open>\<open>amount = 50000  # Fixed fee\<close> of the handler.\<close>

definition aspiration_fee :: int where
  "aspiration_fee = 50000"

definition gen_transaction_id :: "string \<Rightarrow> string \<Rightarrow> string" where
  "gen_transaction_id stamp suffix = ''TXN'' @ stamp @ suffix"

text \<open>
  \<open>create_payment\<close>: refused when a \<^emph>\<open>completed\<close> payment of the aspiration
  exists (its Vietnamese message is transliterated to ASCII);
  otherwise the \<open>INSERT\<close>, which raises on a duplicate transaction id. A pending
  payment of the same aspiration does not stop a second one.
\<close>

definition create_payment ::
  "db \<Rightarrow> row_id \<Rightarrow> row_id \<Rightarrow> row_id \<Rightarrow> int \<Rightarrow> string \<Rightarrow> string \<Rightarrow> time \<Rightarrow>
   api_error + db \<times> row_id \<times> string" where
  "create_payment d cid eid aid amt meth tx now =
     (if (\<exists>p \<in> set (payments d). p_aspiration p = aid \<and> p_status p = TxnCompleted)
      then Inl (Failure ''Nguyen vong nay da duoc thanh toan'')
      else (case insert_payment d cid eid aid amt meth tx now of
              Inl e \<Rightarrow> Inl (DbError e)
            | Inr (d', pid) \<Rightarrow> Inr (d', pid, tx)))"

text \<open>
  \<open>verify_payment\<close>: two statements in one transaction. The first completes the
  payments with this id that are still pending; the second marks paid the aspiration
  named by \<open>SELECT aspiration_id FROM payments WHERE transaction_id = ?\<close> (the first
  such row; none when the id is unknown), whatever the first statement did.
\<close>

definition verify_payment :: "db \<Rightarrow> string \<Rightarrow> time \<Rightarrow> db" where
  "verify_payment d tx now =
     (let d1 = d\<lparr>payments := update_where (\<lambda>p. transaction_id p = tx \<and> p_status p = TxnPending)
                               (\<lambda>p. p\<lparr>p_status := TxnCompleted, payment_date := Some now\<rparr>)
                               (payments d)\<rparr>
      in case find (\<lambda>p. transaction_id p = tx) (payments d1) of
           None \<Rightarrow> d1
         | Some p \<Rightarrow> d1\<lparr>aspirations := update_where (\<lambda>a. a_id a = p_aspiration p)
                                          (\<lambda>a. a\<lparr>a_payment := Paid\<rparr>) (aspirations d1)\<rparr>)"

subsection \<open>The handlers\<close>

text \<open>
  The \<open>create_payment\<close> handler: the token check, the two required fields, the
  caller's candidate profile, the aspiration (\<open>SELECT exam_id FROM aspirations WHERE
  id = ? AND candidate_id = ?\<close>), then the module function with the fixed fee. Its
  success answer carries the payment id, the transaction id and the amount.
\<close>

definition handle_create_payment ::
  "token_store \<Rightarrow> time \<Rightarrow> string option \<Rightarrow> int option \<Rightarrow> string option \<Rightarrow> string \<Rightarrow> db \<Rightarrow>
   api_error + db \<times> row_id \<times> string \<times> int" where
  "handle_create_payment toks now hdr aid_field meth_field tx d =
     (case authenticate toks hdr now of
        Inl e \<Rightarrow> Inl e
      | Inr user \<Rightarrow>
          (case (truthy_int aid_field, truthy_str meth_field) of
             (Some aid, Some meth) \<Rightarrow>
               (case candidate_of_user d (td_user_id user) of
                  None \<Rightarrow> Inl (Failure ''Candidate not found'')
                | Some cid \<Rightarrow>
                    (case find (\<lambda>a. a_id a = aid \<and> a_candidate a = cid) (aspirations d) of
                       None \<Rightarrow> Inl (Failure ''Aspiration not found'')
                     | Some a \<Rightarrow>
                         (case create_payment d cid (a_exam a) aid aspiration_fee meth tx now of
                            Inl e \<Rightarrow> Inl e
                          | Inr (d', pid, txid) \<Rightarrow> Inr (d', pid, txid, aspiration_fee))))
           | _ \<Rightarrow> Inl (BadRequest ''Aspiration ID and payment method are required'')))"

text \<open>
  The \<open>verify_payment\<close> handler checks that an \<open>Authorization\<close> header is present
  and never calls \<open>verify_token\<close>: it takes no session store.
\<close>

definition handle_verify_payment :: "time \<Rightarrow> string option \<Rightarrow> string option \<Rightarrow> db \<Rightarrow> api_error + db" where
  "handle_verify_payment now hdr tx_field d =
     (case truthy_str hdr of
        None \<Rightarrow> Inl Unauthorized
      | Some _ \<Rightarrow>
          (case truthy_str tx_field of
             None \<Rightarrow> Inl (BadRequest ''Transaction ID is required'')
           | Some tx \<Rightarrow> Inr (verify_payment d tx now)))"

text \<open>
  \<open>get_payment_history\<close>: the caller's payments joined with their aspiration and its
  university and major, \<open>ORDER BY p.created_at DESC\<close> (ties in rowid order).
\<close>

definition payment_history :: "db \<Rightarrow> row_id \<Rightarrow> payment_row list" where
  "payment_history d cid =
     rev (sort_key p_created_at (rev
       (filter (\<lambda>p. p_candidate p = cid \<and>
          (\<exists>a \<in> set (aspirations d). a_id a = p_aspiration p \<and>
             (\<exists>u \<in> set (universities d). un_id u = a_university a) \<and>
             (\<exists>m \<in> set (majors d). m_id m = a_major a))) (payments d))))"

definition get_payment_history ::
  "token_store \<Rightarrow> time \<Rightarrow> string option \<Rightarrow> db \<Rightarrow> api_error + payment_row list" where
  "get_payment_history toks now hdr d =
     (case authenticate toks hdr now of
        Inl e \<Rightarrow> Inl e
      | Inr user \<Rightarrow>
          (case candidate_of_user d (td_user_id user) of
             None \<Rightarrow> Inl (Failure ''Candidate not found'')
           | Some cid \<Rightarrow> Inr (payment_history d cid)))"

declare aspiration_fee_def [eval_simps] gen_transaction_id_def [eval_simps]
  create_payment_def [eval_simps] verify_payment_def [eval_simps]
  handle_create_payment_def [eval_simps] handle_verify_payment_def [eval_simps]
  payment_history_def [eval_simps] get_payment_history_def [eval_simps]

subsection \<open>Verification of a payment\<close>

lemma payment_status_not_pending [simp]: "p_status r \<noteq> TxnPending \<longleftrightarrow> p_status r = TxnCompleted"
  by (cases "p_status r") simp_all

lemma verify_payment_payments:
  "payments (verify_payment d tx now) =
     update_where (\<lambda>p. transaction_id p = tx \<and> p_status p = TxnPending)
       (\<lambda>p. p\<lparr>p_status := TxnCompleted, payment_date := Some now\<rparr>) (payments d)"
  by (simp add: verify_payment_def Let_def split: option.splits)

lemma find_tx_after_complete:
  "find (\<lambda>p. transaction_id p = tx)
     (update_where (\<lambda>p. transaction_id p = tx \<and> p_status p = TxnPending)
        (\<lambda>p. p\<lparr>p_status := TxnCompleted, payment_date := Some now\<rparr>) ps) =
   map_option (\<lambda>p. if p_status p = TxnPending then p\<lparr>p_status := TxnCompleted, payment_date := Some now\<rparr> else p)
     (find (\<lambda>p. transaction_id p = tx) ps)"
  by (induction ps) auto

lemma verify_payment_aspirations:
  "aspirations (verify_payment d tx now) =
     (case find (\<lambda>p. transaction_id p = tx) (payments d) of
        None \<Rightarrow> aspirations d
      | Some p \<Rightarrow> update_where (\<lambda>a. a_id a = p_aspiration p) (\<lambda>a. a\<lparr>a_payment := Paid\<rparr>) (aspirations d))"
  by (cases "find (\<lambda>p. transaction_id p = tx) (payments d)")
     (simp_all add: verify_payment_def Let_def find_tx_after_complete)

lemma verify_payment_frame:
  "verify_payment d tx now =
     d\<lparr>payments := payments (verify_payment d tx now),
       aspirations := aspirations (verify_payment d tx now)\<rparr>"
  by (simp add: verify_payment_def Let_def split: option.splits)

lemma verify_payment_idempotent:
  "verify_payment (verify_payment d tx t) tx t' = verify_payment d tx t"
proof -
  have pay: "payments (verify_payment (verify_payment d tx t) tx t') = payments (verify_payment d tx t)"
    by (simp add: verify_payment_payments update_where_disables)
  have find_same: "find (\<lambda>p. transaction_id p = tx) (payments (verify_payment d tx t)) =
      map_option (\<lambda>p. if p_status p = TxnPending then p\<lparr>p_status := TxnCompleted, payment_date := Some t\<rparr> else p)
        (find (\<lambda>p. transaction_id p = tx) (payments d))"
    by (simp add: verify_payment_payments find_tx_after_complete)
  have asp: "aspirations (verify_payment (verify_payment d tx t) tx t') = aspirations (verify_payment d tx t)"
    by (cases "find (\<lambda>p. transaction_id p = tx) (payments d)")
       (simp_all add: verify_payment_aspirations find_same update_where_idem)
  show ?thesis
    by (subst (1 2) verify_payment_frame) (simp add: pay asp)
qed

lemma verify_payment_unknown:
  assumes "tx \<notin> set (map transaction_id (payments d))"
  shows "verify_payment d tx now = d"
proof -
  have u: "update_where (\<lambda>p. transaction_id p = tx \<and> p_status p = TxnPending)
             (\<lambda>p. p\<lparr>p_status := TxnCompleted, payment_date := Some now\<rparr>) (payments d) = payments d"
    using assms by (intro update_where_no_match) auto
  have "find (\<lambda>p. transaction_id p = tx) (payments d) = None"
    using assms by (auto simp: find_None_iff)
  with u show ?thesis by (simp add: verify_payment_def Let_def)
qed

lemma handle_verify_payment_Inr:
  "handle_verify_payment now hdr tx_field d = Inr d' \<longleftrightarrow>
   (\<exists>tok tx. truthy_str hdr = Some tok \<and> truthy_str tx_field = Some tx \<and> d' = verify_payment d tx now)"
  by (auto simp: handle_verify_payment_def split: option.splits)

lemma handle_create_payment_Inr:
  "handle_create_payment toks now hdr aid_field meth_field tx d = Inr (d', pid, txid, amt) \<longleftrightarrow>
   (\<exists>user aid meth cid a.
      authenticate toks hdr now = Inr user \<and> truthy_int aid_field = Some aid \<and>
      truthy_str meth_field = Some meth \<and> candidate_of_user d (td_user_id user) = Some cid \<and>
      find (\<lambda>a. a_id a = aid \<and> a_candidate a = cid) (aspirations d) = Some a \<and>
      create_payment d cid (a_exam a) aid aspiration_fee meth tx now = Inr (d', pid, txid) \<and>
      amt = aspiration_fee)"
  by (auto simp: handle_create_payment_def split: sum.splits option.splits prod.splits)

lemma create_payment_Inr:
  "create_payment d cid eid aid amt meth tx now = Inr (d', pid, txid) \<longleftrightarrow>
   \<not> (\<exists>p \<in> set (payments d). p_aspiration p = aid \<and> p_status p = TxnCompleted) \<and>
   tx \<notin> set (map transaction_id (payments d)) \<and> txid = tx \<and> pid = seq_payments d + 1 \<and>
   d' = d\<lparr>payments := payments d @
           [\<lparr>p_id = seq_payments d + 1, p_candidate = cid, p_exam = eid, p_aspiration = aid,
             amount = amt, payment_method = meth, transaction_id = tx, p_status = TxnPending,
             payment_date = None, p_created_at = now\<rparr>],
         seq_payments := seq_payments d + 1\<rparr>"
  by (auto simp: create_payment_def insert_payment_def split: if_splits)

lemma create_payment_wf:
  assumes "create_payment d cid eid aid amt meth tx now = Inr (d', pid, txid)" and "db_wf d"
  shows "db_wf d'"
proof -
  from assms(1) have "insert_payment d cid eid aid amt meth tx now = Inr (d', pid)"
    by (simp add: create_payment_def split: if_splits sum.splits prod.splits)
  then show ?thesis using assms(2) by (rule insert_payment_wf)
qed

lemma verify_payment_wf:
  assumes "db_wf d" shows "db_wf (verify_payment d tx now)"
proof -
  have "map transaction_id (payments (verify_payment d tx now)) = map transaction_id (payments d)"
    and "map p_id (payments (verify_payment d tx now)) = map p_id (payments d)"
    by (simp_all add: verify_payment_payments map_update_where_frame)
  moreover have "map a_id (aspirations (verify_payment d tx now)) = map a_id (aspirations d)"
    and "map slot_of (aspirations (verify_payment d tx now)) = map slot_of (aspirations d)"
    and "map priority_order (aspirations (verify_payment d tx now)) = map priority_order (aspirations d)"
    by (simp_all add: verify_payment_aspirations map_update_where_frame slot_of_def split: option.splits)
  moreover have "\<forall>p \<in> set (payments (verify_payment d tx now)). p_id p \<le> seq_payments d"
    using assms ball_map_eq [OF calculation(2), where P = "\<lambda>x. x \<le> seq_payments d"]
    by (simp add: db_wf_def)
  moreover have "\<forall>a \<in> set (aspirations (verify_payment d tx now)). a_id a \<le> seq_aspirations d"
    using assms ball_map_eq [OF calculation(3), where P = "\<lambda>x. x \<le> seq_aspirations d"]
    by (simp add: db_wf_def)
  moreover have "\<forall>a \<in> set (aspirations (verify_payment d tx now)). priority_ok (priority_order a)"
    using assms ball_map_eq [OF calculation(5), where P = priority_ok]
    by (simp add: db_wf_def)
  ultimately show ?thesis
    using assms by (subst verify_payment_frame) (simp add: db_wf_def)
qed

lemma handle_create_payment_wf:
  assumes "handle_create_payment toks now hdr aid_field meth_field tx d = Inr (d', r)" and "db_wf d"
  shows "db_wf d'"
proof -
  obtain pid txid amt where r: "r = (pid, txid, amt)" by (cases r) auto
  with assms(1) obtain cid eid aid meth where
    "create_payment d cid eid aid aspiration_fee meth tx now = Inr (d', pid, txid)"
    by (auto simp: handle_create_payment_Inr)
  then show ?thesis using assms(2) by (rule create_payment_wf)
qed

lemma handle_verify_payment_wf:
  "handle_verify_payment now hdr tx_field d = Inr d' \<Longrightarrow> db_wf d \<Longrightarrow> db_wf d'"
  by (auto simp: handle_verify_payment_Inr intro: verify_payment_wf)

lemma handle_create_payment_aspirations:
  "handle_create_payment toks now hdr aid_field meth_field tx d = Inr (d', r) \<Longrightarrow>
   aspirations d' = aspirations d"
  by (cases r) (auto simp: handle_create_payment_Inr create_payment_Inr)

lemma handle_create_payment_payments:
  "handle_create_payment toks now hdr aid_field meth_field tx d = Inr (d', r) \<Longrightarrow>
   \<exists>p. payments d' = payments d @ [p] \<and> p_status p = TxnPending"
  by (cases r) (auto simp: handle_create_payment_Inr create_payment_Inr)

lemma handle_create_payment_flags:
  assumes "handle_create_payment toks now hdr aid_field meth_field tx d = Inr (d', r)"
  shows "pays_nothing d d' \<and> keeps_completed d d'"
proof
  from handle_create_payment_aspirations [OF assms] show "pays_nothing d d'"
    by (simp add: pays_nothing_subset)
  from handle_create_payment_payments [OF assms] show "keeps_completed d d'"
    by (auto simp: keeps_completed_def)
qed

lemma verify_payment_rows:
  "a' \<in> set (aspirations (verify_payment d tx now)) \<Longrightarrow>
   a_payment a' = Paid \<or> a' \<in> set (aspirations d)"
  by (auto simp: verify_payment_aspirations set_update_where split: option.splits)

lemma verify_payment_keeps_paid: "db_wf d \<Longrightarrow> keeps_paid d (verify_payment d tx now)"
  by (rule keeps_paid_intro) (auto simp: pay_view_def dest: verify_payment_rows)

lemma verify_payment_keeps_completed: "keeps_completed d (verify_payment d tx now)"
  by (auto simp: keeps_completed_def verify_payment_payments set_update_where)

lemma verify_payment_paid_backed:
  assumes backed: "paid_backed d"
  shows "paid_backed (verify_payment d tx now)"
proof (cases "find (\<lambda>p. transaction_id p = tx) (payments d)")
  case None
  then have "tx \<notin> set (map transaction_id (payments d))" by (auto simp: find_None_iff)
  then show ?thesis using backed by (simp add: verify_payment_unknown)
next
  case (Some p)
  let ?p' = "if p_status p = TxnPending then p\<lparr>p_status := TxnCompleted, payment_date := Some now\<rparr> else p"
  have p: "p \<in> set (payments d)" "transaction_id p = tx" using Some by (auto dest: find_Some_in_set)
  have "?p' \<in> set (payments (verify_payment d tx now))"
    using p by (auto simp: verify_payment_payments set_update_where)
  moreover have "p_status ?p' = TxnCompleted" "p_aspiration ?p' = p_aspiration p" by auto
  ultimately have target: "\<exists>q \<in> set (payments (verify_payment d tx now)).
      p_aspiration q = p_aspiration p \<and> p_status q = TxnCompleted" by blast
  have rows: "aspirations (verify_payment d tx now) =
      update_where (\<lambda>a. a_id a = p_aspiration p) (\<lambda>a. a\<lparr>a_payment := Paid\<rparr>) (aspirations d)"
    using Some by (simp add: verify_payment_aspirations)
  have kc: "keeps_completed d (verify_payment d tx now)" by (rule verify_payment_keeps_completed)
  show ?thesis
    unfolding paid_backed_def
  proof (intro ballI impI)
    fix a assume a: "a \<in> set (aspirations (verify_payment d tx now))" and paid: "a_payment a = Paid"
    show "\<exists>q \<in> set (payments (verify_payment d tx now)). p_aspiration q = a_id a \<and> p_status q = TxnCompleted"
    proof (cases "a_id a = p_aspiration p")
      case True
      with target show ?thesis by simp
    next
      case False
      with a rows paid have "a \<in> set (aspirations d)" by (auto simp: set_update_where)
      with backed paid kc show ?thesis unfolding paid_backed_def keeps_completed_def by blast
    qed
  qed
qed

subsection \<open>A created payment and its verification\<close>

lemma update_where_completes:
  "list_all (\<lambda>q. p_status q = TxnCompleted)
     (filter (\<lambda>q. transaction_id q = tx)
        (update_where (\<lambda>p. transaction_id p = tx \<and> p_status p = TxnPending)
           (\<lambda>p. p\<lparr>p_status := TxnCompleted, payment_date := Some now\<rparr>) ps))"
  by (induction ps) auto

lemma update_where_marks_paid:
  "list_all (\<lambda>a. a_payment a = Paid)
     (filter (\<lambda>a. a_id a = x) (update_where (\<lambda>a. a_id a = x) (\<lambda>a. a\<lparr>a_payment := Paid\<rparr>) rows))"
  by (induction rows) auto

lemma find_tx_append:
  "tx \<notin> set (map transaction_id ps) \<Longrightarrow> transaction_id p = tx \<Longrightarrow>
   find (\<lambda>q. transaction_id q = tx) (ps @ [p]) = Some p"
  by (induction ps) auto

lemma create_payment_request_row:
  assumes "handle_create_payment toks now hdr (Some aid) (Some m) tx d = Inr (d1, x)"
  shows "\<exists>p. find (\<lambda>p. transaction_id p = tx) (payments d1) = Some p \<and> p_aspiration p = aid"
    and "aid \<in> set (map a_id (aspirations d1))"
proof -
  obtain pid txid amt where x: "x = (pid, txid, amt)" by (cases x) auto
  from assms [unfolded x handle_create_payment_Inr] obtain user aid' meth cid a where
    aid: "truthy_int (Some aid) = Some aid'" and
    a: "find (\<lambda>a. a_id a = aid' \<and> a_candidate a = cid) (aspirations d) = Some a" and
    c: "create_payment d cid (a_exam a) aid' aspiration_fee meth tx now = Inr (d1, pid, txid)"
    by blast
  have "aid' = aid" using aid by (simp split: if_splits)
  with a c show "\<exists>p. find (\<lambda>p. transaction_id p = tx) (payments d1) = Some p \<and> p_aspiration p = aid"
    by (auto simp: create_payment_Inr find_tx_append)
  from a have "a \<in> set (aspirations d)" "a_id a = aid'" by (auto dest: find_Some_in_set)
  with c \<open>aid' = aid\<close> show "aid \<in> set (map a_id (aspirations d1))"
    by (auto simp: create_payment_Inr)
qed

subsection \<open>Properties of the payment ledger\<close>

lemma handle_create_payment_row:
  assumes "handle_create_payment toks now hdr (Some aid) mf tx d = Inr (d1, x)"
  shows "\<exists>r. payments d1 = payments d @ [r] \<and> transaction_id r = tx \<and> p_aspiration r = aid \<and>
     p_status r = TxnPending \<and> tx \<notin> set (map transaction_id (payments d)) \<and>
     \<not> (\<exists>p \<in> set (payments d). p_aspiration p = aid \<and> p_status p = TxnCompleted)"
proof -
  obtain pid txid amt where x: "x = (pid, txid, amt)" by (cases x) auto
  from assms [unfolded x handle_create_payment_Inr] obtain user aid' meth cid a where
    aid: "truthy_int (Some aid) = Some aid'" and
    a: "find (\<lambda>a. a_id a = aid' \<and> a_candidate a = cid) (aspirations d) = Some a" and
    c: "create_payment d cid (a_exam a) aid' aspiration_fee meth tx now = Inr (d1, pid, txid)"
    by blast
  have "aid' = aid" using aid by (simp split: if_splits)
  with c show ?thesis by (auto simp: create_payment_Inr)
qed

lemma handle_create_payment_again:
  assumes "handle_create_payment toks now hdr af mf tx1 d = Inr (d1, x)"
    and "tx2 \<notin> set (map transaction_id (payments d1))"
  shows "\<exists>d2 y. handle_create_payment toks now hdr af mf tx2 d1 = Inr (d2, y)"
proof -
  obtain pid txid amt where x: "x = (pid, txid, amt)" by (cases x) auto
  from assms(1) [unfolded x handle_create_payment_Inr] obtain user aid meth cid a where
    u: "authenticate toks hdr now = Inr user" and aid: "truthy_int af = Some aid" and
    m: "truthy_str mf = Some meth" and c: "candidate_of_user d (td_user_id user) = Some cid" and
    a: "find (\<lambda>a. a_id a = aid \<and> a_candidate a = cid) (aspirations d) = Some a" and
    p: "create_payment d cid (a_exam a) aid aspiration_fee meth tx1 now = Inr (d1, pid, txid)"
    by blast
  from p have c1: "candidate_of_user d1 (td_user_id user) = Some cid"
    and a1: "find (\<lambda>a. a_id a = aid \<and> a_candidate a = cid) (aspirations d1) = Some a"
    and np: "\<not> (\<exists>q \<in> set (payments d1). p_aspiration q = aid \<and> p_status q = TxnCompleted)"
    using c a by (auto simp: create_payment_Inr candidate_of_user_def)
  obtain d2 pid2 where
    p2: "create_payment d1 cid (a_exam a) aid aspiration_fee meth tx2 now = Inr (d2, pid2, tx2)"
    using np assms(2) by (simp add: create_payment_Inr)
  have "handle_create_payment toks now hdr af mf tx2 d1 = Inr (d2, pid2, tx2, aspiration_fee)"
    unfolding handle_create_payment_Inr using u aid m c1 a1 p2 by blast
  then show ?thesis by blast
qed

lemma create_twice_verify_twice:
  assumes h1: "handle_create_payment toks now hdr (Some aid) mf tx1 d = Inr (d1, x)"
    and h2: "handle_create_payment toks' now' hdr' (Some aid) mf' tx2 d1 = Inr (d2, y)"
    and "tx2 \<noteq> tx1"
  shows "length (filter (\<lambda>p. p_aspiration p = aid \<and> p_status p = TxnCompleted)
           (payments (verify_payment (verify_payment d2 tx1 t1) tx2 t2))) = 2"
proof -
  obtain r1 where r1: "payments d1 = payments d @ [r1]" "transaction_id r1 = tx1"
      "p_aspiration r1 = aid" "p_status r1 = TxnPending"
    and fresh1: "tx1 \<notin> set (map transaction_id (payments d))"
    and np: "\<not> (\<exists>p \<in> set (payments d). p_aspiration p = aid \<and> p_status p = TxnCompleted)"
    using handle_create_payment_row [OF h1] by blast
  obtain r2 where r2: "payments d2 = payments d1 @ [r2]" "transaction_id r2 = tx2"
      "p_aspiration r2 = aid" "p_status r2 = TxnPending"
    and fresh2: "tx2 \<notin> set (map transaction_id (payments d1))"
    using handle_create_payment_row [OF h2] by blast
  have fresh2': "tx2 \<notin> set (map transaction_id (payments d))" using fresh2 r1 by simp
  have keep: "update_where (\<lambda>p. transaction_id p = tx \<and> p_status p = TxnPending) f (payments d) = payments d"
    if "tx \<notin> set (map transaction_id (payments d))" for tx f
    by (rule update_where_no_match) (use that in auto)
  show ?thesis
    using r1 r2 assms(3) np
    by (simp add: verify_payment_payments keep [OF fresh1] keep [OF fresh2'] filter_empty_conv)
qed

text \<open>C10: Idempotent verification (P4): a second \<open>verify_payment\<close> request with the same
  transaction id, at any later time, succeeds and leaves the store exactly as the first
  one left it.\<close>

theorem handle_verify_payment_idempotent:
  assumes "handle_verify_payment now hdr tx_field d = Inr d1"
  shows "handle_verify_payment now' hdr tx_field d1 = Inr d1"
proof -
  from assms obtain tok tx where hdr: "truthy_str hdr = Some tok" and tx: "truthy_str tx_field = Some tx"
    and d1: "d1 = verify_payment d tx now"
    by (auto simp: handle_verify_payment_Inr)
  have "verify_payment d1 tx now' = d1" unfolding d1 by (rule verify_payment_idempotent)
  with hdr tx show ?thesis by (simp add: handle_verify_payment_def)
qed

theorem handle_verify_payment_idempotent_witness:
  "\<exists>d1. handle_verify_payment 5 (Some ''tok-c'') (Some ''TXN1'') (fresh_seed id 0) = Inr d1 \<and>
        handle_verify_payment 9 (Some ''tok-c'') (Some ''TXN1'') d1 = Inr d1"
proof -
  obtain d1 where h: "handle_verify_payment 5 (Some ''tok-c'') (Some ''TXN1'') (fresh_seed id 0) = Inr d1"
    by (simp add: handle_verify_payment_def)
  from h handle_verify_payment_idempotent [OF h, of 9] show ?thesis by blast
qed

text \<open>C11: What verification does (Scenario B): when a payment with the transaction id
  exists, afterwards every payment with that id is completed and the aspiration of the
  first one is paid; no aspiration is added or removed.\<close>

theorem verify_payment_marks_paid:
  assumes "find (\<lambda>p. transaction_id p = tx) (payments d) = Some p"
  shows "(\<forall>q \<in> set (payments (verify_payment d tx now)). transaction_id q = tx \<longrightarrow> p_status q = TxnCompleted) \<and>
         (\<forall>a \<in> set (aspirations (verify_payment d tx now)). a_id a = p_aspiration p \<longrightarrow> a_payment a = Paid) \<and>
         map a_id (aspirations (verify_payment d tx now)) = map a_id (aspirations d)"
proof -
  have pay: "\<forall>q \<in> set (update_where (\<lambda>p. transaction_id p = tx \<and> p_status p = TxnPending)
               (\<lambda>p. p\<lparr>p_status := TxnCompleted, payment_date := Some now\<rparr>) ps).
               transaction_id q = tx \<longrightarrow> p_status q = TxnCompleted" for ps
    by (induction ps) (auto simp: payment_status_not_pending)
  have asp: "\<forall>a \<in> set (update_where (\<lambda>a. a_id a = x) (\<lambda>a. a\<lparr>a_payment := Paid\<rparr>) rows).
               a_id a = x \<longrightarrow> a_payment a = Paid" for x rows
    by (induction rows) auto
  have rows: "aspirations (verify_payment d tx now) =
      update_where (\<lambda>a. a_id a = p_aspiration p) (\<lambda>a. a\<lparr>a_payment := Paid\<rparr>) (aspirations d)"
    using assms by (simp add: verify_payment_aspirations)
  have ids: "map a_id (aspirations (verify_payment d tx now)) = map a_id (aspirations d)"
    unfolding rows by (rule map_update_where_frame) simp
  show ?thesis
    unfolding verify_payment_payments rows
    using pay [of "payments d"] asp [of "p_aspiration p" "aspirations d"] ids [unfolded rows]
    by blast
qed

theorem verify_payment_marks_paid_witness:
  "\<exists>d1 p. handle_create_payment demo_tokens 1 (Some ''tok-c'') (Some 2) (Some ''momo'') ''TXN1''
            (fresh_seed id 0) = Inr (d1, 1, ''TXN1'', 50000) \<and>
          find (\<lambda>p. transaction_id p = ''TXN1'') (payments d1) = Some p \<and> p_aspiration p = 2 \<and>
          list_all (\<lambda>a. a_payment a = Paid) (filter (\<lambda>a. a_id a = 2) (aspirations (verify_payment d1 ''TXN1'' 7)))"
proof -
  obtain d1 where h: "handle_create_payment demo_tokens 1 (Some ''tok-c'') (Some 2) (Some ''momo'') ''TXN1''
      (fresh_seed id 0) = Inr (d1, 1, ''TXN1'', 50000)"
    by (simp add: eval_simps)
  then obtain p where f: "find (\<lambda>p. transaction_id p = ''TXN1'') (payments d1) = Some p"
    and p2: "p_aspiration p = 2"
    by (auto simp: eval_simps)
  from verify_payment_marks_paid [OF f, of 7] p2 h f show ?thesis by (auto simp: list_all_iff)
qed

text \<open>A successful \<open>create_payment\<close> request appends one pending payment of the fixed
  fee (50000), with the caller's transaction id and a fresh id, for an aspiration of the
  caller that had no completed payment; the aspirations are untouched.\<close>

theorem handle_create_payment_pending_row:
  assumes "handle_create_payment toks now hdr aid_field meth_field tx d = Inr (d', pid, txid, amt)"
  shows "\<exists>user cid a meth.
     authenticate toks hdr now = Inr user \<and> candidate_of_user d (td_user_id user) = Some cid \<and>
     a \<in> set (aspirations d) \<and> a_candidate a = cid \<and> aid_field = Some (a_id a) \<and>
     meth_field = Some meth \<and> txid = tx \<and> amt = 50000 \<and> pid = seq_payments d + 1 \<and>
     \<not> (\<exists>p \<in> set (payments d). p_aspiration p = a_id a \<and> p_status p = TxnCompleted) \<and>
     payments d' = payments d @
       [\<lparr>p_id = pid, p_candidate = cid, p_exam = a_exam a, p_aspiration = a_id a,
         amount = 50000, payment_method = meth, transaction_id = tx, p_status = TxnPending,
         payment_date = None, p_created_at = now\<rparr>] \<and>
     aspirations d' = aspirations d"
proof -
  from assms obtain user aid meth cid a where
    auth: "authenticate toks hdr now = Inr user" and aid: "truthy_int aid_field = Some aid" and
    meth: "truthy_str meth_field = Some meth" and cid: "candidate_of_user d (td_user_id user) = Some cid" and
    fa: "find (\<lambda>a. a_id a = aid \<and> a_candidate a = cid) (aspirations d) = Some a" and
    cp: "create_payment d cid (a_exam a) aid aspiration_fee meth tx now = Inr (d', pid, txid)" and
    amt: "amt = aspiration_fee"
    by (auto simp: handle_create_payment_Inr)
  from fa have a: "a \<in> set (aspirations d)" "a_id a = aid" "a_candidate a = cid"
    by (auto dest: find_Some_in_set)
  from cp a show ?thesis
    using auth aid meth cid amt by (auto simp: create_payment_Inr aspiration_fee_def)
qed

theorem handle_create_payment_pending_row_witness:
  "\<exists>d1. handle_create_payment demo_tokens 1 (Some ''tok-c'') (Some 2) (Some ''momo'') ''TXN1''
          (fresh_seed id 0) = Inr (d1, 1, ''TXN1'', 50000) \<and>
        map p_status (payments d1) = [TxnPending]"
proof -
  obtain d1 where h: "handle_create_payment demo_tokens 1 (Some ''tok-c'') (Some 2) (Some ''momo'') ''TXN1''
      (fresh_seed id 0) = Inr (d1, 1, ''TXN1'', 50000)"
    by (simp add: eval_simps)
  from handle_create_payment_pending_row [OF h] have "map p_status (payments d1) = [TxnPending]"
    by (auto simp: eval_simps)
  with h show ?thesis by (intro exI [of _ d1] conjI)
qed

text \<open>C12: The guard of invariant I4 (error path): a request for an aspiration of the
  caller that already has a completed payment is refused with the \<open>already paid\<close>
  message, whatever the payment method and transaction id.\<close>

theorem handle_create_payment_already_paid:
  assumes auth: "authenticate toks hdr now = Inr user"
    and aid: "truthy_int aid_field = Some aid" and meth: "truthy_str meth_field = Some meth"
    and cid: "candidate_of_user d (td_user_id user) = Some cid"
    and owned: "\<exists>a \<in> set (aspirations d). a_id a = aid \<and> a_candidate a = cid"
    and paid: "\<exists>p \<in> set (payments d). p_aspiration p = aid \<and> p_status p = TxnCompleted"
  shows "handle_create_payment toks now hdr aid_field meth_field tx d =
           Inl (Failure ''Nguyen vong nay da duoc thanh toan'')"
proof -
  from owned obtain a where fa: "find (\<lambda>a. a_id a = aid \<and> a_candidate a = cid) (aspirations d) = Some a"
    by (metis (mono_tags, lifting) find_None_iff not_None_eq)
  then have "a_id a = aid" by (auto dest: find_Some_in_set)
  with paid have "create_payment d cid (a_exam a) aid aspiration_fee meth tx now =
                    Inl (Failure ''Nguyen vong nay da duoc thanh toan'')"
    by (simp add: create_payment_def)
  with auth aid meth cid fa show ?thesis by (simp add: handle_create_payment_def)
qed

theorem handle_create_payment_already_paid_witness:
  "\<exists>d1. handle_create_payment demo_tokens 1 (Some ''tok-c'') (Some 2) (Some ''momo'') ''TXN1''
          (fresh_seed id 0) = Inr (d1, 1, ''TXN1'', 50000) \<and>
        handle_create_payment demo_tokens 8 (Some ''tok-c'') (Some 2) (Some ''zalopay'') ''TXN2''
          (verify_payment d1 ''TXN1'' 7) = Inl (Failure ''Nguyen vong nay da duoc thanh toan'')"
proof -
  obtain d1 where h: "handle_create_payment demo_tokens 1 (Some ''tok-c'') (Some 2) (Some ''momo'') ''TXN1''
      (fresh_seed id 0) = Inr (d1, 1, ''TXN1'', 50000)"
    by (simp add: eval_simps)
  have auth: "authenticate demo_tokens (Some ''tok-c'') 8 = Inr
      \<lparr>td_user_id = 3, td_username = ''candidate'', td_role = Candidate, created_at = 0\<rparr>"
    by (simp add: eval_simps)
  from h have "handle_create_payment demo_tokens 8 (Some ''tok-c'') (Some 2) (Some ''zalopay'') ''TXN2''
          (verify_payment d1 ''TXN1'' 7) = Inl (Failure ''Nguyen vong nay da duoc thanh toan'')"
    by (intro handle_create_payment_already_paid [OF auth, where aid = 2 and meth = "''zalopay''" and cid = 1])
       (auto simp: eval_simps)
  with h show ?thesis by blast
qed

text \<open>C5: Invariant I4 (property P2) does not hold of the code: whenever a
  \<open>create_payment\<close> request succeeds, the same request again with a fresh transaction
  id (the double click of the payment page) succeeds on the store it left, because
  the guard only looks for a completed payment; verifying both transactions leaves
  two completed payments for the one aspiration.\<close>

theorem double_completion:
  assumes "handle_create_payment toks now hdr (Some aid) mf tx1 d = Inr (d1, x)"
    and "tx2 \<noteq> tx1" and "tx2 \<notin> set (map transaction_id (payments d))"
  shows "\<exists>d2 y. handle_create_payment toks now hdr (Some aid) mf tx2 d1 = Inr (d2, y) \<and>
     length (filter (\<lambda>p. p_aspiration p = aid \<and> p_status p = TxnCompleted)
       (payments (verify_payment (verify_payment d2 tx1 ta) tx2 tb))) = 2"
proof -
  have "tx2 \<notin> set (map transaction_id (payments d1))"
    using handle_create_payment_row [OF assms(1)] assms(2,3) by auto
  then obtain d2 y where h2: "handle_create_payment toks now hdr (Some aid) mf tx2 d1 = Inr (d2, y)"
    using handle_create_payment_again [OF assms(1)] by blast
  with create_twice_verify_twice [OF assms(1) h2 assms(2)] show ?thesis by blast
qed

theorem double_completion_witness:
  "\<exists>d1 d2 y. handle_create_payment demo_tokens 1 (Some ''tok-c'') (Some 2) (Some ''momo'') ''TXN1''
          (fresh_seed id 0) = Inr (d1, 1, ''TXN1'', 50000) \<and>
     handle_create_payment demo_tokens 1 (Some ''tok-c'') (Some 2) (Some ''momo'') ''TXN2'' d1 =
       Inr (d2, y) \<and>
     length (filter (\<lambda>p. p_aspiration p = 2 \<and> p_status p = TxnCompleted)
       (payments (verify_payment (verify_payment d2 ''TXN1'' 2) ''TXN2'' 3))) = 2"
proof -
  obtain d1 where h: "handle_create_payment demo_tokens 1 (Some ''tok-c'') (Some 2) (Some ''momo'') ''TXN1''
      (fresh_seed id 0) = Inr (d1, 1, ''TXN1'', 50000)"
    by (simp add: eval_simps)
  have "''TXN2'' \<notin> set (map transaction_id (payments (fresh_seed id 0)))"
    by (simp add: eval_simps)
  from double_completion [OF h _ this, where ta = 2 and tb = 3] h show ?thesis by auto
qed

end
