(* ===== verification/Approval.thy ===== *)
theory Approval
  imports Fixtures
begin

text \<open>
  Staff review of aspirations: the module functions \<open>get_pending_aspirations\<close> (lines
  412--447), \<open>approve_aspiration\<close> (449--461) and \<open>reject_aspiration\<close> (463--475),
  and the handler methods of the same names (3795--3862), which admit a caller whose
  token is valid and whose role is \<open>manager\<close> or \<open>admin\<close>. Neither \<open>UPDATE\<close> looks
  at the current status, and \<open>reject_aspiration\<close> does not record who rejected.
\<close>

definition approve_aspiration :: "db \<Rightarrow> row_id \<Rightarrow> row_id \<Rightarrow> string option \<Rightarrow> time \<Rightarrow> db" where
  "approve_aspiration d aid manager notes now =
     d\<lparr>aspirations := update_where (\<lambda>a. a_id a = aid)
        (\<lambda>a. a\<lparr>a_status := Approved, approved_by := Some manager, approved_at := Some now,
              manager_notes := notes\<rparr>) (aspirations d)\<rparr>"

definition reject_aspiration :: "db \<Rightarrow> row_id \<Rightarrow> string option \<Rightarrow> db" where
  "reject_aspiration d aid reason =
     d\<lparr>aspirations := update_where (\<lambda>a. a_id a = aid)
        (\<lambda>a. a\<lparr>a_status := Rejected, manager_notes := reason\<rparr>) (aspirations d)\<rparr>"

text \<open>
  The query of \<open>get_pending_aspirations\<close>: pending aspirations joined with their
  university, major, candidate profile and the profile's user, \<open>ORDER BY
  a.registered_at DESC\<close> (ties in rowid order).
\<close>

definition pending_aspirations :: "db \<Rightarrow> aspiration_row list" where
  "pending_aspirations d =
     rev (sort_key registered_at (rev
       (filter (\<lambda>a. a_status a = Pending \<and>
          (\<exists>u \<in> set (universities d). un_id u = a_university a) \<and>
          (\<exists>m \<in> set (majors d). m_id m = a_major a) \<and>
          (\<exists>c \<in> set (candidates d). c_id c = a_candidate a \<and>
             (\<exists>usr \<in> set (users d). u_id usr = c_user_id c))) (aspirations d))))"

definition handle_get_pending_aspirations ::
  "token_store \<Rightarrow> time \<Rightarrow> string option \<Rightarrow> db \<Rightarrow> api_error + aspiration_row list" where
  "handle_get_pending_aspirations toks now hdr d =
     (case authenticate_staff toks hdr now of
        Inl e \<Rightarrow> Inl e
      | Inr _ \<Rightarrow> Inr (pending_aspirations d))"

text \<open>
  The two review handlers. \<open>notes_field\<close> and \<open>reason_field\<close> are the values of
  \<open>data.get('notes', '')\<close> and \<open>data.get('reason', '')\<close>: \<open>Some ''''\<close> for a
  missing key, \<open>None\<close> for JSON \<open>null\<close>. The answer is a success whether or not a
  row has the id.
\<close>

definition handle_approve_aspiration ::
  "token_store \<Rightarrow> time \<Rightarrow> string option \<Rightarrow> int option \<Rightarrow> string option \<Rightarrow> db \<Rightarrow> api_error + db" where
  "handle_approve_aspiration toks now hdr aid_field notes_field d =
     (case authenticate_staff toks hdr now of
        Inl e \<Rightarrow> Inl e
      | Inr user \<Rightarrow>
          (case truthy_int aid_field of
             None \<Rightarrow> Inl (BadRequest ''Aspiration ID is required'')
           | Some aid \<Rightarrow> Inr (approve_aspiration d aid (td_user_id user) notes_field now)))"

definition handle_reject_aspiration ::
  "token_store \<Rightarrow> time \<Rightarrow> string option \<Rightarrow> int option \<Rightarrow> string option \<Rightarrow> db \<Rightarrow> api_error + db" where
  "handle_reject_aspiration toks now hdr aid_field reason_field d =
     (case authenticate_staff toks hdr now of
        Inl e \<Rightarrow> Inl e
      | Inr _ \<Rightarrow>
          (case truthy_int aid_field of
             None \<Rightarrow> Inl (BadRequest ''Aspiration ID is required'')
           | Some aid \<Rightarrow> Inr (reject_aspiration d aid reason_field)))"

declare approve_aspiration_def [eval_simps] reject_aspiration_def [eval_simps]
  pending_aspirations_def [eval_simps] handle_get_pending_aspirations_def [eval_simps]
  handle_approve_aspiration_def [eval_simps] handle_reject_aspiration_def [eval_simps]

subsection \<open>The status life cycle the specification asks for\<close>

text \<open>Invariant I2: \<open>pending\<close> moves to \<open>approved\<close> or \<open>rejected\<close>, both terminal.\<close>

inductive spec_status_step :: "asp_status \<Rightarrow> asp_status \<Rightarrow> bool" where
  approve: "spec_status_step Pending Approved"
| reject: "spec_status_step Pending Rejected"

inductive_cases spec_status_step_from_Approved: "spec_status_step Approved s"
inductive_cases spec_status_step_from_Rejected: "spec_status_step Rejected s"

lemma spec_status_terminal: "s \<noteq> Pending \<Longrightarrow> \<not> spec_status_step s s'"
  by (cases s) (auto elim: spec_status_step_from_Approved spec_status_step_from_Rejected)

subsection \<open>Lemmas\<close>

lemma handle_approve_aspiration_Inr:
  "handle_approve_aspiration toks now hdr aid_field notes_field d = Inr d' \<longleftrightarrow>
   (\<exists>user aid. authenticate_staff toks hdr now = Inr user \<and> truthy_int aid_field = Some aid \<and>
      d' = approve_aspiration d aid (td_user_id user) notes_field now)"
  by (auto simp: handle_approve_aspiration_def split: sum.splits option.splits)

lemma handle_reject_aspiration_Inr:
  "handle_reject_aspiration toks now hdr aid_field reason_field d = Inr d' \<longleftrightarrow>
   (\<exists>user aid. authenticate_staff toks hdr now = Inr user \<and> truthy_int aid_field = Some aid \<and>
      d' = reject_aspiration d aid reason_field)"
  by (auto simp: handle_reject_aspiration_def split: sum.splits option.splits)

lemma approve_aspiration_frame:
  "map slot_of (aspirations (approve_aspiration d aid m n t)) = map slot_of (aspirations d)"
  "map a_id (aspirations (approve_aspiration d aid m n t)) = map a_id (aspirations d)"
  "map a_payment (aspirations (approve_aspiration d aid m n t)) = map a_payment (aspirations d)"
  by (simp_all add: approve_aspiration_def map_update_where_frame slot_of_def)

lemma reject_aspiration_frame:
  "map slot_of (aspirations (reject_aspiration d aid r)) = map slot_of (aspirations d)"
  "map a_id (aspirations (reject_aspiration d aid r)) = map a_id (aspirations d)"
  "map a_payment (aspirations (reject_aspiration d aid r)) = map a_payment (aspirations d)"
  by (simp_all add: reject_aspiration_def map_update_where_frame slot_of_def)

lemma handle_approve_aspiration_wf:
  assumes "handle_approve_aspiration toks now hdr aid_field notes_field d = Inr d'" and "db_wf d"
  shows "db_wf d'"
proof -
  from assms(1) obtain aid m where d': "d' = approve_aspiration d aid m notes_field now"
    by (auto simp: handle_approve_aspiration_Inr)
  then have "d' = d\<lparr>aspirations := aspirations d'\<rparr>" by (simp add: approve_aspiration_def)
  moreover have "db_wf (d\<lparr>aspirations := aspirations d'\<rparr>)"
    using assms(2) approve_aspiration_frame(2,1) unfolding d' by (rule db_wf_aspirations_frame)
  ultimately show ?thesis by simp
qed

lemma handle_reject_aspiration_wf:
  assumes "handle_reject_aspiration toks now hdr aid_field reason_field d = Inr d'" and "db_wf d"
  shows "db_wf d'"
proof -
  from assms(1) obtain aid where d': "d' = reject_aspiration d aid reason_field"
    by (auto simp: handle_reject_aspiration_Inr)
  then have "d' = d\<lparr>aspirations := aspirations d'\<rparr>" by (simp add: reject_aspiration_def)
  moreover have "db_wf (d\<lparr>aspirations := aspirations d'\<rparr>)"
    using assms(2) reject_aspiration_frame(2,1) unfolding d' by (rule db_wf_aspirations_frame)
  ultimately show ?thesis by simp
qed

lemma approve_aspiration_pay_view: "pay_view (approve_aspiration d aid m n t) = pay_view d"
  by (simp add: approve_aspiration_def pay_view_def map_update_where_frame)

lemma reject_aspiration_pay_view: "pay_view (reject_aspiration d aid r) = pay_view d"
  by (simp add: reject_aspiration_def pay_view_def map_update_where_frame)

lemma handle_approve_aspiration_frame:
  "handle_approve_aspiration toks now hdr aid_field notes_field d = Inr d' \<Longrightarrow>
   pay_view d' = pay_view d \<and> payments d' = payments d"
  by (auto simp: handle_approve_aspiration_Inr approve_aspiration_pay_view)
     (simp add: approve_aspiration_def)

lemma handle_reject_aspiration_frame:
  "handle_reject_aspiration toks now hdr aid_field reason_field d = Inr d' \<Longrightarrow>
   pay_view d' = pay_view d \<and> payments d' = payments d"
  by (auto simp: handle_reject_aspiration_Inr reject_aspiration_pay_view)
     (simp add: reject_aspiration_def)

subsection \<open>Properties of staff review\<close>

text \<open>C6: Role gating of \<open>approve_aspiration\<close> (Scenario C): a request succeeds only with a
  non-empty token that is valid now and belongs to a manager or an admin; in particular a
  candidate's token never approves.\<close>

theorem handle_approve_aspiration_staff_only:
  assumes "handle_approve_aspiration toks now hdr aid_field notes_field d = Inr d'"
  shows "\<exists>tok u. hdr = Some tok \<and> tok \<noteq> [] \<and> verify_token toks tok now = Some u \<and>
                 td_role u \<in> {Manager, Admin}"
proof -
  from assms obtain user where "authenticate_staff toks hdr now = Inr user"
    by (auto simp: handle_approve_aspiration_Inr)
  then show ?thesis
    by (cases "td_role user") (auto simp: authenticate_staff_Inr)
qed

theorem handle_approve_aspiration_staff_only_witness:
  "\<exists>d'. handle_approve_aspiration demo_tokens 5 (Some ''tok-m'') (Some 1) (Some ''dat yeu cau'')
          (fresh_seed id 0) = Inr d' \<and>
        handle_approve_aspiration demo_tokens 5 (Some ''tok-c'') (Some 1) (Some ''dat yeu cau'')
          (fresh_seed id 0) = Inl PermissionDenied \<and>
        (\<exists>u. verify_token demo_tokens ''tok-m'' 5 = Some u \<and> td_role u \<in> {Manager, Admin})"
proof -
  obtain d' where h: "handle_approve_aspiration demo_tokens 5 (Some ''tok-m'') (Some 1) (Some ''dat yeu cau'')
          (fresh_seed id 0) = Inr d'"
    by (simp add: eval_simps)
  from handle_approve_aspiration_staff_only [OF h]
  have "\<exists>u. verify_token demo_tokens ''tok-m'' 5 = Some u \<and> td_role u \<in> {Manager, Admin}" by auto
  moreover have "handle_approve_aspiration demo_tokens 5 (Some ''tok-c'') (Some 1) (Some ''dat yeu cau'')
          (fresh_seed id 0) = Inl PermissionDenied"
    by (simp add: eval_simps)
  ultimately show ?thesis using h by blast
qed

text \<open>C18: What approval does (Scenario D): for a staff caller and a non-zero id, the
  request succeeds, every row with the id becomes approved with the caller as approver,
  the time and the notes, and nothing else in the store changes.\<close>

theorem handle_approve_aspiration_records_approver:
  assumes staff: "authenticate_staff toks hdr now = Inr user"
    and aid: "truthy_int aid_field = Some aid"
  shows "\<exists>d'. handle_approve_aspiration toks now hdr aid_field notes_field d = Inr d' \<and>
           (\<forall>a \<in> set (aspirations d'). a_id a = aid \<longrightarrow>
              a_status a = Approved \<and> approved_by a = Some (td_user_id user) \<and>
              approved_at a = Some now \<and> manager_notes a = notes_field) \<and>
           filter (\<lambda>a. a_id a \<noteq> aid) (aspirations d') = filter (\<lambda>a. a_id a \<noteq> aid) (aspirations d) \<and>
           d' = d\<lparr>aspirations := aspirations d'\<rparr>"
proof -
  let ?f = "\<lambda>a. a\<lparr>a_status := Approved, approved_by := Some (td_user_id user),
                   approved_at := Some now, manager_notes := notes_field\<rparr>"
  have rows: "\<forall>a \<in> set (update_where (\<lambda>a. a_id a = aid) ?f xs). a_id a = aid \<longrightarrow>
      a_status a = Approved \<and> approved_by a = Some (td_user_id user) \<and>
      approved_at a = Some now \<and> manager_notes a = notes_field" for xs
    by (induction xs) auto
  have others: "filter (\<lambda>a. a_id a \<noteq> aid) (update_where (\<lambda>a. a_id a = aid) ?f xs) =
                filter (\<lambda>a. a_id a \<noteq> aid) xs" for xs
    by (rule filter_update_where_frame) simp
  have "handle_approve_aspiration toks now hdr aid_field notes_field d =
          Inr (d\<lparr>aspirations := update_where (\<lambda>a. a_id a = aid) ?f (aspirations d)\<rparr>)"
    using staff aid by (simp add: handle_approve_aspiration_def approve_aspiration_def)
  with rows [of "aspirations d"] others [of "aspirations d"] show ?thesis
    by simp
qed

theorem handle_approve_aspiration_records_approver_witness:
  "\<exists>d'. handle_approve_aspiration demo_tokens 5 (Some ''tok-m'') (Some 1) (Some ''dat yeu cau'')
          (fresh_seed id 0) = Inr d' \<and>
        list_all (\<lambda>a. a_status a = Approved \<and> approved_by a = Some 2)
          (filter (\<lambda>a. a_id a = 1) (aspirations d'))"
proof -
  have staff: "authenticate_staff demo_tokens (Some ''tok-m'') 5 = Inr
      \<lparr>td_user_id = 2, td_username = ''manager'', td_role = Manager, created_at = 0\<rparr>"
    by (simp add: eval_simps)
  from handle_approve_aspiration_records_approver [OF staff, of "Some 1" 1 "Some ''dat yeu cau''"
      "fresh_seed id 0"]
  show ?thesis by (auto simp: list_all_iff)
qed

text \<open>C7: Approval is not terminal (P3 does not hold; a finding): a staff caller can
  approve an aspiration that was already rejected, a transition outside the life cycle
  of invariant I2.\<close>

theorem handle_approve_aspiration_overrides_rejection:
  assumes staff: "authenticate_staff toks hdr now = Inr user"
    and a: "a \<in> set (aspirations d)" "a_status a = Rejected" "a_id a \<noteq> 0"
  shows "\<exists>d'. handle_approve_aspiration toks now hdr (Some (a_id a)) notes_field d = Inr d' \<and>
           a\<lparr>a_status := Approved, approved_by := Some (td_user_id user), approved_at := Some now,
             manager_notes := notes_field\<rparr> \<in> set (aspirations d') \<and>
           \<not> spec_status_step (a_status a) Approved"
proof -
  have "a\<lparr>a_status := Approved, approved_by := Some (td_user_id user), approved_at := Some now,
             manager_notes := notes_field\<rparr> \<in>
        set (aspirations (approve_aspiration d (a_id a) (td_user_id user) notes_field now))"
    using a(1) by (auto simp: approve_aspiration_def set_update_where)
  moreover have "\<not> spec_status_step (a_status a) Approved"
    using a(2) by (simp add: spec_status_terminal)
  ultimately show ?thesis
    using staff a(3) by (simp add: handle_approve_aspiration_def)
qed

theorem handle_approve_aspiration_overrides_rejection_witness:
  "\<exists>d'. handle_approve_aspiration demo_tokens 5 (Some ''tok-m'') (Some 1) (Some [])
          (reject_aspiration (fresh_seed id 0) 1 (Some ''thieu ho so'')) = Inr d' \<and>
        a_status (hd (aspirations d')) = Approved"
proof -
  have staff: "authenticate_staff demo_tokens (Some ''tok-m'') 5 = Inr
      \<lparr>td_user_id = 2, td_username = ''manager'', td_role = Manager, created_at = 0\<rparr>"
    by (simp add: eval_simps)
  let ?d = "reject_aspiration (fresh_seed id 0) 1 (Some ''thieu ho so'')"
  let ?a = "hd (aspirations ?d)"
  have a: "?a \<in> set (aspirations ?d)" "a_status ?a = Rejected" "a_id ?a \<noteq> 0"
    by (simp_all add: eval_simps)
  from handle_approve_aspiration_overrides_rejection [OF staff a, of "Some []"]
  obtain d' where h: "handle_approve_aspiration demo_tokens 5 (Some ''tok-m'') (Some (a_id ?a)) (Some [])
      ?d = Inr d'" by blast
  have "a_id ?a = 1" by (simp add: eval_simps)
  with h show ?thesis by (auto simp: eval_simps)
qed

text \<open>C19: Rejection keeps the approver (a finding): rejecting an approved aspiration sets
  the status to rejected but leaves \<open>approved_by\<close> and \<open>approved_at\<close> of the earlier
  approval in place, and records nothing about the rejecting user.\<close>

theorem handle_reject_aspiration_keeps_approver:
  assumes staff: "authenticate_staff toks hdr now = Inr user"
    and a: "a \<in> set (aspirations d)" "a_id a \<noteq> 0"
  shows "\<exists>d'. handle_reject_aspiration toks now hdr (Some (a_id a)) reason_field d = Inr d' \<and>
           (\<exists>b \<in> set (aspirations d'). a_id b = a_id a \<and> a_status b = Rejected \<and>
              approved_by b = approved_by a \<and> approved_at b = approved_at a)"
proof -
  have mem: "a\<lparr>a_status := Rejected, manager_notes := reason_field\<rparr> \<in>
        set (aspirations (reject_aspiration d (a_id a) reason_field))"
    using a(1) by (auto simp: reject_aspiration_def set_update_where)
  have h: "handle_reject_aspiration toks now hdr (Some (a_id a)) reason_field d =
             Inr (reject_aspiration d (a_id a) reason_field)"
    using staff a(2) by (simp add: handle_reject_aspiration_def)
  show ?thesis
  proof (intro exI conjI)
    show "handle_reject_aspiration toks now hdr (Some (a_id a)) reason_field d =
            Inr (reject_aspiration d (a_id a) reason_field)" by (rule h)
    show "\<exists>b \<in> set (aspirations (reject_aspiration d (a_id a) reason_field)).
            a_id b = a_id a \<and> a_status b = Rejected \<and>
            approved_by b = approved_by a \<and> approved_at b = approved_at a"
      using mem by (intro bexI) simp_all
  qed
qed

theorem handle_reject_aspiration_keeps_approver_witness:
  "\<exists>d'. handle_reject_aspiration demo_tokens 6 (Some ''tok-m'') (Some 1) (Some ''thieu ho so'')
          (approve_aspiration (fresh_seed id 0) 1 2 (Some []) 5) = Inr d' \<and>
        (\<exists>b \<in> set (aspirations d'). a_id b = 1 \<and> a_status b = Rejected \<and> approved_by b = Some 2)"
proof -
  have staff: "authenticate_staff demo_tokens (Some ''tok-m'') 6 = Inr
      \<lparr>td_user_id = 2, td_username = ''manager'', td_role = Manager, created_at = 0\<rparr>"
    by (simp add: eval_simps)
  let ?d = "approve_aspiration (fresh_seed id 0) 1 2 (Some []) 5"
  let ?a = "hd (aspirations ?d)"
  have a: "?a \<in> set (aspirations ?d)" "a_id ?a \<noteq> 0" by (simp_all add: eval_simps)
  have id1: "a_id ?a = 1" and by2: "approved_by ?a = Some 2" by (simp_all add: eval_simps)
  from handle_reject_aspiration_keeps_approver [OF staff a, of "Some ''thieu ho so''"] id1 by2
  show ?thesis by auto
qed

end
