(* ===== verification/Accounts.thy ===== *)
theory Accounts
  imports Fixtures
begin

text \<open>
  Accounts and profiles: the handler methods \<open>login\<close> (lines 4240--4275),
  \<open>register\<close> (4277--4313), \<open>update_candidate_profile\<close> (4315--4352) and
  \<open>get_candidate_profile\<close> (4004--4049), with \<open>verify_password\<close> (308--309).
  \<open>hash_password\<close> (SHA-256 of the UTF-8 bytes, line 305) is the parameter
  \<open>hash\<close>: nothing below depends on what it computes.
\<close>

definition verify_password :: "(string \<Rightarrow> string) \<Rightarrow> string \<Rightarrow> string \<Rightarrow> bool" where
  "verify_password hash pw hashed \<longleftrightarrow> hash pw = hashed"

text \<open>
  \<open>login\<close>: the first active user with the name (\<open>WHERE username = ? AND status =
  "active"\<close>) whose stored hash matches gets a fresh token \<open>tok\<close>
  (\<open>secrets.token_hex(32)\<close>, chosen by the environment); any other outcome is 401
  \<open>Invalid credentials\<close>. Only the session store changes.
\<close>

definition login ::
  "(string \<Rightarrow> string) \<Rightarrow> token_store \<Rightarrow> time \<Rightarrow> string option \<Rightarrow> string option \<Rightarrow> string \<Rightarrow> db \<Rightarrow>
   api_error + token_store \<times> string \<times> user_row" where
  "login hash toks now un_field pw_field tok d =
     (case (truthy_str un_field, truthy_str pw_field) of
        (Some un, Some pw) \<Rightarrow>
          (case find (\<lambda>u. username u = un \<and> u_active u) (users d) of
             Some u \<Rightarrow>
               if verify_password hash pw (password u)
               then (case create_token toks tok (u_id u) (username u) (u_role u) now of
                       (toks', t) \<Rightarrow> Inr (toks', t, u))
               else Inl InvalidCredentials
           | None \<Rightarrow> Inl InvalidCredentials)
      | _ \<Rightarrow> Inl (BadRequest ''Username and password are required''))"

subsection \<open>Registration\<close>

record register_request =
  rr_username :: "string option"
  rr_password :: "string option"
  rr_email :: "string option"
  rr_full_name :: "string option"
  rr_citizen_id :: "string option"
  rr_profile :: profile

text \<open>\<open>for field in required_fields: if not data.get(field): ...\<close>: the first
  required field that is missing or empty.\<close>

fun first_missing :: "(string \<times> string option) list \<Rightarrow> string option" where
  "first_missing [] = None"
| "first_missing ((name, v) # fs) =
     (if truthy_str v = None then Some name else first_missing fs)"

definition register_fields :: "register_request \<Rightarrow> (string \<times> string option) list" where
  "register_fields r =
     [(''username'', rr_username r), (''password'', rr_password r), (''email'', rr_email r),
      (''full_name'', rr_full_name r), (''citizen_id'', rr_citizen_id r)]"

text \<open>
  \<open>register\<close>: the required fields, the duplicate check \<open>SELECT id FROM users WHERE
  username = ? OR email = ?\<close>, then the two inserts (a \<open>candidate\<close> user and its
  profile) in one transaction: a duplicate citizen id makes the second insert raise
  and the first is rolled back with it.
\<close>

definition register :: "(string \<Rightarrow> string) \<Rightarrow> register_request \<Rightarrow> db \<Rightarrow> api_error + db" where
  "register hash r d =
     (case first_missing (register_fields r) of
        Some f \<Rightarrow> Inl (BadRequest (''Field '' @ f @ '' is required''))
      | None \<Rightarrow>
          (case (rr_username r, rr_password r, rr_email r, rr_full_name r, rr_citizen_id r) of
             (Some un, Some pw, Some em, Some fn, Some cit) \<Rightarrow>
               if (\<exists>u \<in> set (users d). username u = un \<or> email u = em)
               then Inl (Failure ''Username or email already exists'')
               else (case insert_user d un (hash pw) em fn Candidate of
                       Inl e \<Rightarrow> Inl (DbError e)
                     | Inr (d1, uid) \<Rightarrow>
                         (case insert_candidate d1 uid cit (rr_profile r) of
                            Inl e \<Rightarrow> Inl (DbError e)
                          | Inr d2 \<Rightarrow> Inr d2))
           | _ \<Rightarrow> Inl (BadRequest ''Field username is required'')))"
  \<comment> \<open>the last branch is unreachable: \<open>first_missing\<close> found every field\<close>

subsection \<open>Profiles\<close>

text \<open>
  \<open>UPDATE users SET email = ?, full_name = ? WHERE id = ?\<close> with the raw
  \<open>data.get\<close> values: \<open>None\<close> violates \<open>NOT NULL\<close>, another user's email
  violates \<open>UNIQUE\<close>; no row, no check.
\<close>

definition update_user_contact ::
  "db \<Rightarrow> row_id \<Rightarrow> string option \<Rightarrow> string option \<Rightarrow> sql_error + db" where
  "update_user_contact d uid em_field fn_field =
     (if \<not> (\<exists>u \<in> set (users d). u_id u = uid) then Inr d
      else (case (em_field, fn_field) of
              (Some em, Some fn) \<Rightarrow>
                if (\<exists>u \<in> set (users d). u_id u \<noteq> uid \<and> email u = em) then Inl UniqueUser
                else Inr (d\<lparr>users := update_where (\<lambda>u. u_id u = uid)
                                        (\<lambda>u. u\<lparr>email := em, full_name := fn\<rparr>) (users d)\<rparr>)
            | _ \<Rightarrow> Inl NotNullUser))"

definition update_candidate_profile ::
  "token_store \<Rightarrow> time \<Rightarrow> string option \<Rightarrow> string option \<Rightarrow> string option \<Rightarrow> profile \<Rightarrow> db \<Rightarrow>
   api_error + db" where
  "update_candidate_profile toks now hdr em_field fn_field prof d =
     (case authenticate toks hdr now of
        Inl e \<Rightarrow> Inl e
      | Inr user \<Rightarrow>
          (case update_user_contact d (td_user_id user) em_field fn_field of
             Inl e \<Rightarrow> Inl (DbError e)
           | Inr d1 \<Rightarrow>
               Inr (d1\<lparr>candidates := update_where (\<lambda>c. c_user_id c = td_user_id user)
                                       (\<lambda>c. c\<lparr>c_profile := prof\<rparr>) (candidates d1)\<rparr>)))"

text \<open>\<open>get_candidate_profile\<close>: the caller's user row \<open>LEFT JOIN\<close> its first
  candidate profile.\<close>

definition get_candidate_profile ::
  "token_store \<Rightarrow> time \<Rightarrow> string option \<Rightarrow> db \<Rightarrow> api_error + user_row \<times> candidate_row option" where
  "get_candidate_profile toks now hdr d =
     (case authenticate toks hdr now of
        Inl e \<Rightarrow> Inl e
      | Inr user \<Rightarrow>
          (case find (\<lambda>u. u_id u = td_user_id user) (users d) of
             None \<Rightarrow> Inl (Failure ''User not found'')
           | Some u \<Rightarrow> Inr (u, find (\<lambda>c. c_user_id c = u_id u) (candidates d))))"

declare verify_password_def [eval_simps] login_def [eval_simps] register_fields_def [eval_simps]
  register_def [eval_simps] update_user_contact_def [eval_simps]
  update_candidate_profile_def [eval_simps] get_candidate_profile_def [eval_simps]

subsection \<open>Lemmas\<close>

lemma truthy_str_None: "truthy_str x = None \<longleftrightarrow> x = None \<or> x = Some []"
  by (cases x) auto

lemma register_Inr:
  "register hash r d = Inr d' \<longleftrightarrow>
   (\<exists>un pw em fn cit d1 uid.
      rr_username r = Some un \<and> rr_password r = Some pw \<and> rr_email r = Some em \<and>
      rr_full_name r = Some fn \<and> rr_citizen_id r = Some cit \<and>
      un \<noteq> [] \<and> pw \<noteq> [] \<and> em \<noteq> [] \<and> fn \<noteq> [] \<and> cit \<noteq> [] \<and>
      \<not> (\<exists>u \<in> set (users d). username u = un \<or> email u = em) \<and>
      insert_user d un (hash pw) em fn Candidate = Inr (d1, uid) \<and>
      insert_candidate d1 uid cit (rr_profile r) = Inr d')"
  by (cases "rr_username r"; cases "rr_password r"; cases "rr_email r"; cases "rr_full_name r";
      cases "rr_citizen_id r")
     (auto simp: register_def register_fields_def split: sum.splits prod.splits)

lemma register_wf: "register hash r d = Inr d' \<Longrightarrow> db_wf d \<Longrightarrow> db_wf d'"
  by (auto simp: register_Inr intro: insert_candidate_wf insert_user_wf)

lemma update_user_contact_wf:
  assumes "update_user_contact d uid em_field fn_field = Inr d'" and wf: "db_wf d"
  shows "db_wf d'"
proof (cases "\<exists>u \<in> set (users d). u_id u = uid")
  case False
  with assms show ?thesis by (simp add: update_user_contact_def)
next
  case True
  with assms(1) obtain em fn where
    free: "\<not> (\<exists>u \<in> set (users d). u_id u \<noteq> uid \<and> email u = em)" and
    d': "d' = d\<lparr>users := update_where (\<lambda>u. u_id u = uid) (\<lambda>u. u\<lparr>email := em, full_name := fn\<rparr>) (users d)\<rparr>"
    by (auto simp: update_user_contact_def split: option.splits if_splits)
  let ?us = "update_where (\<lambda>u. u_id u = uid) (\<lambda>u. u\<lparr>email := em, full_name := fn\<rparr>) (users d)"
  have ids: "map u_id ?us = map u_id (users d)" and names: "map username ?us = map username (users d)"
    by (simp_all add: map_update_where_frame)
  have emails: "distinct (map email ?us)"
    using wf free by (intro distinct_update_where_key) (auto simp: db_wf_def)
  have "\<forall>u \<in> set ?us. u_id u \<le> seq_users d"
    using wf ball_map_eq [OF ids, where P = "\<lambda>x. x \<le> seq_users d"] by (simp add: db_wf_def)
  with wf ids names emails show ?thesis unfolding d' by (simp add: db_wf_def)
qed

lemma update_candidate_profile_wf:
  assumes "update_candidate_profile toks now hdr em_field fn_field prof d = Inr d'" and wf: "db_wf d"
  shows "db_wf d'"
proof -
  from assms(1) obtain user d1 where auth: "authenticate toks hdr now = Inr user"
    and d1: "update_user_contact d (td_user_id user) em_field fn_field = Inr d1"
    and d': "d' = d1\<lparr>candidates := update_where (\<lambda>c. c_user_id c = td_user_id user)
                                    (\<lambda>c. c\<lparr>c_profile := prof\<rparr>) (candidates d1)\<rparr>"
    by (auto simp: update_candidate_profile_def split: sum.splits)
  from d1 wf have wf1: "db_wf d1" by (rule update_user_contact_wf)
  let ?cs = "update_where (\<lambda>c. c_user_id c = td_user_id user) (\<lambda>c. c\<lparr>c_profile := prof\<rparr>) (candidates d1)"
  have ids: "map c_id ?cs = map c_id (candidates d1)"
    and cits: "map citizen_id ?cs = map citizen_id (candidates d1)"
    by (simp_all add: map_update_where_frame)
  have "\<forall>c \<in> set ?cs. c_id c \<le> seq_candidates d1"
    using wf1 ball_map_eq [OF ids, where P = "\<lambda>x. x \<le> seq_candidates d1"] by (simp add: db_wf_def)
  with wf1 ids cits show ?thesis unfolding d' by (simp add: db_wf_def)
qed

lemma register_frame:
  "register hash r d = Inr d' \<Longrightarrow> aspirations d' = aspirations d \<and> payments d' = payments d"
  by (auto simp: register_Inr insert_user_def insert_candidate_def split: if_splits)

lemma update_candidate_profile_frame:
  "update_candidate_profile toks now hdr em_field fn_field prof d = Inr d' \<Longrightarrow>
   aspirations d' = aspirations d \<and> payments d' = payments d"
  by (auto simp: update_candidate_profile_def update_user_contact_def split: sum.splits if_splits option.splits)

subsection \<open>Properties of accounts\<close>

lemma login_Inr:
  "login hash toks now un_field pw_field tok d = Inr (toks', t, u) \<Longrightarrow>
   t = tok \<and> toks' = toks(tok \<mapsto> \<lparr>td_user_id = u_id u, td_username = username u,
                                  td_role = u_role u, created_at = now\<rparr>)"
  by (auto simp: login_def create_token_def split: option.splits if_splits)

text \<open>C34: A successful login belongs to an active user whose stored hash matches the
  submitted password, and it issues exactly the new token, which the token check accepts
  at once with the user's id, name and role.\<close>

theorem login_issues_session:
  assumes "login hash toks now un_field pw_field tok d = Inr (toks', t, u)"
  shows "t = tok \<and> u \<in> set (users d) \<and> u_active u \<and> un_field = Some (username u) \<and>
         (\<exists>pw. pw_field = Some pw \<and> hash pw = password u) \<and>
         verify_token toks' tok now =
           Some \<lparr>td_user_id = u_id u, td_username = username u, td_role = u_role u, created_at = now\<rparr>"
  using assms
  by (auto simp: login_def verify_password_def create_token_def verify_token_def token_ttl_def
           split: option.splits if_splits dest!: find_Some_in_set)

theorem login_issues_session_witness:
  "\<exists>toks' t u. login id Map.empty 0 (Some ''candidate'') (Some ''candidate123'') ''tok-c''
                   (fresh_seed id 0) = Inr (toks', t, u) \<and>
      verify_token toks' ''tok-c'' 0 \<noteq> None"
proof -
  obtain toks' t u where h: "login id Map.empty 0 (Some ''candidate'') (Some ''candidate123'') ''tok-c''
                   (fresh_seed id 0) = Inr (toks', t, u)"
    by (simp add: eval_simps)
  from login_issues_session [OF h] h show ?thesis by auto
qed

text \<open>C25: Self-registration creates exactly one user, always with role \<open>candidate\<close> and the
  hash of the submitted password, and one candidate profile linked to it; aspirations and
  payments are untouched. No request of this handler creates a staff account.\<close>

theorem register_creates_candidate:
  assumes "register hash r d = Inr d'"
  shows "\<exists>u c pw. users d' = users d @ [u] \<and> candidates d' = candidates d @ [c] \<and>
           u_role u = Candidate \<and> rr_password r = Some pw \<and> password u = hash pw \<and>
           c_user_id c = u_id u \<and> u_id u = seq_users d + 1 \<and>
           aspirations d' = aspirations d \<and> payments d' = payments d"
  using assms by (auto simp: register_Inr insert_user_def insert_candidate_def split: if_splits)

theorem register_creates_candidate_witness:
  "\<exists>d'. register id \<lparr>rr_username = Some ''lan'', rr_password = Some ''pw'', rr_email = Some ''lan@x.vn'',
          rr_full_name = Some ''Tran Thi Lan'', rr_citizen_id = Some ''0987'',
          rr_profile = \<lparr>date_of_birth = None, gender = None, address = None, phone = None,
                        high_school = None, graduation_year = None\<rparr>\<rparr>
          (fresh_seed id 0) = Inr d' \<and>
        u_role (last (users d')) = Candidate"
proof -
  obtain d' where h: "register id \<lparr>rr_username = Some ''lan'', rr_password = Some ''pw'', rr_email = Some ''lan@x.vn'',
          rr_full_name = Some ''Tran Thi Lan'', rr_citizen_id = Some ''0987'',
          rr_profile = \<lparr>date_of_birth = None, gender = None, address = None, phone = None,
                        high_school = None, graduation_year = None\<rparr>\<rparr>
          (fresh_seed id 0) = Inr d'"
    by (simp add: eval_simps)
  from register_creates_candidate [OF h] h show ?thesis by auto
qed

end
