(* ===== verification/Text.thy ===== *)
theory Text
  imports Prelude "HOL-Library.Sublist"
begin

text \<open>
  The Python string operations the handlers apply to request paths and report
  fields, and SQLite's reading of a text parameter compared with an \<open>INTEGER\<close>
  column: \<open>str.split\<close> on a character (\<open>split_on\<close>) and on a longer separator
  (\<open>split_str\<close>), the \<open>in\<close> test on strings (\<open>contains\<close>), \<open>str.startswith\<close>
  (\<open>prefix\<close>), \<open>str(n)\<close> of an integer (\<open>int_str\<close>) and the numeric affinity
  SQLite applies to a bound text value (\<open>sql_text_int\<close>). These are library
  behaviours the handlers rely on; they are written out here so that the path
  dispatch and the reports can be evaluated.
\<close>

text \<open>\<open>s.split(c)\<close> for a one-character separator: the pieces between the
  occurrences, empty pieces included; \<open>''.split(c) = ['']\<close>.\<close>

fun split_on :: "char \<Rightarrow> string \<Rightarrow> string list" where
  "split_on c [] = [[]]"
| "split_on c (x # xs) =
     (if x = c then [] # split_on c xs
      else (let r = split_on c xs in (x # hd r) # tl r))"

text \<open>\<open>s.split(sep)\<close> for a non-empty separator, scanning left to right.\<close>

function split_str :: "string \<Rightarrow> string \<Rightarrow> string list" where
  "split_str sep [] = [[]]"
| "split_str sep (x # xs) =
     (if sep \<noteq> [] \<and> prefix sep (x # xs) then [] # split_str sep (drop (length sep) (x # xs))
      else (let r = split_str sep xs in (x # hd r) # tl r))"
  by pat_completeness auto
termination
  by (relation "measure (\<lambda>(sep, s). length s)") auto

text \<open>\<open>sep.join(xs)\<close>.\<close>

fun join_with :: "string \<Rightarrow> string list \<Rightarrow> string" where
  "join_with sep [] = []"
| "join_with sep [x] = x"
| "join_with sep (x # y # ys) = x @ sep @ join_with sep (y # ys)"

text \<open>\<open>needle in s\<close> for strings.\<close>

definition contains :: "string \<Rightarrow> string \<Rightarrow> bool" where
  "contains needle s \<longleftrightarrow> sublist needle s"

subsection \<open>Decimal integers\<close>

definition digit_char :: "nat \<Rightarrow> char" where
  "digit_char n = ''0123456789'' ! n"

definition is_digit :: "char \<Rightarrow> bool" where
  "is_digit c \<longleftrightarrow> (48::nat) \<le> of_char c \<and> of_char c \<le> (57::nat)"

definition digit_value :: "char \<Rightarrow> nat" where
  "digit_value c = of_char c - (48::nat)"

text \<open>\<open>str(n)\<close> of a natural number and of an integer.\<close>

fun nat_str :: "nat \<Rightarrow> string" where
  "nat_str n = (if n < 10 then [digit_char n] else nat_str (n div 10) @ [digit_char (n mod 10)])"

definition int_str :: "int \<Rightarrow> string" where
  "int_str i = (if i < 0 then CHR ''-'' # nat_str (nat (- i)) else nat_str (nat i))"

fun parse_digits :: "nat \<Rightarrow> string \<Rightarrow> nat option" where
  "parse_digits acc [] = Some acc"
| "parse_digits acc (c # cs) = (if is_digit c then parse_digits (10 * acc + digit_value c) cs else None)"

text \<open>
  A text bound to \<open>?\<close> and compared with an \<open>INTEGER\<close> column is converted to an
  integer when it is a well-formed integer literal (an optional sign and at least one
  digit); any other text compares unequal to every integer. Texts that SQLite reads as
  reals (\<open>'1.0'\<close>, \<open>'1e0'\<close>) or with surrounding spaces are outside this
  definition; a request path never holds spaces.
\<close>

definition sql_text_int :: "string \<Rightarrow> int option" where
  "sql_text_int s =
     (case s of
        [] \<Rightarrow> None
      | c # cs \<Rightarrow>
          if c = CHR ''-'' then (if cs = [] then None else map_option (\<lambda>n. - int n) (parse_digits 0 cs))
          else if c = CHR ''+'' then (if cs = [] then None else map_option int (parse_digits 0 cs))
          else map_option int (parse_digits 0 s))"

declare split_on.simps [eval_simps] join_with.simps [eval_simps] split_str.simps [eval_simps] contains_def [eval_simps]
  digit_char_def [eval_simps] is_digit_def [eval_simps] digit_value_def [eval_simps]
  nat_str.simps [eval_simps] int_str_def [eval_simps] parse_digits.simps [eval_simps]
  sql_text_int_def [eval_simps]

declare nat_str.simps [simp del]

subsection \<open>Lemmas\<close>

lemma split_on_not_Nil [simp]: "split_on c s \<noteq> []"
  by (induction s) (auto simp: Let_def)

lemma split_on_no_sep: "c \<notin> set w \<Longrightarrow> split_on c (w @ rest) = (let r = split_on c rest in (w @ hd r) # tl r)"
  by (induction w) (auto simp: Let_def)

lemma split_on_append_sep:
  "c \<notin> set w \<Longrightarrow> split_on c (w @ c # rest) = w # split_on c rest"
  by (simp add: split_on_no_sep Let_def)

lemma of_char_digit_char: "n < 10 \<Longrightarrow> of_char (digit_char n) = (48 + n :: nat)"
proof -
  assume "n < 10"
  then have "n \<in> {0, 1, 2, 3, 4, 5, 6, 7, 8, 9}" by auto
  then show ?thesis by (auto simp: digit_char_def)
qed

lemma digit_char_digit [simp]:
  assumes "n < 10"
  shows "is_digit (digit_char n)" and "digit_value (digit_char n) = n"
  using of_char_digit_char [OF assms] assms by (simp_all add: is_digit_def digit_value_def)

lemma digit_char_not_sign [simp]:
  assumes "n < 10"
  shows "digit_char n \<noteq> CHR ''-''" and "digit_char n \<noteq> CHR ''+''"
  using of_char_digit_char [OF assms] by auto

lemma parse_digits_append:
  "parse_digits acc (xs @ ys) = (case parse_digits acc xs of None \<Rightarrow> None | Some a \<Rightarrow> parse_digits a ys)"
  by (induction acc xs rule: parse_digits.induct) auto

lemma nat_str_not_Nil [simp]: "nat_str n \<noteq> []"
  by (subst nat_str.simps) simp

lemma nat_str_hd: "\<exists>k < 10. hd (nat_str n) = digit_char k"
proof (induction n rule: nat_str.induct)
  case (1 n)
  then show ?case
    by (cases "n < 10") (subst nat_str.simps, force simp: nat_str.simps [of n])+
qed

lemma parse_digits_nat_str:
  "parse_digits acc (nat_str n) = Some (acc * 10 ^ length (nat_str n) + n)"
proof (induction n arbitrary: acc rule: nat_str.induct)
  case (1 n)
  show ?case
  proof (cases "n < 10")
    case True
    then have "nat_str n = [digit_char n]" by (subst nat_str.simps) simp
    with True show ?thesis by simp
  next
    case False
    then have split: "nat_str n = nat_str (n div 10) @ [digit_char (n mod 10)]"
      by (subst nat_str.simps) simp
    have IH: "parse_digits acc (nat_str (n div 10)) =
        Some (acc * 10 ^ length (nat_str (n div 10)) + n div 10)"
      using 1 False by simp
    have "10 * (acc * 10 ^ length (nat_str (n div 10)) + n div 10) + n mod 10 =
          acc * 10 ^ Suc (length (nat_str (n div 10))) + n"
      by simp
    with IH show ?thesis by (simp add: split parse_digits_append)
  qed
qed

lemma nat_str_Cons: "\<exists>k cs. k < 10 \<and> nat_str n = digit_char k # cs"
  using nat_str_hd [of n] nat_str_not_Nil [of n] by (cases "nat_str n") auto

lemma nat_str_digits: "c \<in> set (nat_str n) \<Longrightarrow> is_digit c"
proof (induction n rule: nat_str.induct)
  case (1 n)
  then show ?case
    by (cases "n < 10") (auto simp: nat_str.simps [of n])
qed

lemma slash_not_in_int_str: "CHR ''/'' \<notin> set (int_str i)"
proof
  assume "CHR ''/'' \<in> set (int_str i)"
  then have "CHR ''/'' \<in> set (nat_str (nat (- i))) \<or> CHR ''/'' \<in> set (nat_str (nat i))"
    by (auto simp: int_str_def split: if_splits)
  then have "is_digit (CHR ''/'')" by (auto dest: nat_str_digits)
  then show False by (simp add: is_digit_def)
qed

lemma sql_text_int_int_str: "sql_text_int (int_str i) = Some i"
proof -
  obtain k cs where k: "k < 10" and ns: "nat_str (nat (if i < 0 then - i else i)) = digit_char k # cs"
    using nat_str_Cons by blast
  have p: "parse_digits 0 (nat_str (nat (if i < 0 then - i else i))) = Some (nat (if i < 0 then - i else i))"
    by (simp add: parse_digits_nat_str)
  show ?thesis
  proof (cases "i < 0")
    case True
    with p ns show ?thesis by (simp add: int_str_def sql_text_int_def)
  next
    case False
    with p ns k show ?thesis by (simp add: int_str_def sql_text_int_def)
  qed
qed

lemma contains_suffix: "contains ys (xs @ ys)"
  unfolding contains_def sublist_def by (intro exI [of _ xs] exI [of _ "[]"]) simp

end
