(* ===== verification/Queries.thy ===== *)
theory Queries
  imports Text Aspirations Payments "HOL-Library.List_Lexorder" "HOL-Library.Char_ord"
begin

text \<open>
  The read-only requests: the configuration objects (\<open>SystemConfig\<close>, lines 20--37,
  and the handler \<open>get_payment_config\<close>, 3635--3654), the catalog queries
  \<open>get_universities\<close> (3930--3949), \<open>get_majors\<close> (3951--3976) and
  \<open>get_active_exam\<close> (3978--4002), the candidate's \<open>get_candidate_results\<close>
  (4103--4150) and \<open>get_candidate_stats\<close> (3583--3627), the staff statistics
  \<open>get_admin_stats\<close> (4152--4196) and \<open>get_manager_stats\<close> (4198--4238), and the
  document list (\<open>get_documents\<close>, 384--410 and 3629--3633). None of them writes the
  database. Text columns are ordered by SQLite's \<open>BINARY\<close> collation, which on the
  (ASCII) strings of the model is the lexicographic order of \<open>List_Lexorder\<close>; rows
  with equal sort keys are kept in rowid order.
\<close>

subsection \<open>Configuration\<close>

record contact_info =
  hotline :: string
  ci_email :: string
  ci_address :: string
  website :: string

record system_config =
  cfg_max_aspirations :: int
  cfg_aspiration_fee :: int
  cfg_currency :: string
  cfg_contact_info :: contact_info

text \<open>\<open>config = SystemConfig()\<close>; the address is transliterated.\<close>

definition config :: system_config where
  "config =
     \<lparr>cfg_max_aspirations = 4, cfg_aspiration_fee = 50000, cfg_currency = ''VND'',
      cfg_contact_info = \<lparr>hotline = ''1900 1234'', ci_email = ''tuyensinh@university.edu.vn'',
        ci_address = ''So 1 Dai Co Viet, Ha Noi'', website = ''https://tuyensinh.university.edu.vn''\<rparr>\<rparr>"

record payment_method_option =
  pm_value :: string
  pm_label :: string

record bank_info =
  bank_name :: string
  account_number :: string
  account_holder :: string
  branch :: string

record payment_config =
  pc_aspiration_fee :: int
  pc_currency :: string
  pc_payment_methods :: "payment_method_option list"
  pc_bank_info :: bank_info

text \<open>The literal answered by \<open>get_payment_config\<close> (labels transliterated).\<close>

definition get_payment_config :: payment_config where
  "get_payment_config =
     \<lparr>pc_aspiration_fee = 50000, pc_currency = ''VND'',
      pc_payment_methods =
        [\<lparr>pm_value = ''bank_transfer'', pm_label = ''Chuyen khoan ngan hang''\<rparr>,
         \<lparr>pm_value = ''momo'', pm_label = ''Vi MoMo''\<rparr>,
         \<lparr>pm_value = ''zalopay'', pm_label = ''Vi ZaloPay''\<rparr>,
         \<lparr>pm_value = ''credit_card'', pm_label = ''The tin dung''\<rparr>],
      pc_bank_info = \<lparr>bank_name = ''Ngan hang ABC'', account_number = ''123456789'',
        account_holder = ''Dai hoc Quoc gia Ha Noi'', branch = ''Chi nhanh Ha Noi''\<rparr>\<rparr>"

subsection \<open>Catalog\<close>

text \<open>\<open>ORDER BY ... DESC\<close>: descending, rows with equal keys in rowid order.\<close>

definition order_desc :: "('a \<Rightarrow> 'b::linorder) \<Rightarrow> 'a list \<Rightarrow> 'a list" where
  "order_desc f xs = rev (sort_key f (rev xs))"

text \<open>\<open>SELECT * FROM universities WHERE status = "active" ORDER BY name\<close>\<close>

definition get_universities :: "db \<Rightarrow> university_row list" where
  "get_universities d = sort_key un_name (filter un_active (universities d))"

text \<open>
  \<open>get_majors\<close> receives the path segment \<open>university_id\<close> as a string and binds it
  to \<open>WHERE university_id = ?\<close>; SQLite compares it with the integer column after
  numeric conversion (\<open>sql_text_int\<close>).
\<close>

definition get_majors :: "string \<Rightarrow> db \<Rightarrow> major_row list" where
  "get_majors university_id d =
     sort_key m_name (filter (\<lambda>m. sql_text_int university_id = Some (m_university m) \<and> m_active m)
                              (majors d))"

text \<open>\<open>SELECT * FROM exams WHERE status = "active" ORDER BY created_at DESC LIMIT 1\<close>\<close>

definition get_active_exam :: "db \<Rightarrow> api_error + exam_row" where
  "get_active_exam d =
     (case order_desc e_created_at (filter (\<lambda>e. e_status e = Active) (exams d)) of
        [] \<Rightarrow> Inl (Failure ''No active exam'')
      | e # _ \<Rightarrow> Inr e)"

subsection \<open>The candidate's results and statistics\<close>

text \<open>\<open>get_candidate_results\<close> runs the join and order of
  \<open>get_candidate_aspirations\<close> (\<open>candidate_aspirations\<close>) and answers an empty list
  to a user without a candidate profile.\<close>

definition get_candidate_results ::
  "token_store \<Rightarrow> time \<Rightarrow> string option \<Rightarrow> db \<Rightarrow> api_error + aspiration_row list" where
  "get_candidate_results toks now hdr d =
     (case authenticate toks hdr now of
        Inl e \<Rightarrow> Inl e
      | Inr user \<Rightarrow>
          (case candidate_of_user d (td_user_id user) of
             None \<Rightarrow> Inr []
           | Some cid \<Rightarrow> Inr (candidate_aspirations d cid)))"

record candidate_stats =
  cs_total :: nat
  cs_pending :: nat
  cs_approved :: nat
  cs_rejected :: nat
  cs_paid :: nat

text \<open>\<open>SELECT status, COUNT(*) ... GROUP BY status\<close> read into the dictionary
  \<open>status_counts\<close>, one entry per status present; \<open>count_get\<close> is
  \<open>status_counts.get(k, 0)\<close>.\<close>

definition status_counts :: "aspiration_row list \<Rightarrow> (asp_status \<times> nat) list" where
  "status_counts rows =
     map (\<lambda>s. (s, count_list (map a_status rows) s)) (remdups (map a_status rows))"

definition count_get :: "(asp_status \<times> nat) list \<Rightarrow> asp_status \<Rightarrow> nat" where
  "count_get sc k = (case map_of sc k of None \<Rightarrow> 0 | Some n \<Rightarrow> n)"

definition count_candidate_stats :: "db \<Rightarrow> row_id \<Rightarrow> candidate_stats" where
  "count_candidate_stats d cid =
     (let sc = status_counts (filter (\<lambda>a. a_candidate a = cid) (aspirations d))
      in \<lparr>cs_total = sum_list (map snd sc),
          cs_pending = count_get sc Pending,
          cs_approved = count_get sc Approved,
          cs_rejected = count_get sc Rejected,
          cs_paid = length (filter (\<lambda>a. a_candidate a = cid \<and> a_payment a = Paid) (aspirations d))\<rparr>)"

definition get_candidate_stats ::
  "token_store \<Rightarrow> time \<Rightarrow> string option \<Rightarrow> db \<Rightarrow> api_error + candidate_stats" where
  "get_candidate_stats toks now hdr d =
     (case authenticate toks hdr now of
        Inl e \<Rightarrow> Inl e
      | Inr user \<Rightarrow>
          (case candidate_of_user d (td_user_id user) of
             None \<Rightarrow> Inl (Failure ''Candidate not found'')
           | Some cid \<Rightarrow> Inr (count_candidate_stats d cid)))"

subsection \<open>Staff statistics\<close>

text \<open>The check of the two statistics handlers: a token of exactly the one role
  (\<open>user_info['role'] != 'admin'\<close>, resp. \<open>'manager'\<close>); an invalid token is
  answered 403 as well.\<close>

definition authenticate_role :: "role \<Rightarrow> token_store \<Rightarrow> string option \<Rightarrow> time \<Rightarrow> api_error + token_data" where
  "authenticate_role r toks hdr now =
     (case truthy_str hdr of
        None \<Rightarrow> Inl Unauthorized
      | Some tok \<Rightarrow>
          (case verify_token toks tok now of
             None \<Rightarrow> Inl PermissionDenied
           | Some u \<Rightarrow> if td_role u = r then Inr u else Inl PermissionDenied))"

record admin_stats =
  as_candidates :: nat
  as_universities :: nat
  as_aspirations :: nat
  as_pending :: nat
  as_approved :: nat
  as_payments :: nat

definition count_admin_stats :: "db \<Rightarrow> admin_stats" where
  "count_admin_stats d =
     \<lparr>as_candidates = length (filter (\<lambda>u. u_role u = Candidate \<and> u_active u) (users d)),
      as_universities = length (filter un_active (universities d)),
      as_aspirations = length (aspirations d),
      as_pending = length (filter (\<lambda>a. a_status a = Pending) (aspirations d)),
      as_approved = length (filter (\<lambda>a. a_status a = Approved) (aspirations d)),
      as_payments = length (filter (\<lambda>p. p_status p = TxnCompleted) (payments d))\<rparr>"

definition get_admin_stats :: "token_store \<Rightarrow> time \<Rightarrow> string option \<Rightarrow> db \<Rightarrow> api_error + admin_stats" where
  "get_admin_stats toks now hdr d =
     (case authenticate_role Admin toks hdr now of
        Inl e \<Rightarrow> Inl e
      | Inr _ \<Rightarrow> Inr (count_admin_stats d))"

record manager_stats =
  ms_total :: nat
  ms_pending :: nat
  ms_approved :: nat
  ms_rejected :: nat
  ms_payments :: nat

definition count_manager_stats :: "db \<Rightarrow> manager_stats" where
  "count_manager_stats d =
     \<lparr>ms_total = length (aspirations d),
      ms_pending = length (filter (\<lambda>a. a_status a = Pending) (aspirations d)),
      ms_approved = length (filter (\<lambda>a. a_status a = Approved) (aspirations d)),
      ms_rejected = length (filter (\<lambda>a. a_status a = Rejected) (aspirations d)),
      ms_payments = length (filter (\<lambda>p. p_status p = TxnCompleted) (payments d))\<rparr>"

definition get_manager_stats :: "token_store \<Rightarrow> time \<Rightarrow> string option \<Rightarrow> db \<Rightarrow> api_error + manager_stats" where
  "get_manager_stats toks now hdr d =
     (case authenticate_role Manager toks hdr now of
        Inl e \<Rightarrow> Inl e
      | Inr _ \<Rightarrow> Inr (count_manager_stats d))"

subsection \<open>Documents\<close>

fun category_text :: "doc_category \<Rightarrow> string" where
  "category_text Guide = ''guide''"
| "category_text Regulation = ''regulation''"
| "category_text Template = ''template''"
| "category_text Announcement = ''announcement''"

text \<open>The module function \<open>get_documents(category)\<close>: active documents, of the
  category when one is given (\<open>if category:\<close>), newest first.\<close>

definition get_documents :: "string option \<Rightarrow> db \<Rightarrow> document_row list" where
  "get_documents category_arg d =
     order_desc doc_created_at
       (filter (\<lambda>x. doc_active x \<and>
                   (case truthy_str category_arg of
                      None \<Rightarrow> True
                    | Some c \<Rightarrow> map_option category_text (category x) = Some c)) (documents d))"

text \<open>The handler reads the category from the request path:
  \<open>self.path.split('?category=')[1] if '?category=' in self.path else None\<close>.\<close>

definition handle_get_documents :: "string \<Rightarrow> db \<Rightarrow> document_row list" where
  "handle_get_documents path d =
     get_documents (if contains ''?category='' path then Some (split_str ''?category='' path ! 1) else None) d"

declare config_def [eval_simps] get_payment_config_def [eval_simps] order_desc_def [eval_simps]
  get_universities_def [eval_simps] get_majors_def [eval_simps] get_active_exam_def [eval_simps]
  get_candidate_results_def [eval_simps] status_counts_def [eval_simps] count_get_def [eval_simps]
  count_candidate_stats_def [eval_simps] get_candidate_stats_def [eval_simps]
  authenticate_role_def [eval_simps] count_admin_stats_def [eval_simps] get_admin_stats_def [eval_simps]
  count_manager_stats_def [eval_simps] get_manager_stats_def [eval_simps] category_text.simps [eval_simps]
  get_documents_def [eval_simps] handle_get_documents_def [eval_simps]

subsection \<open>Lemmas\<close>

lemma sum_status_counts: "sum_list (map snd (status_counts rows)) = length rows"
proof -
  have "sum_list (map snd (status_counts rows)) =
        sum_list (map (count_list (map a_status rows)) (remdups (map a_status rows)))"
    by (simp add: status_counts_def comp_def)
  also have "\<dots> = sum (count_list (map a_status rows)) (set (map a_status rows))"
    by (simp add: sum_list_distinct_conv_sum_set)
  also have "\<dots> = length rows"
    by (simp add: sum_count_set)
  finally show ?thesis .
qed

lemma count_get_status_counts:
  "count_get (status_counts rows) s = count_list (map a_status rows) s"
proof (cases "s \<in> set (map a_status rows)")
  case True
  then show ?thesis
    by (simp add: count_get_def status_counts_def map_of_map_restrict restrict_map_def)
next
  case False
  then have "count_list (map a_status rows) s = 0" by (simp add: count_list_0_iff)
  with False show ?thesis
    by (simp add: count_get_def status_counts_def map_of_map_restrict restrict_map_def)
qed

lemma count_list_asp_status:
  "length xs = count_list xs Pending + count_list xs Approved + count_list xs Rejected"
proof (induction xs)
  case (Cons x xs)
  then show ?case by (cases x) simp_all
qed simp

lemma order_desc_set [simp]: "set (order_desc f xs) = set xs"
  by (simp add: order_desc_def)

lemma order_desc_sorted: "sorted (rev (map f (order_desc f xs)))"
  by (simp add: order_desc_def rev_map [symmetric])

subsection \<open>Properties\<close>

text \<open>C26: The manager statistics refuse an administrator: a valid admin token is
  answered 403 \<open>Permission denied\<close> by \<open>get_manager_stats\<close>, while
  \<open>get_admin_stats\<close> accepts it (the check is \<open>role != 'manager'\<close>, not the staff
  check of the review handlers).\<close>

theorem get_manager_stats_refuses_admin:
  assumes "tok \<noteq> []" and "verify_token toks tok now = Some u" and "td_role u = Admin"
  shows "get_manager_stats toks now (Some tok) d = Inl PermissionDenied \<and>
         get_admin_stats toks now (Some tok) d = Inr (count_admin_stats d)"
  using assms by (simp add: get_manager_stats_def get_admin_stats_def authenticate_role_def)

theorem get_manager_stats_refuses_admin_witness:
  "get_manager_stats (fst (create_token Map.empty ''tok-a'' 1 ''admin'' Admin 0)) 5 (Some ''tok-a'')
     (fresh_seed id 0) = Inl PermissionDenied"
proof -
  have "verify_token (fst (create_token Map.empty ''tok-a'' 1 ''admin'' Admin 0)) ''tok-a'' 5 =
        Some \<lparr>td_user_id = 1, td_username = ''admin'', td_role = Admin, created_at = 0\<rparr>"
    by (simp add: eval_simps)
  from get_manager_stats_refuses_admin [OF _ this] show ?thesis by simp
qed

text \<open>C27: Two notions of "the active exam" disagree: with two active exams,
  \<open>get_active_exam\<close> shows the newest (\<open>ORDER BY created_at DESC\<close>) while
  \<open>add_aspiration\<close> registers for the first in rowid order (\<open>LIMIT 1\<close> without
  \<open>ORDER BY\<close>).\<close>

theorem active_exam_disagrees:
  assumes "exams d = [e1, e2]" and "e_status e1 = Active" and "e_status e2 = Active"
    and "e_created_at e1 < e_created_at e2"
  shows "get_active_exam d = Inr e2 \<and> active_exam d = Some (e_id e1)"
  using assms by (simp add: get_active_exam_def order_desc_def active_exam_def)

theorem active_exam_disagrees_witness:
  "get_active_exam ((fresh_seed id 0)\<lparr>exams := [hd (exams (fresh_seed id 0)),
       (hd (exams (fresh_seed id 0)))\<lparr>e_id := 2, e_code := ''EXAM_2026'', e_created_at := 7\<rparr>]\<rparr>) =
     Inr ((hd (exams (fresh_seed id 0)))\<lparr>e_id := 2, e_code := ''EXAM_2026'', e_created_at := 7\<rparr>) \<and>
   active_exam ((fresh_seed id 0)\<lparr>exams := [hd (exams (fresh_seed id 0)),
       (hd (exams (fresh_seed id 0)))\<lparr>e_id := 2, e_code := ''EXAM_2026'', e_created_at := 7\<rparr>]\<rparr>) =
     Some 1"
  using active_exam_disagrees [of "(fresh_seed id 0)\<lparr>exams := [hd (exams (fresh_seed id 0)),
       (hd (exams (fresh_seed id 0)))\<lparr>e_id := 2, e_code := ''EXAM_2026'', e_created_at := 7\<rparr>]\<rparr>"
     "hd (exams (fresh_seed id 0))"
     "(hd (exams (fresh_seed id 0)))\<lparr>e_id := 2, e_code := ''EXAM_2026'', e_created_at := 7\<rparr>"]
  by (simp add: fresh_seed_def)

text \<open>The document list is exactly the active documents of the requested category
  (all active documents when none is given), newest first.\<close>

theorem get_documents_correct:
  "set (get_documents c d) =
     {x \<in> set (documents d). doc_active x \<and>
        (case truthy_str c of None \<Rightarrow> True | Some k \<Rightarrow> map_option category_text (category x) = Some k)} \<and>
   sorted (rev (map doc_created_at (get_documents c d)))"
  by (auto simp: get_documents_def order_desc_sorted)

end
