(* ===== verification/Reports.thy ===== *)
theory Reports
  imports Queries Approval
begin

text \<open>
  The two report functions of the module, \<open>generate_aspirations_pdf\<close> (lines
  479--542, the data of the print view) and \<open>export_aspirations_csv\<close> (544--607), and
  their handlers \<open>print_aspirations\<close> (3864--3895) and \<open>export_aspirations_csv\<close>
  (3897--3928). Both read the candidate (\<open>users JOIN candidates\<close>, \<open>fetchone\<close>) and
  the candidate's aspirations joined with university and major, \<open>ORDER BY
  a.priority_order\<close>, and answer nothing when the candidate id has no row. The CSV
  text is what \<open>csv.writer\<close> with the default dialect writes: fields separated by
  commas, a field quoted (with inner quotes doubled) when it holds a comma, a quote,
  a carriage return or a line feed, a row that is a single empty field written as
  \<open>""\<close>, every row ended by CR LF, \<open>None\<close> written as the empty field and integers
  by \<open>str\<close>. The date stamps (\<open>datetime.now().strftime('%d/%m/%Y %H:%M')\<close>) are
  inputs; the Vietnamese labels are transliterated.
\<close>

subsection \<open>Report data\<close>

record candidate_info =
  ci_full_name :: string
  ci_citizen_id :: string
  ci_profile :: profile

text \<open>\<open>SELECT u.full_name, c.citizen_id, c.date_of_birth, ... FROM users u JOIN
  candidates c ON u.id = c.user_id WHERE c.id = ?\<close>, first row.\<close>

definition query_candidate_info :: "db \<Rightarrow> row_id \<Rightarrow> candidate_info option" where
  "query_candidate_info d cid =
     (case [(u, c). u \<leftarrow> users d, c \<leftarrow> candidates d, u_id u = c_user_id c \<and> c_id c = cid] of
        [] \<Rightarrow> None
      | (u, c) # _ \<Rightarrow> Some \<lparr>ci_full_name = full_name u, ci_citizen_id = citizen_id c, ci_profile = c_profile c\<rparr>)"

record report_item =
  ri_priority :: int
  ri_university_code :: string
  ri_university_name :: string
  ri_major_code :: string
  ri_major_name :: string
  ri_subject_group :: string
  ri_status :: asp_status
  ri_payment_status :: pay_flag
  ri_registered_at :: time

text \<open>The aspirations query shared by both reports (they select the same columns in
  different orders).\<close>

definition report_items :: "db \<Rightarrow> row_id \<Rightarrow> report_item list" where
  "report_items d cid =
     sort_key ri_priority
       [\<lparr>ri_priority = priority_order a, ri_university_code = un_code u, ri_university_name = un_name u,
         ri_major_code = m_code m, ri_major_name = m_name m, ri_subject_group = m_subject_group m,
         ri_status = a_status a, ri_payment_status = a_payment a, ri_registered_at = registered_at a\<rparr>.
        a \<leftarrow> aspirations d, a_candidate a = cid,
        u \<leftarrow> universities d, un_id u = a_university a,
        m \<leftarrow> majors d, m_id m = a_major a]"

record print_data =
  pd_candidate :: candidate_info
  pd_aspirations :: "report_item list"
  pd_print_date :: string
  pd_contact_info :: contact_info

definition generate_aspirations_pdf :: "db \<Rightarrow> row_id \<Rightarrow> string \<Rightarrow> print_data option" where
  "generate_aspirations_pdf d cid print_date =
     (case query_candidate_info d cid of
        None \<Rightarrow> None
      | Some ci \<Rightarrow> Some \<lparr>pd_candidate = ci, pd_aspirations = report_items d cid,
                         pd_print_date = print_date, pd_contact_info = cfg_contact_info config\<rparr>)"

subsection \<open>CSV text\<close>

definition needs_quote :: "string \<Rightarrow> bool" where
  "needs_quote s \<longleftrightarrow> (\<exists>c \<in> set s. c = CHR '','' \<or> c = CHR 0x22 \<or> c = CHR 0x0D \<or> c = CHR 0x0A)"

definition escape_quotes :: "string \<Rightarrow> string" where
  "escape_quotes s = concat (map (\<lambda>c. if c = CHR 0x22 then [CHR 0x22, CHR 0x22] else [c]) s)"

definition csv_field :: "string \<Rightarrow> string" where
  "csv_field s = (if needs_quote s then CHR 0x22 # escape_quotes s @ [CHR 0x22] else s)"

definition csv_row :: "string list \<Rightarrow> string" where
  "csv_row fs =
     (if fs = [[]] then [CHR 0x22, CHR 0x22] else join_with '','' (map csv_field fs)) @ [CHR 0x0D, CHR 0x0A]"

definition csv_text :: "string list list \<Rightarrow> string" where
  "csv_text rows = concat (map csv_row rows)"

definition opt_text :: "string option \<Rightarrow> string" where
  "opt_text x = (case x of None \<Rightarrow> [] | Some s \<Rightarrow> s)"

text \<open>The rows \<open>export_aspirations_csv\<close> hands to \<open>writer.writerow\<close>. The status
  column reads \<open>'Da duyet' if row[6] == 'approved' else 'Cho duyet'\<close>.\<close>

definition csv_rows :: "candidate_info \<Rightarrow> report_item list \<Rightarrow> string \<Rightarrow> string list list" where
  "csv_rows ci items export_date =
     [[''DANH SACH NGUYEN VONG DANG KY XET TUYEN''],
      [''Thi sinh:'', ci_full_name ci],
      [''So CCCD:'', ci_citizen_id ci],
      [''Ngay sinh:'', opt_text (date_of_birth (ci_profile ci))],
      [''Gioi tinh:'', opt_text (gender (ci_profile ci))],
      [],
      [''STT'', ''Ma truong'', ''Ten truong'', ''Ma nganh'', ''Ten nganh'', ''Khoi thi'', ''Trang thai'',
       ''Thanh toan'']] @
     map (\<lambda>r. [int_str (ri_priority r), ri_university_code r, ri_university_name r, ri_major_code r,
               ri_major_name r, ri_subject_group r,
               if ri_status r = Approved then ''Da duyet'' else ''Cho duyet'',
               if ri_payment_status r = Paid then ''Da thanh toan'' else ''Chua thanh toan'']) items @
     [[], [''Ngay xuat:'', export_date]]"

definition export_aspirations_csv :: "db \<Rightarrow> row_id \<Rightarrow> string \<Rightarrow> string option" where
  "export_aspirations_csv d cid export_date =
     (case query_candidate_info d cid of
        None \<Rightarrow> None
      | Some ci \<Rightarrow> Some (csv_text (csv_rows ci (report_items d cid) export_date)))"

subsection \<open>The handlers\<close>

definition handle_print_aspirations ::
  "token_store \<Rightarrow> time \<Rightarrow> string \<Rightarrow> string option \<Rightarrow> db \<Rightarrow> api_error + print_data" where
  "handle_print_aspirations toks now print_date hdr d =
     (case authenticate toks hdr now of
        Inl e \<Rightarrow> Inl e
      | Inr user \<Rightarrow>
          (case candidate_of_user d (td_user_id user) of
             None \<Rightarrow> Inl (Failure ''Candidate not found'')
           | Some cid \<Rightarrow>
               (case generate_aspirations_pdf d cid print_date of
                  None \<Rightarrow> Inl (Failure ''Khong tim thay du lieu nguyen vong'')
                | Some pd \<Rightarrow> Inr pd)))"

text \<open>\<open>if csv_data:\<close>: the CSV text is never empty (it has a header), so only a
  missing candidate row leads to the failure answer.\<close>

definition handle_export_aspirations_csv ::
  "token_store \<Rightarrow> time \<Rightarrow> string \<Rightarrow> string option \<Rightarrow> db \<Rightarrow> api_error + string" where
  "handle_export_aspirations_csv toks now export_date hdr d =
     (case authenticate toks hdr now of
        Inl e \<Rightarrow> Inl e
      | Inr user \<Rightarrow>
          (case candidate_of_user d (td_user_id user) of
             None \<Rightarrow> Inl (Failure ''Candidate not found'')
           | Some cid \<Rightarrow>
               (case export_aspirations_csv d cid export_date of
                  None \<Rightarrow> Inl (Failure ''Khong tim thay du lieu nguyen vong'')
                | Some s \<Rightarrow> if s = [] then Inl (Failure ''Khong tim thay du lieu nguyen vong'') else Inr s)))"

subsection \<open>A reference CSV reader\<close>

text \<open>
  To state what the export means, a reader for the format the writer produces (the
  record grammar of RFC 4180 with CR LF line ends), as a state machine over the
  characters: at the start of a record, at the start of a field, inside an unquoted
  field, inside a quoted field, after a quote inside a quoted field, and after a CR.
  It returns the rows, or \<open>None\<close> on malformed text.
\<close>

datatype rd_state = StartRecord | StartField | Unquoted | Quoted | QuoteInQuoted | AfterCR

fun csv_rd :: "rd_state \<Rightarrow> string \<Rightarrow> string list \<Rightarrow> string list list \<Rightarrow> string \<Rightarrow> string list list option" where
  "csv_rd StartRecord f r rs [] = Some rs"
| "csv_rd StartRecord f r rs (c # cs) =
     (if c = CHR 0x0D then csv_rd AfterCR [] [] (rs @ [[]]) cs
      else if c = CHR 0x22 then csv_rd Quoted [] [] rs cs
      else if c = CHR '','' then csv_rd StartField [] [[]] rs cs
      else csv_rd Unquoted [c] [] rs cs)"
| "csv_rd StartField f r rs [] = Some (rs @ [r @ [[]]])"
| "csv_rd StartField f r rs (c # cs) =
     (if c = CHR 0x0D then csv_rd AfterCR [] [] (rs @ [r @ [[]]]) cs
      else if c = CHR 0x22 then csv_rd Quoted [] r rs cs
      else if c = CHR '','' then csv_rd StartField [] (r @ [[]]) rs cs
      else csv_rd Unquoted [c] r rs cs)"
| "csv_rd Unquoted f r rs [] = Some (rs @ [r @ [f]])"
| "csv_rd Unquoted f r rs (c # cs) =
     (if c = CHR 0x0D then csv_rd AfterCR [] [] (rs @ [r @ [f]]) cs
      else if c = CHR '','' then csv_rd StartField [] (r @ [f]) rs cs
      else csv_rd Unquoted (f @ [c]) r rs cs)"
| "csv_rd Quoted f r rs [] = None"
| "csv_rd Quoted f r rs (c # cs) =
     (if c = CHR 0x22 then csv_rd QuoteInQuoted f r rs cs else csv_rd Quoted (f @ [c]) r rs cs)"
| "csv_rd QuoteInQuoted f r rs [] = Some (rs @ [r @ [f]])"
| "csv_rd QuoteInQuoted f r rs (c # cs) =
     (if c = CHR 0x22 then csv_rd Quoted (f @ [c]) r rs cs
      else if c = CHR 0x0D then csv_rd AfterCR [] [] (rs @ [r @ [f]]) cs
      else if c = CHR '','' then csv_rd StartField [] (r @ [f]) rs cs
      else None)"
| "csv_rd AfterCR f r rs [] = None"
| "csv_rd AfterCR f r rs (c # cs) = (if c = CHR 0x0A then csv_rd StartRecord [] [] rs cs else None)"

definition csv_read :: "string \<Rightarrow> string list list option" where
  "csv_read s = csv_rd StartRecord [] [] [] s"

declare query_candidate_info_def [eval_simps] report_items_def [eval_simps]
  generate_aspirations_pdf_def [eval_simps] needs_quote_def [eval_simps] escape_quotes_def [eval_simps]
  csv_field_def [eval_simps] csv_row_def [eval_simps] csv_text_def [eval_simps] opt_text_def [eval_simps]
  csv_rows_def [eval_simps] export_aspirations_csv_def [eval_simps]
  handle_print_aspirations_def [eval_simps] handle_export_aspirations_csv_def [eval_simps]
  csv_rd.simps [eval_simps] csv_read_def [eval_simps]

subsection \<open>The reader inverts the writer\<close>

lemma csv_rd_quoted:
  "csv_rd Quoted f r rs (escape_quotes g @ CHR 0x22 # rest) = csv_rd QuoteInQuoted (f @ g) r rs rest"
  by (induction g arbitrary: f) (auto simp: escape_quotes_def)

lemma csv_rd_unquoted:
  assumes "\<not> needs_quote g" and "c = CHR '','' \<or> c = CHR 0x0D"
  shows "csv_rd Unquoted f r rs (g @ c # rest) = csv_rd Unquoted (f @ g) r rs (c # rest)"
  using assms by (induction g arbitrary: f) (auto simp: needs_quote_def)

text \<open>One field written by \<open>csv_field\<close> and its separator read from the start of a field.\<close>

lemma csv_rd_field:
  assumes c: "c = CHR '','' \<or> c = CHR 0x0D"
  shows "csv_rd StartField [] r rs (csv_field g @ c # rest) =
     (if c = CHR '','' then csv_rd StartField [] (r @ [g]) rs rest
      else csv_rd AfterCR [] [] (rs @ [r @ [g]]) rest)"
proof (cases "needs_quote g")
  case True
  from c show ?thesis
    by (elim disjE) (simp_all add: True csv_field_def csv_rd_quoted)
next
  case False
  show ?thesis
  proof (cases g)
    case Nil
    then show ?thesis using c by (auto simp: csv_field_def needs_quote_def)
  next
    case (Cons x g')
    with False have x: "x \<noteq> CHR 0x0D" "x \<noteq> CHR 0x22" "x \<noteq> CHR '',''" and g': "\<not> needs_quote g'"
      by (auto simp: needs_quote_def)
    from Cons False x have "csv_rd StartField [] r rs (csv_field g @ c # rest) =
        csv_rd Unquoted [x] r rs (g' @ c # rest)"
      by (simp add: csv_field_def)
    also have "\<dots> = csv_rd Unquoted g r rs (c # rest)"
      using csv_rd_unquoted [OF g' c] Cons by simp
    finally show ?thesis using c by auto
  qed
qed

lemma csv_rd_fields:
  "fs \<noteq> [] \<Longrightarrow>
   csv_rd StartField [] r rs (join_with '','' (map csv_field fs) @ CHR 0x0D # CHR 0x0A # rest) =
   csv_rd StartRecord [] [] (rs @ [r @ fs]) rest"
proof (induction fs arbitrary: r)
  case Nil
  then show ?case by simp
next
  case (Cons x xs)
  show ?case
  proof (cases "xs = []")
    case True
    then show ?thesis using csv_rd_field [of "CHR 0x0D" r rs x "CHR 0x0A # rest"] by simp
  next
    case False
    then obtain y ys where xs: "xs = y # ys" by (cases xs) auto
    have "csv_rd StartField [] r rs (join_with '','' (map csv_field (x # xs)) @ CHR 0x0D # CHR 0x0A # rest) =
          csv_rd StartField [] (r @ [x]) rs (join_with '','' (map csv_field xs) @ CHR 0x0D # CHR 0x0A # rest)"
      using csv_rd_field [of "CHR '',''" r rs x] by (simp add: xs)
    also have "\<dots> = csv_rd StartRecord [] [] (rs @ [r @ x # xs]) rest"
      using Cons.IH [OF False, of "r @ [x]"] by simp
    finally show ?thesis .
  qed
qed

lemma csv_rd_start_record:
  "s \<noteq> [] \<Longrightarrow> hd s \<noteq> CHR 0x0D \<Longrightarrow> csv_rd StartRecord [] [] rs s = csv_rd StartField [] [] rs s"
  by (cases s) auto

lemma csv_field_hd: "csv_field g \<noteq> [] \<Longrightarrow> hd (csv_field g) \<noteq> CHR 0x0D"
  by (cases g) (auto simp: csv_field_def needs_quote_def)

lemma csv_rd_row:
  "csv_rd StartRecord [] [] rs (csv_row fs @ rest) = csv_rd StartRecord [] [] (rs @ [fs]) rest"
proof (cases "fs = [] \<or> fs = [[]]")
  case True
  then show ?thesis by (auto simp: csv_row_def)
next
  case False
  then obtain x xs where fs: "fs = x # xs" and nonempty: "x \<noteq> [] \<or> xs \<noteq> []"
    by (cases fs) auto
  let ?s = "join_with '','' (map csv_field fs) @ CHR 0x0D # CHR 0x0A # rest"
  have "?s \<noteq> [] \<and> hd ?s \<noteq> CHR 0x0D"
  proof (cases "csv_field x = []")
    case True
    with nonempty have "xs \<noteq> []" by (auto simp: csv_field_def split: if_splits)
    with True show ?thesis by (cases xs) (simp_all add: fs)
  next
    case False
    with csv_field_hd [OF False] show ?thesis by (cases xs) (simp_all add: fs)
  qed
  then have "csv_rd StartRecord [] [] rs ?s = csv_rd StartField [] [] rs ?s"
    by (intro csv_rd_start_record) simp_all
  also have "\<dots> = csv_rd StartRecord [] [] (rs @ [fs]) rest"
    using csv_rd_fields [of fs "[]" rs rest] fs by simp
  finally show ?thesis using False by (simp add: csv_row_def)
qed

lemma csv_rd_text: "csv_rd StartRecord [] [] rs (csv_text rows @ rest) = csv_rd StartRecord [] [] (rs @ rows) rest"
  by (induction rows arbitrary: rs) (simp_all add: csv_text_def csv_rd_row [of _ _ "_ @ rest", simplified])

lemma csv_read_csv_text: "csv_read (csv_text rows) = Some rows"
  using csv_rd_text [of "[]" rows "[]"] by (simp add: csv_read_def)

subsection \<open>Properties\<close>

text \<open>C28: The CSV export carries the candidate's data back out: for a candidate with a
  row, the exported text reads back (with the reference reader, whatever the names,
  codes and dates contain: commas, quotes, line breaks, empty fields) to rows that
  hold the candidate's name and citizen id, then, after the seven header rows, one
  row per aspiration in report order whose cells are its priority (read back as the
  integer stored), university code and name and major code and name, and last the
  export date.\<close>

theorem export_aspirations_csv_roundtrip:
  assumes "query_candidate_info d cid = Some ci"
  shows "\<exists>rows. map_option csv_read (export_aspirations_csv d cid t) = Some (Some rows) \<and>
           rows ! 1 = [''Thi sinh:'', ci_full_name ci] \<and> rows ! 2 = [''So CCCD:'', ci_citizen_id ci] \<and>
           map (\<lambda>row. (sql_text_int (row ! 0), row ! 1, row ! 2, row ! 3, row ! 4))
             (take (length (report_items d cid)) (drop 7 rows)) =
           map (\<lambda>r. (Some (ri_priority r), ri_university_code r, ri_university_name r,
                     ri_major_code r, ri_major_name r)) (report_items d cid) \<and>
           last rows = [''Ngay xuat:'', t]"
  using assms by (simp add: export_aspirations_csv_def csv_read_csv_text csv_rows_def sql_text_int_int_str)

theorem export_aspirations_csv_roundtrip_witness:
  "\<exists>rows. map_option csv_read (export_aspirations_csv (fresh_seed id 0) 1 ''09/11/2026 10:00'') = Some (Some rows) \<and>
     rows ! 1 = [''Thi sinh:'', ''Nguyen Van A''] \<and> rows ! 2 = [''So CCCD:'', ''00123456789''] \<and>
     map (\<lambda>row. (sql_text_int (row ! 0), row ! 1, row ! 2, row ! 3, row ! 4))
       (take (length (report_items (fresh_seed id 0) 1)) (drop 7 rows)) =
     map (\<lambda>r. (Some (ri_priority r), ri_university_code r, ri_university_name r,
               ri_major_code r, ri_major_name r)) (report_items (fresh_seed id 0) 1) \<and>
     last rows = [''Ngay xuat:'', ''09/11/2026 10:00'']"
  using export_aspirations_csv_roundtrip [where d = "fresh_seed id 0" and cid = 1
      and ci = "\<lparr>ci_full_name = ''Nguyen Van A'', ci_citizen_id = ''00123456789'',
                 ci_profile = c_profile (hd (candidates (fresh_seed id 0)))\<rparr>"
      and t = "''09/11/2026 10:00''"]
  by (simp add: query_candidate_info_def fresh_seed_def)

text \<open>C29: The CSV export shows a rejected aspiration as awaiting review: its status
  cell is \<open>Cho duyet\<close>, the label of a pending one, while the print data keeps the
  status \<open>Rejected\<close>.\<close>

theorem export_csv_rejected_shown_pending:
  assumes "r \<in> set items" and "ri_status r = Rejected"
  shows "[int_str (ri_priority r), ri_university_code r, ri_university_name r, ri_major_code r,
          ri_major_name r, ri_subject_group r, ''Cho duyet'',
          if ri_payment_status r = Paid then ''Da thanh toan'' else ''Chua thanh toan'']
         \<in> set (csv_rows ci items t)"
  using assms by (force simp: csv_rows_def)

theorem export_csv_rejected_shown_pending_witness:
  "[''1'', ''HUST'', ''Dai hoc Bach Khoa Ha Noi'', ''IT1'', ''Cong nghe Thong tin'', ''A00,A01'',
    ''Cho duyet'', ''Chua thanh toan'']
   \<in> set (csv_rows (the (query_candidate_info (fresh_seed id 0) 1))
              (report_items (reject_aspiration (fresh_seed id 0) 1 (Some ''x'')) 1) ''09/11/2026 10:00'')"
proof -
  let ?d = "reject_aspiration (fresh_seed id 0) 1 (Some ''x'')"
  let ?r = "hd (report_items ?d 1)"
  have r: "?r \<in> set (report_items ?d 1)" and st: "ri_status ?r = Rejected"
    by (simp_all add: eval_simps)
  have v: "int_str (ri_priority ?r) = ''1''" "ri_university_code ?r = ''HUST''"
    "ri_university_name ?r = ''Dai hoc Bach Khoa Ha Noi''" "ri_major_code ?r = ''IT1''"
    "ri_major_name ?r = ''Cong nghe Thong tin''" "ri_subject_group ?r = ''A00,A01''"
    "ri_payment_status ?r = Unpaid"
    by (simp_all add: eval_simps)
  from export_csv_rejected_shown_pending [OF r st, of "the (query_candidate_info (fresh_seed id 0) 1)"
      "''09/11/2026 10:00''"]
  show ?thesis by (simp only: v) simp
qed

end
