(* ===== verification/Server.thy ===== *)
theory Server
  imports Aspirations Payments Approval Accounts Queries Reports
begin

text \<open>
  The server as one state machine. \<open>main\<close> (lines 4530--4559) serves
  \<open>AdmissionRequestHandler\<close> from a \<open>socketserver.TCPServer\<close>, which handles one
  request at a time, so a run is a sequence of whole requests. The state is the
  database and the session store; \<open>handle_api_post\<close> (lines 3547--3581) dispatches
  each state-changing request on its path to the handler methods modelled in the
  component theories. GET requests change no state and are the query functions of
  those theories. The password hash, the clock and the random parts of tokens and
  transaction ids are inputs of each step.
\<close>

record sys =
  sys_db :: db
  sys_tokens :: token_store

text \<open>A POST request after JSON decoding: the path chooses the constructor, the fields
  are the \<open>data.get\<close> values, and the random values the handler draws are carried
  along.\<close>

datatype request =
    Login "string option" "string option" string
  | Register register_request
  | UpdateProfile "string option" "string option" "string option" profile
  | AddAspiration "string option" add_request
  | RemoveAspiration "string option" "int option"
  | ReorderAspirations "string option" "reorder_item list"
  | CreatePayment "string option" "int option" "string option" string string
  | VerifyPayment "string option" "string option"
  | ApproveAspiration "string option" "int option" "string option"
  | RejectAspiration "string option" "int option" "string option"
  | MalformedJson
  | UnknownPath

definition apply_db :: "api_error + db \<Rightarrow> sys \<Rightarrow> (api_error + unit) \<times> sys" where
  "apply_db r s = (case r of Inl e \<Rightarrow> (Inl e, s) | Inr d' \<Rightarrow> (Inr (), s\<lparr>sys_db := d'\<rparr>))"

fun handle_api_post ::
  "(string \<Rightarrow> string) \<Rightarrow> time \<Rightarrow> request \<Rightarrow> sys \<Rightarrow> (api_error + unit) \<times> sys" where
  "handle_api_post hash now (Login un pw tok) s =
     (case login hash (sys_tokens s) now un pw tok (sys_db s) of
        Inl e \<Rightarrow> (Inl e, s)
      | Inr (toks', _) \<Rightarrow> (Inr (), s\<lparr>sys_tokens := toks'\<rparr>))"
| "handle_api_post hash now (Register r) s = apply_db (register hash r (sys_db s)) s"
| "handle_api_post hash now (UpdateProfile hdr em fn prof) s =
     apply_db (update_candidate_profile (sys_tokens s) now hdr em fn prof (sys_db s)) s"
| "handle_api_post hash now (AddAspiration hdr req) s =
     apply_db (add_aspiration (sys_tokens s) now hdr req (sys_db s)) s"
| "handle_api_post hash now (RemoveAspiration hdr aid) s =
     apply_db (remove_aspiration (sys_tokens s) now hdr aid (sys_db s)) s"
| "handle_api_post hash now (ReorderAspirations hdr items) s =
     apply_db (reorder_aspirations (sys_tokens s) now hdr items (sys_db s)) s"
| "handle_api_post hash now (CreatePayment hdr aid meth stamp sfx) s =
     (case handle_create_payment (sys_tokens s) now hdr aid meth (gen_transaction_id stamp sfx) (sys_db s) of
        Inl e \<Rightarrow> (Inl e, s)
      | Inr (d', _) \<Rightarrow> (Inr (), s\<lparr>sys_db := d'\<rparr>))"
| "handle_api_post hash now (VerifyPayment hdr tx) s =
     apply_db (handle_verify_payment now hdr tx (sys_db s)) s"
| "handle_api_post hash now (ApproveAspiration hdr aid notes) s =
     apply_db (handle_approve_aspiration (sys_tokens s) now hdr aid notes (sys_db s)) s"
| "handle_api_post hash now (RejectAspiration hdr aid reason) s =
     apply_db (handle_reject_aspiration (sys_tokens s) now hdr aid reason (sys_db s)) s"
| "handle_api_post hash now MalformedJson s = (Inl (BadRequest ''Invalid JSON''), s)"
| "handle_api_post hash now UnknownPath s = (Inl EndpointNotFound, s)"

text \<open>A run: requests with the time each arrives, handled in order from a state.\<close>

fun run :: "(string \<Rightarrow> string) \<Rightarrow> (time \<times> request) list \<Rightarrow> sys \<Rightarrow> sys" where
  "run hash [] s = s"
| "run hash ((now, req) # rs) s = run hash rs (snd (handle_api_post hash now req s))"

text \<open>The server just started: the seeded database and no sessions.\<close>

definition init_sys :: "(string \<Rightarrow> string) \<Rightarrow> time \<Rightarrow> sys" where
  "init_sys hash t0 = \<lparr>sys_db = fresh_seed hash t0, sys_tokens = Map.empty\<rparr>"

text \<open>A restart of the server: \<open>main\<close> runs \<open>init_database\<close>, which seeds the existing
  file again, and the new process starts with an empty \<open>active_tokens\<close>. When
  \<open>insert_default_data\<close> raises, the server does not start (\<open>None\<close>).\<close>

definition restart :: "(string \<Rightarrow> string) \<Rightarrow> time \<Rightarrow> sys \<Rightarrow> sys option" where
  "restart hash t s =
     map_option (\<lambda>d. \<lparr>sys_db = d, sys_tokens = Map.empty\<rparr>) (insert_default_data hash t (sys_db s))"

text \<open>The states of a deployment: the first start on a fresh file, then requests and
  restarts in any order.\<close>

inductive reachable :: "(string \<Rightarrow> string) \<Rightarrow> sys \<Rightarrow> bool" for hash where
  start: "reachable hash (init_sys hash t0)"
| step: "reachable hash s \<Longrightarrow> reachable hash (snd (handle_api_post hash now req s))"
| restart: "reachable hash s \<Longrightarrow> restart hash t s = Some s' \<Longrightarrow> reachable hash s'"

subsection \<open>GET requests\<close>

text \<open>The answers of the GET handlers; \<open>PrintData\<close> and \<open>CsvData\<close> carry the reports.\<close>

datatype get_reply =
    UniversityList "university_row list"
  | MajorList "major_row list"
  | ExamInfo exam_row
  | ProfileInfo "user_row \<times> candidate_row option"
  | AspirationList "aspiration_row list"
  | ResultList "aspiration_row list"
  | CandidateStats candidate_stats
  | DocumentList "document_row list"
  | PaymentConfig payment_config
  | PaymentHistory "payment_row list"
  | PendingList "aspiration_row list"
  | ManagerStats manager_stats
  | AdminStats admin_stats
  | PrintData print_data
  | CsvData string

text \<open>
  \<open>handle_api_get\<close> (lines 3510--3545): the path is matched exactly, except the majors
  route (\<open>startswith('/api/universities/') and '/majors' in path\<close>, whose university id
  is \<open>path.split('/')[3]\<close>). \<open>stamp\<close> is the \<open>strftime\<close> text of the current time
  used by the two reports. No GET request changes the state.
\<close>

definition handle_api_get :: "string \<Rightarrow> time \<Rightarrow> string option \<Rightarrow> string \<Rightarrow> sys \<Rightarrow> api_error + get_reply" where
  "handle_api_get stamp now hdr path s =
     (let toks = sys_tokens s; d = sys_db s in
      if path = ''/api/universities'' then Inr (UniversityList (get_universities d))
      else if prefix ''/api/universities/'' path \<and> contains ''/majors'' path
        then Inr (MajorList (get_majors (split_on CHR ''/'' path ! 3) d))
      else if path = ''/api/exams/active'' then map_sum id ExamInfo (get_active_exam d)
      else if path = ''/api/candidate/profile'' then map_sum id ProfileInfo (get_candidate_profile toks now hdr d)
      else if path = ''/api/candidate/aspirations''
        then map_sum id AspirationList (get_candidate_aspirations toks now hdr d)
      else if path = ''/api/candidate/results'' then map_sum id ResultList (get_candidate_results toks now hdr d)
      else if path = ''/api/candidate/stats'' then map_sum id CandidateStats (get_candidate_stats toks now hdr d)
      else if path = ''/api/documents'' then Inr (DocumentList (handle_get_documents path d))
      else if path = ''/api/payment/config'' then Inr (PaymentConfig get_payment_config)
      else if path = ''/api/payment/history'' then map_sum id PaymentHistory (get_payment_history toks now hdr d)
      else if path = ''/api/manager/pending-aspirations''
        then map_sum id PendingList (handle_get_pending_aspirations toks now hdr d)
      else if path = ''/api/manager/stats'' then map_sum id ManagerStats (get_manager_stats toks now hdr d)
      else if path = ''/api/admin/stats'' then map_sum id AdminStats (get_admin_stats toks now hdr d)
      else if path = ''/api/print/aspirations''
        then map_sum id PrintData (handle_print_aspirations toks now stamp hdr d)
      else if path = ''/api/print/aspirations/csv''
        then map_sum id CsvData (handle_export_aspirations_csv toks now stamp hdr d)
      else Inl EndpointNotFound)"

declare apply_db_def [eval_simps] init_sys_def [eval_simps] restart_def [eval_simps] handle_api_get_def [eval_simps]

lemma reachable_run: "reachable hash s \<Longrightarrow> reachable hash (run hash rs s)"
proof (induction rs arbitrary: s)
  case Nil
  then show ?case by simp
next
  case (Cons r rs)
  obtain now req where "r = (now, req)" by (cases r)
  with Cons show ?case by (simp add: reachable.step)
qed

lemma snd_apply_db: "snd (apply_db r s) = (case r of Inl _ \<Rightarrow> s | Inr d' \<Rightarrow> s\<lparr>sys_db := d'\<rparr>)"
  by (simp add: apply_db_def split: sum.splits)

subsection \<open>Every request keeps the store well formed\<close>

lemma handle_api_post_wf:
  assumes "db_wf (sys_db s)"
  shows "db_wf (sys_db (snd (handle_api_post hash now req s)))"
proof (cases req)
  case (Login un pw tok)
  then show ?thesis using assms by (simp split: sum.splits prod.splits)
next
  case (Register r)
  then show ?thesis using assms by (auto simp: snd_apply_db split: sum.splits intro: register_wf)
next
  case (UpdateProfile hdr em fn prof)
  then show ?thesis
    using assms by (auto simp: snd_apply_db split: sum.splits intro: update_candidate_profile_wf)
next
  case (AddAspiration hdr r)
  then show ?thesis using assms by (auto simp: snd_apply_db split: sum.splits intro: add_aspiration_wf)
next
  case (RemoveAspiration hdr aid)
  then show ?thesis
    using assms by (auto simp: snd_apply_db split: sum.splits intro: remove_aspiration_wf)
next
  case (ReorderAspirations hdr items)
  then show ?thesis
    using assms by (auto simp: snd_apply_db split: sum.splits intro: reorder_aspirations_wf)
next
  case (CreatePayment hdr aid meth stamp sfx)
  then show ?thesis
    using assms by (auto split: sum.splits prod.splits intro: handle_create_payment_wf)
next
  case (VerifyPayment hdr tx)
  then show ?thesis
    using assms by (auto simp: snd_apply_db split: sum.splits intro: handle_verify_payment_wf)
next
  case (ApproveAspiration hdr aid nts)
  then show ?thesis
    using assms by (auto simp: snd_apply_db split: sum.splits intro: handle_approve_aspiration_wf)
next
  case (RejectAspiration hdr aid reason)
  then show ?thesis
    using assms by (auto simp: snd_apply_db split: sum.splits intro: handle_reject_aspiration_wf)
next
  case MalformedJson
  then show ?thesis using assms by simp
next
  case UnknownPath
  then show ?thesis using assms by simp
qed

lemma reachable_db_wf: "reachable hash s \<Longrightarrow> db_wf (sys_db s)"
proof (induction rule: reachable.induct)
  case (start t0)
  then show ?case by (simp add: init_sys_def fresh_seed_wf)
next
  case (step s now req)
  from step.IH show ?case by (rule handle_api_post_wf)
next
  case (restart s t s')
  then show ?case
    by (auto simp: restart_def seed_safe_def dest!: insert_default_data_safe)
qed

subsection \<open>Requests keep the keys the seeding looks up\<close>

text \<open>No request deletes a user, a university or a major or changes their keys: the
  accounts handlers append a user or change an email, the others write aspirations
  and payments only.\<close>

lemma keys_kept_eq:
  "map username (users d') = map username (users d) \<Longrightarrow> universities d' = universities d \<Longrightarrow>
   majors d' = majors d \<Longrightarrow> keys_kept d d'"
  by (simp add: keys_kept_def)

lemma handlers_keys_kept:
  "register hash r d = Inr d' \<Longrightarrow> keys_kept d d'"
  "update_candidate_profile toks now hdr em_field fn_field prof d = Inr d' \<Longrightarrow> keys_kept d d'"
  "add_aspiration toks now hdr req d = Inr d' \<Longrightarrow> keys_kept d d'"
  "remove_aspiration toks now hdr aid_field d = Inr d' \<Longrightarrow> keys_kept d d'"
  "reorder_aspirations toks now hdr items d = Inr d' \<Longrightarrow> keys_kept d d'"
  "handle_create_payment toks now hdr aid_field meth_field tx d = Inr (d', x) \<Longrightarrow> keys_kept d d'"
  "handle_verify_payment now hdr tx_field d = Inr d' \<Longrightarrow> keys_kept d d'"
  "handle_approve_aspiration toks now hdr aid_field notes_field d = Inr d' \<Longrightarrow> keys_kept d d'"
  "handle_reject_aspiration toks now hdr aid_field reason_field d = Inr d' \<Longrightarrow> keys_kept d d'"
proof -
  show "register hash r d = Inr d' \<Longrightarrow> keys_kept d d'"
    by (auto simp: register_Inr insert_user_def insert_candidate_def keys_kept_def split: if_splits)
  show "update_candidate_profile toks now hdr em_field fn_field prof d = Inr d' \<Longrightarrow> keys_kept d d'"
    by (rule keys_kept_eq)
       (auto simp: update_candidate_profile_def update_user_contact_def map_update_where_frame
             split: sum.splits option.splits if_splits)
  show "add_aspiration toks now hdr req d = Inr d' \<Longrightarrow> keys_kept d d'"
    unfolding add_aspiration_Inr by (rule keys_kept_eq) (auto simp: insert_aspiration_def split: if_splits)
  show "remove_aspiration toks now hdr aid_field d = Inr d' \<Longrightarrow> keys_kept d d'"
    unfolding remove_aspiration_Inr by (rule keys_kept_eq) auto
  show "reorder_aspirations toks now hdr items d = Inr d' \<Longrightarrow> keys_kept d d'"
  proof -
    assume "reorder_aspirations toks now hdr items d = Inr d'"
    then obtain cid where "reorder_loop cid items d = Inr d'" by (auto simp: reorder_aspirations_Inr)
    then have eq: "d' = d\<lparr>aspirations := aspirations d'\<rparr>" by (rule reorder_loop_frame)
    show "keys_kept d d'" by (subst eq) (simp add: keys_kept_def)
  qed
  show "handle_create_payment toks now hdr aid_field meth_field tx d = Inr (d', x) \<Longrightarrow> keys_kept d d'"
    by (cases x) (auto simp: handle_create_payment_Inr create_payment_Inr intro!: keys_kept_eq)
  show "handle_verify_payment now hdr tx_field d = Inr d' \<Longrightarrow> keys_kept d d'"
    unfolding handle_verify_payment_Inr by (auto, subst verify_payment_frame) (simp add: keys_kept_def)
  show "handle_approve_aspiration toks now hdr aid_field notes_field d = Inr d' \<Longrightarrow> keys_kept d d'"
    unfolding handle_approve_aspiration_Inr by (rule keys_kept_eq) (auto simp: approve_aspiration_def)
  show "handle_reject_aspiration toks now hdr aid_field reason_field d = Inr d' \<Longrightarrow> keys_kept d d'"
    unfolding handle_reject_aspiration_Inr by (rule keys_kept_eq) (auto simp: reject_aspiration_def)
qed

lemma handle_api_post_keys: "keys_kept (sys_db s) (sys_db (snd (handle_api_post hash now req s)))"
  by (cases req) (auto simp: snd_apply_db split: sum.splits prod.splits intro: handlers_keys_kept)

lemma reachable_seed_keys: "reachable hash s \<Longrightarrow> seed_keys (sys_db s)"
proof (induction rule: reachable.induct)
  case (start t0)
  then show ?case by (simp add: init_sys_def fresh_seed_seed_keys)
next
  case (step s now req)
  show ?case using handle_api_post_keys step.IH by (rule keys_kept_seed_keys)
next
  case (restart s t s')
  then obtain d' where "insert_default_data hash t (sys_db s) = Some d'" and "sys_db s' = d'"
    by (auto simp: restart_def)
  then show ?case using restart.IH by (metis insert_default_data_keys keys_kept_seed_keys)
qed

subsection \<open>Requests keep every transaction id\<close>

text \<open>No request deletes a payment or changes its transaction id: payment creation
  appends one, verification updates status and date, the other handlers leave the
  table alone.\<close>

lemma handle_api_post_txs:
  "set (map transaction_id (payments (sys_db s))) \<subseteq>
   set (map transaction_id (payments (sys_db (snd (handle_api_post hash now req s)))))"
proof (cases req)
  case (Register r)
  then show ?thesis by (auto simp: snd_apply_db split: sum.splits dest!: register_frame)
next
  case (UpdateProfile hdr em fn prof)
  then show ?thesis by (auto simp: snd_apply_db split: sum.splits dest!: update_candidate_profile_frame)
next
  case (AddAspiration hdr r)
  then show ?thesis
    by (auto simp: snd_apply_db add_aspiration_Inr insert_aspiration_def split: sum.splits if_splits)
next
  case (RemoveAspiration hdr aid)
  then show ?thesis by (auto simp: snd_apply_db remove_aspiration_Inr split: sum.splits)
next
  case (ReorderAspirations hdr items)
  have "payments d' = payments d" if "reorder_aspirations toks now hdr items d = Inr d'" for toks d d'
  proof -
    from that obtain cid where "reorder_loop cid items d = Inr d'" by (auto simp: reorder_aspirations_Inr)
    then have eq: "d' = d\<lparr>aspirations := aspirations d'\<rparr>" by (rule reorder_loop_frame)
    show ?thesis by (subst eq) simp
  qed
  with ReorderAspirations show ?thesis by (auto simp: snd_apply_db split: sum.splits)
next
  case (CreatePayment hdr aid meth stamp sfx)
  then show ?thesis
    by (auto simp: handle_create_payment_Inr create_payment_Inr split: sum.splits prod.splits)
next
  case (VerifyPayment hdr tx)
  have "map transaction_id (payments (verify_payment d t n)) = map transaction_id (payments d)" for d t n
    unfolding verify_payment_payments by (rule map_update_where_frame) simp
  then have "transaction_id ` set (payments (verify_payment d t n)) = transaction_id ` set (payments d)" for d t n
    by (metis list.set_map)
  with VerifyPayment show ?thesis
    by (auto simp: snd_apply_db handle_verify_payment_Inr split: sum.splits)
next
  case (ApproveAspiration hdr aid nts)
  then show ?thesis by (auto simp: snd_apply_db split: sum.splits dest!: handle_approve_aspiration_frame)
next
  case (RejectAspiration hdr aid reason)
  then show ?thesis by (auto simp: snd_apply_db split: sum.splits dest!: handle_reject_aspiration_frame)
qed (simp_all split: sum.splits prod.splits)

subsection \<open>Payment flags across requests\<close>

lemma create_payment_request_db:
  "sys_db (snd (handle_api_post hash now (CreatePayment hdr aid meth stamp sfx) s)) = sys_db s \<or>
   (\<exists>r. handle_create_payment (sys_tokens s) now hdr aid meth (gen_transaction_id stamp sfx) (sys_db s) =
      Inr (sys_db (snd (handle_api_post hash now (CreatePayment hdr aid meth stamp sfx) s)), r))"
  by (auto split: sum.split)

lemma handle_api_post_not_verify:
  assumes "\<forall>hdr tx. req \<noteq> VerifyPayment hdr tx"
  shows "pays_nothing (sys_db s) (sys_db (snd (handle_api_post hash now req s))) \<and>
         keeps_completed (sys_db s) (sys_db (snd (handle_api_post hash now req s)))"
proof (cases req)
  case (Register r)
  then show ?thesis
    by (auto simp: snd_apply_db keeps_completed_def split: sum.splits
             dest!: register_frame intro: pays_nothing_subset)
next
  case (UpdateProfile hdr em fn prof)
  then show ?thesis
    by (auto simp: snd_apply_db keeps_completed_def split: sum.splits
             dest!: update_candidate_profile_frame intro: pays_nothing_subset)
next
  case (AddAspiration hdr r)
  then show ?thesis
    by (auto simp: snd_apply_db keeps_completed_def add_aspiration_Inr insert_aspiration_def
             split: sum.splits if_splits dest!: add_aspiration_new_row intro: pays_nothing_append_unpaid)
next
  case (RemoveAspiration hdr aid)
  then show ?thesis
    by (auto simp: snd_apply_db keeps_completed_def split: sum.splits
             dest!: remove_aspiration_rows intro: pays_nothing_subset)
next
  case (ReorderAspirations hdr items)
  then show ?thesis
    by (auto simp: snd_apply_db keeps_completed_def split: sum.splits
             dest!: reorder_aspirations_pay_view intro: pays_nothing_same_view)
next
  case (CreatePayment hdr aid meth stamp sfx)
  then show ?thesis
    using create_payment_request_db [of hash now hdr aid meth stamp sfx s]
    by (auto dest: handle_create_payment_flags)
next
  case (ApproveAspiration hdr aid nts)
  then show ?thesis
    by (auto simp: snd_apply_db keeps_completed_def split: sum.splits
             dest!: handle_approve_aspiration_frame intro: pays_nothing_same_view)
next
  case (RejectAspiration hdr aid reason)
  then show ?thesis
    by (auto simp: snd_apply_db keeps_completed_def split: sum.splits
             dest!: handle_reject_aspiration_frame intro: pays_nothing_same_view)
qed (use assms in \<open>auto simp: pays_nothing_def keeps_completed_def split: sum.splits prod.splits\<close>)

lemma handle_api_post_keeps_paid:
  assumes wf: "db_wf (sys_db s)"
  shows "keeps_paid (sys_db s) (sys_db (snd (handle_api_post hash now req s)))"
proof (cases req)
  case (Login un pw tok)
  then show ?thesis using wf by (auto intro: keeps_paid_same_view split: sum.splits prod.splits)
next
  case (Register r)
  then show ?thesis using wf
    by (auto simp: snd_apply_db split: sum.splits dest!: register_frame intro: keeps_paid_subset)
next
  case (UpdateProfile hdr em fn prof)
  then show ?thesis using wf
    by (auto simp: snd_apply_db split: sum.splits dest!: update_candidate_profile_frame
             intro: keeps_paid_subset)
next
  case (AddAspiration hdr r)
  then show ?thesis using wf
    by (auto simp: snd_apply_db split: sum.splits dest!: add_aspiration_new_row
             intro: keeps_paid_append_fresh keeps_paid_same_view)
next
  case (RemoveAspiration hdr aid)
  then show ?thesis using wf
    by (auto simp: snd_apply_db split: sum.splits dest!: remove_aspiration_rows
             intro: keeps_paid_subset)
next
  case (ReorderAspirations hdr items)
  then show ?thesis using wf
    by (auto simp: snd_apply_db split: sum.splits dest!: reorder_aspirations_pay_view
             intro: keeps_paid_same_view)
next
  case (CreatePayment hdr aid meth stamp sfx)
  then show ?thesis using wf create_payment_request_db [of hash now hdr aid meth stamp sfx s]
    by (auto dest!: handle_create_payment_aspirations intro: keeps_paid_subset keeps_paid_same_view)
next
  case (VerifyPayment hdr tx)
  then show ?thesis using wf
    by (auto simp: snd_apply_db handle_verify_payment_Inr split: sum.splits
             intro: verify_payment_keeps_paid keeps_paid_same_view)
next
  case (ApproveAspiration hdr aid nts)
  then show ?thesis using wf
    by (auto simp: snd_apply_db split: sum.splits dest!: handle_approve_aspiration_frame
             intro: keeps_paid_same_view)
next
  case (RejectAspiration hdr aid reason)
  then show ?thesis using wf
    by (auto simp: snd_apply_db split: sum.splits dest!: handle_reject_aspiration_frame
             intro: keeps_paid_same_view)
qed (use wf in \<open>auto intro: keeps_paid_same_view\<close>)

lemma handle_api_post_paid_backed:
  assumes "paid_backed (sys_db s)"
  shows "paid_backed (sys_db (snd (handle_api_post hash now req s)))"
proof (cases "\<exists>hdr tx. req = VerifyPayment hdr tx")
  case True
  then obtain hdr tx where req: "req = VerifyPayment hdr tx" by blast
  then show ?thesis using assms
    by (auto simp: snd_apply_db handle_verify_payment_Inr split: sum.splits
             intro: verify_payment_paid_backed)
next
  case False
  then have "pays_nothing (sys_db s) (sys_db (snd (handle_api_post hash now req s))) \<and>
         keeps_completed (sys_db s) (sys_db (snd (handle_api_post hash now req s)))"
    by (intro handle_api_post_not_verify) blast
  with assms show ?thesis by (blast intro: paid_backed_step)
qed

end
