(* ===== verification/Http.thy ===== *)
theory Http
  imports Server
begin

text \<open>
  The HTTP boundary of \<open>AdmissionRequestHandler\<close>: \<open>do_GET\<close> and \<open>do_POST\<close>
  (lines 611--623) route a request on its path, \<open>handle_api_post\<close> (3547--3581)
  dispatches a POST on the exact path to one handler (\<open>post_route\<close>), and \<open>send_json_response\<close>
  and \<open>do_OPTIONS\<close> (4512--4528) write the status line and the CORS headers. The
  POST endpoints are a datatype; \<open>request_endpoint\<close> gives the endpoint whose
  handler a decoded request is for, so that a client's path can be checked against
  it. The JSON text itself (\<open>json.loads\<close>, \<open>json.dumps\<close>) is library code and is
  not modelled.
\<close>

datatype endpoint =
    EpLogin | EpRegister | EpProfileUpdate | EpAspirationAdd | EpAspirationRemove
  | EpAspirationReorder | EpPaymentCreate | EpPaymentVerify | EpApprove | EpReject

text \<open>The \<open>if self.path == ...\<close> chain of \<open>handle_api_post\<close>; any other path is
  answered 404.\<close>

definition post_route :: "string \<Rightarrow> endpoint option" where
  "post_route path =
     (if path = ''/api/auth/login'' then Some EpLogin
      else if path = ''/api/auth/register'' then Some EpRegister
      else if path = ''/api/candidate/profile/update'' then Some EpProfileUpdate
      else if path = ''/api/candidate/aspirations/add'' then Some EpAspirationAdd
      else if path = ''/api/candidate/aspirations/remove'' then Some EpAspirationRemove
      else if path = ''/api/candidate/aspirations/reorder'' then Some EpAspirationReorder
      else if path = ''/api/payment/create'' then Some EpPaymentCreate
      else if path = ''/api/payment/verify'' then Some EpPaymentVerify
      else if path = ''/api/manager/aspiration/approve'' then Some EpApprove
      else if path = ''/api/manager/aspiration/reject'' then Some EpReject
      else None)"

text \<open>The handler a decoded request is for (the constructors of \<open>request\<close> are the
  handlers' arguments).\<close>

fun request_endpoint :: "request \<Rightarrow> endpoint option" where
  "request_endpoint (Login _ _ _) = Some EpLogin"
| "request_endpoint (Register _) = Some EpRegister"
| "request_endpoint (UpdateProfile _ _ _ _) = Some EpProfileUpdate"
| "request_endpoint (AddAspiration _ _) = Some EpAspirationAdd"
| "request_endpoint (RemoveAspiration _ _) = Some EpAspirationRemove"
| "request_endpoint (ReorderAspirations _ _) = Some EpAspirationReorder"
| "request_endpoint (CreatePayment _ _ _ _ _) = Some EpPaymentCreate"
| "request_endpoint (VerifyPayment _ _) = Some EpPaymentVerify"
| "request_endpoint (ApproveAspiration _ _ _) = Some EpApprove"
| "request_endpoint (RejectAspiration _ _ _) = Some EpReject"
| "request_endpoint MalformedJson = None"
| "request_endpoint UnknownPath = None"

text \<open>The answer of the server as the client sees it: the page, a JSON body with its
  status, or an error page of \<open>send_error\<close>.\<close>

datatype 'a http_reply = HtmlPage | JsonReply nat "api_error + 'a" | ErrorPage nat

text \<open>\<open>send_json_response(data, status_code)\<close>: an error carries the status of its
  early return, a result 200.\<close>

definition json_reply :: "api_error + 'a \<Rightarrow> 'a http_reply" where
  "json_reply r = JsonReply (case r of Inl e \<Rightarrow> status_code e | Inr _ \<Rightarrow> 200) r"

text \<open>\<open>do_GET\<close>: the root path serves the embedded page, a path under \<open>/api/\<close> goes
  to \<open>handle_api_get\<close>, whose unknown paths are \<open>send_error(404)\<close>, and every other
  path is \<open>send_error(404)\<close>.\<close>

definition do_get ::
  "string \<Rightarrow> time \<Rightarrow> string option \<Rightarrow> string \<Rightarrow> sys \<Rightarrow> get_reply http_reply" where
  "do_get stamp now hdr path s =
     (if path = ''/'' then HtmlPage
      else if prefix ''/api/'' path then
        (case handle_api_get stamp now hdr path s of
           Inl EndpointNotFound \<Rightarrow> ErrorPage 404
         | r \<Rightarrow> json_reply r)
      else ErrorPage 404)"

text \<open>\<open>do_POST\<close>: a path outside \<open>/api/\<close> is \<open>send_error(404)\<close>; under it,
  \<open>handle_api_post\<close> answers a body \<open>json.loads\<close> rejects with 400 and then runs
  the handler \<open>post_route\<close> names for the path, or \<open>send_error(404)\<close>. A request
  reaches a handler only through a path routed to it.\<close>

definition post_handler :: "string \<Rightarrow> endpoint option" where
  "post_handler path = (if prefix ''/api/'' path then post_route path else None)"

text \<open>The CORS headers every JSON answer and \<open>do_OPTIONS\<close> send.\<close>

definition cors_headers :: "(string \<times> string) list" where
  "cors_headers =
     [(''Access-Control-Allow-Origin'', ''*''),
      (''Access-Control-Allow-Methods'', ''GET, POST, OPTIONS''),
      (''Access-Control-Allow-Headers'', ''Content-Type, Authorization'')]"

definition json_headers :: "(string \<times> string) list" where
  "json_headers = (''Content-type'', ''application/json; charset=utf-8'') # cors_headers"

definition do_options :: "nat \<times> (string \<times> string) list" where
  "do_options = (200, cors_headers)"

declare post_route_def [eval_simps] json_reply_def [eval_simps] do_get_def [eval_simps]
  post_handler_def [eval_simps] cors_headers_def [eval_simps] json_headers_def [eval_simps]

end
