(* ===== verification/Client.thy ===== *)
theory Client
  imports Http
begin

text \<open>
  The client: the script of the embedded page (lines 1842--3499), which is the
  program's only user of the API. Its state is the script's globals that outlive
  one call: the token in \<open>localStorage\<close>, \<open>currentRole\<close>, the aspiration and the
  method chosen for a payment, the aspiration chosen for review, and the
  verifications \<open>processPayment\<close> schedules with \<open>setTimeout\<close>, which fire in the
  order they were scheduled, each at some later event. A user action is an event;
  \<open>page_request\<close> is the POST the handler of the action sends (after its own
  checks), \<open>page_endpoint\<close> the path it sends it to, and \<open>page_react\<close> what the
  script keeps of the answer. \<open>page_step\<close> composes one action with the server's
  step \<open>handle_api_post\<close>. Rendering, alerts and modal dialogs change no state
  that a later request depends on and are not modelled; \<open>confirm()\<close> of a removal
  is taken as accepted (a declined removal is no event).
\<close>

subsection \<open>Sections and the requests that load them\<close>

datatype page_section =
    Dashboard | ProfileSec | AspirationSec | PaymentSec | DocumentsSec | PrintSec
  | ManagerAspirationSec | ResultsSec

text \<open>\<open>loadSidebarMenu\<close>: the sections offered to each role (the logout entry is an
  action, not a section).\<close>

fun sidebar_menu :: "role \<Rightarrow> page_section list" where
  "sidebar_menu Candidate =
     [Dashboard, ProfileSec, AspirationSec, PaymentSec, DocumentsSec, PrintSec, ResultsSec]"
| "sidebar_menu Manager = [Dashboard, ManagerAspirationSec]"
| "sidebar_menu Admin = [Dashboard, ManagerAspirationSec]"

text \<open>\<open>loadDashboard\<close> with \<open>loadRecentAspirations\<close> and
  \<open>loadPendingAspirationsForManager\<close>: the API paths (after \<open>apiBaseUrl\<close>) it asks
  for, in order.\<close>

fun dashboard_loads :: "role \<Rightarrow> string list" where
  "dashboard_loads Candidate = [''/candidate/stats'', ''/candidate/aspirations'']"
| "dashboard_loads Manager = [''/manager/stats'', ''/manager/pending-aspirations'']"
| "dashboard_loads Admin = [''/admin/stats'', ''/manager/pending-aspirations'']"

text \<open>\<open>loadSectionContent\<close>: the loader of each section and the paths it asks for;
  the print section asks for nothing until one of its buttons
  (\<open>generatePrintData\<close>, \<open>exportToCSV\<close>) is pressed.\<close>

fun section_loads :: "role \<Rightarrow> page_section \<Rightarrow> string list" where
  "section_loads r Dashboard = dashboard_loads r"
| "section_loads r ProfileSec = [''/candidate/profile'']"
| "section_loads r AspirationSec = [''/universities'', ''/candidate/aspirations'']"
| "section_loads r PaymentSec = [''/payment/config'', ''/payment/history'', ''/candidate/aspirations'']"
| "section_loads r DocumentsSec = [''/documents'']"
| "section_loads r PrintSec = []"
| "section_loads r ManagerAspirationSec = [''/manager/pending-aspirations'']"
| "section_loads r ResultsSec = [''/candidate/results'']"

definition print_buttons :: "string list" where
  "print_buttons = [''/print/aspirations'', ''/print/aspirations/csv'']"

text \<open>\<open>apiCall\<close> prefixes every path with \<open>apiBaseUrl\<close>, whose path part is \<open>/api\<close>.\<close>

definition api_path :: "string \<Rightarrow> string" where
  "api_path p = ''/api'' @ p"

subsection \<open>The script's state and the user's actions\<close>

record page =
  pg_token :: "string option"
  pg_role :: role
  pg_pay_aid :: "int option"
  pg_method :: "string option"
  pg_approval_aid :: "int option"
  pg_timers :: "string list"

text \<open>The page as loaded: \<open>localStorage\<close> may still hold the token of an earlier
  visit (\<open>DOMContentLoaded\<close> shows the login form either way, and \<open>logout\<close> is the
  only code that removes it); \<open>currentRole\<close> starts as \<open>'candidate'\<close>.\<close>

definition page_load :: "string option \<Rightarrow> page" where
  "page_load stored =
     \<lparr>pg_token = stored, pg_role = Candidate, pg_pay_aid = None, pg_method = None,
      pg_approval_aid = None, pg_timers = []\<rparr>"

text \<open>
  The actions. The fields of a form are the strings the inputs hold. A select of
  the aspiration form holds the id of the chosen option or, for the university and
  the major, the empty placeholder (\<open>None\<close>); the ids are sent as the decimal text
  of a positive id, which SQLite's column affinity reads back as the id
  (\<open>sql_text_int_int_str\<close>), so the request carries the id. An empty number input
  of the profile form is sent as \<open>''\<close> (written \<open>None\<close>). \<open>SubmitLogin\<close> and
  \<open>ProcessPayment\<close> carry the random values the server draws for the request.
\<close>

datatype page_event =
    SubmitLogin string string string
  | SubmitRegister string string string string string
  | Logout
  | SaveProfile string string string string string string string "int option"
  | AddNew "int option" "int option" int
  | Remove int
  | OpenPayment int
  | SelectMethod string
  | ProcessPayment string string
  | TimerFires
  | OpenApproval int
  | Approve string
  | Reject string

text \<open>The path each action posts to (\<open>None\<close> for the actions that post nothing).\<close>

fun page_endpoint :: "page_event \<Rightarrow> string option" where
  "page_endpoint (SubmitLogin _ _ _) = Some ''/auth/login''"
| "page_endpoint (SubmitRegister _ _ _ _ _) = Some ''/auth/register''"
| "page_endpoint (SaveProfile _ _ _ _ _ _ _ _) = Some ''/candidate/profile/update''"
| "page_endpoint (AddNew _ _ _) = Some ''/candidate/aspirations/add''"
| "page_endpoint (Remove _) = Some ''/candidate/aspirations/remove''"
| "page_endpoint (ProcessPayment _ _) = Some ''/payment/create''"
| "page_endpoint TimerFires = Some ''/payment/verify''"
| "page_endpoint (Approve _) = Some ''/manager/aspiration/approve''"
| "page_endpoint (Reject _) = Some ''/manager/aspiration/reject''"
| "page_endpoint _ = None"

definition no_profile :: profile where
  "no_profile =
     \<lparr>date_of_birth = None, gender = None, address = None, phone = None, high_school = None,
      graduation_year = None\<rparr>"

text \<open>
  The request each action sends, after the script's own checks: \<open>addNewAspiration\<close>
  needs the three selects filled, \<open>processPayment\<close> a chosen method and aspiration,
  \<open>rejectAspiration\<close> a reason; the verification of a timer is sent with the token
  \<open>localStorage\<close> holds when it fires. The register form sends five fields and no
  profile.
\<close>

fun page_request :: "page \<Rightarrow> page_event \<Rightarrow> request option" where
  "page_request pg (SubmitLogin u p tok) = Some (Login (Some u) (Some p) tok)"
| "page_request pg (SubmitRegister u p em fn cit) =
     Some (Register \<lparr>rr_username = Some u, rr_password = Some p, rr_email = Some em,
                     rr_full_name = Some fn, rr_citizen_id = Some cit, rr_profile = no_profile\<rparr>)"
| "page_request pg (SaveProfile fn em dob g addr ph hs gy) =
     Some (UpdateProfile (pg_token pg) (Some em) (Some fn)
             \<lparr>date_of_birth = Some dob, gender = Some g, address = Some addr, phone = Some ph,
              high_school = Some hs, graduation_year = gy\<rparr>)"
| "page_request pg (AddNew u m p) =
     (case (u, m) of
        (Some uid, Some mid) \<Rightarrow>
          Some (AddAspiration (pg_token pg)
                  \<lparr>req_university = Some uid, req_major = Some mid, req_priority = Some p\<rparr>)
      | _ \<Rightarrow> None)"
| "page_request pg (Remove aid) = Some (RemoveAspiration (pg_token pg) (Some aid))"
| "page_request pg (ProcessPayment stamp sfx) =
     (case (pg_method pg, pg_pay_aid pg) of
        (Some m, Some aid) \<Rightarrow>
          if m = [] \<or> aid = 0 then None
          else Some (CreatePayment (pg_token pg) (Some aid) (Some m) stamp sfx)
      | _ \<Rightarrow> None)"
| "page_request pg TimerFires =
     (case pg_timers pg of
        [] \<Rightarrow> None
      | tx # _ \<Rightarrow> Some (VerifyPayment (pg_token pg) (Some tx)))"
| "page_request pg (Approve notes) =
     Some (ApproveAspiration (pg_token pg) (pg_approval_aid pg) (Some notes))"
| "page_request pg (Reject reason) =
     (if reason = [] then None
      else Some (RejectAspiration (pg_token pg) (pg_approval_aid pg) (Some reason)))"
| "page_request pg _ = None"

text \<open>
  What the script keeps of the answer (\<open>None\<close> when nothing was sent): a login that
  succeeds stores the token and the role of the user; \<open>logout\<close> only forgets the
  token; a created payment by any method but bank transfer schedules the
  verification of its transaction id (\<open>result.data.transaction_id\<close>, the id
  \<open>gen_transaction_id\<close> built); a timer is used up when it fires, whatever the
  answer.
\<close>

fun page_react :: "page \<Rightarrow> page_event \<Rightarrow> (api_error + unit) option \<Rightarrow> sys \<Rightarrow> page" where
  "page_react pg (SubmitLogin u p tok) (Some (Inr ())) s =
     (case sys_tokens s tok of
        Some td \<Rightarrow> pg\<lparr>pg_token := Some tok, pg_role := td_role td\<rparr>
      | None \<Rightarrow> pg)"
| "page_react pg Logout _ s = pg\<lparr>pg_token := None\<rparr>"
| "page_react pg (OpenPayment aid) _ s = pg\<lparr>pg_pay_aid := Some aid\<rparr>"
| "page_react pg (SelectMethod m) _ s = pg\<lparr>pg_method := Some m\<rparr>"
| "page_react pg (OpenApproval aid) _ s = pg\<lparr>pg_approval_aid := Some aid\<rparr>"
| "page_react pg (ProcessPayment stamp sfx) (Some (Inr ())) s =
     (if pg_method pg = Some ''bank_transfer'' then pg
      else pg\<lparr>pg_timers := pg_timers pg @ [gen_transaction_id stamp sfx]\<rparr>)"
| "page_react pg TimerFires _ s = pg\<lparr>pg_timers := tl (pg_timers pg)\<rparr>"
| "page_react pg _ _ s = pg"

text \<open>One action of the user against the server: the request, if any, is handled
  by \<open>handle_api_post\<close> and the script reacts to the answer.\<close>

definition page_step ::
  "(string \<Rightarrow> string) \<Rightarrow> time \<Rightarrow> page_event \<Rightarrow> page \<times> sys \<Rightarrow> page \<times> sys" where
  "page_step hash now ev ps =
     (case page_request (fst ps) ev of
        None \<Rightarrow> (page_react (fst ps) ev None (snd ps), snd ps)
      | Some req \<Rightarrow>
          (let (r, s') = handle_api_post hash now req (snd ps)
           in (page_react (fst ps) ev (Some r) s', s')))"

fun page_run :: "(string \<Rightarrow> string) \<Rightarrow> (time \<times> page_event) list \<Rightarrow> page \<times> sys \<Rightarrow> page \<times> sys" where
  "page_run hash [] ps = ps"
| "page_run hash ((now, ev) # evs) ps = page_run hash evs (page_step hash now ev ps)"

declare sidebar_menu.simps [eval_simps] dashboard_loads.simps [eval_simps] section_loads.simps [eval_simps]
  print_buttons_def [eval_simps] api_path_def [eval_simps] page_load_def [eval_simps]
  no_profile_def [eval_simps] page_step_def [eval_simps]


subsection \<open>Labels of the answers\<close>

text \<open>The status texts the API returns (the column values of \<open>aspirations.status\<close>)
  and the labels the page shows for them: \<open>texts[status] || status\<close> (Vietnamese
  transliterated).\<close>

fun status_json :: "asp_status \<Rightarrow> string" where
  "status_json Pending = ''pending''"
| "status_json Approved = ''approved''"
| "status_json Rejected = ''rejected''"

definition status_text :: "string \<Rightarrow> string" where
  "status_text st =
     (if st = ''pending'' then ''Cho duyet''
      else if st = ''approved'' then ''Da duyet''
      else if st = ''rejected'' then ''Da tu choi''
      else if st = ''completed'' then ''Hoan thanh''
      else st)"

definition payment_status_text :: "string \<Rightarrow> string" where
  "payment_status_text st =
     (if st = ''pending'' then ''Chua thanh toan'' else if st = ''paid'' then ''Da thanh toan'' else st)"

definition payment_method_text :: "string \<Rightarrow> string" where
  "payment_method_text m =
     (if m = ''bank_transfer'' then ''Chuyen khoan''
      else if m = ''momo'' then ''Vi MoMo''
      else if m = ''zalopay'' then ''Vi ZaloPay''
      else if m = ''credit_card'' then ''The tin dung''
      else m)"

text \<open>The requests a run of actions sends, in order (what the page says to the server).\<close>

fun page_sends :: "(string \<Rightarrow> string) \<Rightarrow> (time \<times> page_event) list \<Rightarrow> page \<times> sys \<Rightarrow> request list" where
  "page_sends hash [] ps = []"
| "page_sends hash ((now, ev) # evs) ps =
     (case page_request (fst ps) ev of None \<Rightarrow> [] | Some r \<Rightarrow> [r]) @ page_sends hash evs (page_step hash now ev ps)"

text \<open>An answer that \<open>apiCall\<close> turns into an exception because of the route or the
  session: 404, 401 or 403.\<close>

definition refused :: "api_error + 'a \<Rightarrow> bool" where
  "refused r =
     (case r of Inl e \<Rightarrow> e \<in> {EndpointNotFound, Unauthorized, InvalidToken, PermissionDenied}
      | Inr _ \<Rightarrow> False)"

text \<open>The demo candidate's page, logged in as \<open>tok-c\<close>, with aspiration 1 chosen
  for payment.\<close>

definition demo_page :: "string \<Rightarrow> page" where
  "demo_page m =
     \<lparr>pg_token = Some ''tok-c'', pg_role = Candidate, pg_pay_aid = Some 1, pg_method = Some m,
      pg_approval_aid = None, pg_timers = []\<rparr>"

declare page_sends.simps [eval_simps] refused_def [eval_simps] demo_page_def [eval_simps]
  status_text_def [eval_simps]
  payment_status_text_def [eval_simps] payment_method_text_def [eval_simps]

subsection \<open>The page against the server\<close>

lemma refused_simps [simp]:
  "refused (map_sum id f x) = refused x"
  "refused (Inr y) = False"
  by (cases x) (simp_all add: refused_def)

lemma page_get_routes:
  "handle_api_get stamp now hdr (api_path ''/candidate/stats'') s =
     map_sum id CandidateStats (get_candidate_stats (sys_tokens s) now hdr (sys_db s))"
  "handle_api_get stamp now hdr (api_path ''/candidate/aspirations'') s =
     map_sum id AspirationList (get_candidate_aspirations (sys_tokens s) now hdr (sys_db s))"
  "handle_api_get stamp now hdr (api_path ''/candidate/profile'') s =
     map_sum id ProfileInfo (get_candidate_profile (sys_tokens s) now hdr (sys_db s))"
  "handle_api_get stamp now hdr (api_path ''/candidate/results'') s =
     map_sum id ResultList (get_candidate_results (sys_tokens s) now hdr (sys_db s))"
  "handle_api_get stamp now hdr (api_path ''/universities'') s = Inr (UniversityList (get_universities (sys_db s)))"
  "handle_api_get stamp now hdr (api_path ''/documents'') s =
     Inr (DocumentList (handle_get_documents ''/api/documents'' (sys_db s)))"
  "handle_api_get stamp now hdr (api_path ''/payment/config'') s = Inr (PaymentConfig get_payment_config)"
  "handle_api_get stamp now hdr (api_path ''/payment/history'') s =
     map_sum id PaymentHistory (get_payment_history (sys_tokens s) now hdr (sys_db s))"
  "handle_api_get stamp now hdr (api_path ''/manager/pending-aspirations'') s =
     map_sum id PendingList (handle_get_pending_aspirations (sys_tokens s) now hdr (sys_db s))"
  "handle_api_get stamp now hdr (api_path ''/manager/stats'') s =
     map_sum id ManagerStats (get_manager_stats (sys_tokens s) now hdr (sys_db s))"
  "handle_api_get stamp now hdr (api_path ''/admin/stats'') s =
     map_sum id AdminStats (get_admin_stats (sys_tokens s) now hdr (sys_db s))"
  by (simp_all add: handle_api_get_def api_path_def Let_def)

lemma page_react_timers:
  "ev \<noteq> TimerFires \<Longrightarrow> (\<And>a b. ev \<noteq> ProcessPayment a b) \<Longrightarrow>
   pg_timers (page_react pg ev r s) = pg_timers pg"
  by (induction pg ev r s rule: page_react.induct) (auto split: option.splits)

lemma page_request_verify:
  "page_request pg ev = Some (VerifyPayment h t) \<Longrightarrow>
   ev = TimerFires \<and> pg_timers pg \<noteq> [] \<and> t = Some (hd (pg_timers pg))"
  by (cases ev) (auto split: option.splits if_splits list.splits prod.splits)

text \<open>A transaction id the store already holds and no timer holds is never scheduled
  by a later action: a payment is created only with a fresh transaction id, and no
  request deletes one.\<close>

lemma page_step_unscheduled:
  assumes "tx \<in> set (map transaction_id (payments (sys_db (snd ps))))"
    and "tx \<notin> set (pg_timers (fst ps))"
  shows "tx \<in> set (map transaction_id (payments (sys_db (snd (page_step hash now ev ps))))) \<and>
         tx \<notin> set (pg_timers (fst (page_step hash now ev ps)))"
proof (cases "page_request (fst ps) ev")
  case None
  with assms show ?thesis
    by (cases ev) (auto simp: page_step_def split: list.splits)
next
  case (Some req)
  obtain pg s where ps: "ps = (pg, s)" by (cases ps)
  obtain r s' where h: "handle_api_post hash now req s = (r, s')" by (cases "handle_api_post hash now req s")
  have step: "page_step hash now ev ps = (page_react pg ev (Some r) s', s')"
    using Some h by (simp add: page_step_def ps)
  have kept: "tx \<in> set (map transaction_id (payments (sys_db s')))"
    using assms(1) handle_api_post_txs [of s hash now req] h by (auto simp: ps)
  have "tx \<notin> set (pg_timers (page_react pg ev (Some r) s'))"
  proof (cases ev)
    case (ProcessPayment stamp sfx)
    show ?thesis
    proof (cases "r = Inr () \<and> pg_method pg \<noteq> Some ''bank_transfer''")
      case True
      from Some ProcessPayment obtain m aid where
        req: "req = CreatePayment (pg_token pg) (Some aid) (Some m) stamp sfx"
        by (auto simp: ps split: option.splits if_splits)
      from True h obtain d1 x where
        "handle_create_payment (sys_tokens s) now (pg_token pg) (Some aid) (Some m)
           (gen_transaction_id stamp sfx) (sys_db s) = Inr (d1, x)"
        unfolding req by (auto split: sum.splits prod.splits)
      then have "gen_transaction_id stamp sfx \<notin> set (map transaction_id (payments (sys_db s)))"
        by (cases x) (auto simp: handle_create_payment_Inr create_payment_Inr)
      with assms ProcessPayment True show ?thesis by (force simp: ps)
    next
      case False
      with assms ProcessPayment show ?thesis by (cases r) (auto simp: ps)
    qed
  next
    case TimerFires
    with assms show ?thesis by (cases "pg_timers pg") (auto simp: ps)
  qed (use assms in \<open>simp_all add: ps page_react_timers\<close>)
  with kept step show ?thesis by simp
qed

lemma page_sends_unscheduled:
  assumes "tx \<in> set (map transaction_id (payments (sys_db (snd ps))))"
    and "tx \<notin> set (pg_timers (fst ps))"
  shows "VerifyPayment h (Some tx) \<notin> set (page_sends hash evs ps)"
  using assms
proof (induction evs arbitrary: ps)
  case (Cons e evs)
  obtain now ev where e: "e = (now, ev)" by (cases e)
  have "page_request (fst ps) ev \<noteq> Some (VerifyPayment h (Some tx))"
    using Cons.prems(2) by (auto dest!: page_request_verify)
  moreover have "VerifyPayment h (Some tx) \<notin> set (page_sends hash evs (page_step hash now ev ps))"
    using Cons.IH page_step_unscheduled [OF Cons.prems] by blast
  ultimately show ?case by (auto simp: e split: option.splits)
qed simp

text \<open>Unlike the CSV export, the page tells the three statuses apart: it labels a
  rejected aspiration as rejected.\<close>

lemma status_text_distinct:
  "inj (\<lambda>a. status_text (status_json a))" "status_text (status_json Rejected) = ''Da tu choi''"
proof -
  show "inj (\<lambda>a. status_text (status_json a))"
  proof (rule injI)
    fix a b assume "status_text (status_json a) = status_text (status_json b)"
    then show "a = b" by (cases a; cases b) (simp_all add: status_text_def)
  qed
  show "status_text (status_json Rejected) = ''Da tu choi''" by (simp add: status_text_def)
qed

subsection \<open>Properties of the page\<close>

text \<open>C35: The page and the server agree on who may load what: for a live session of
  any role, every GET the page issues to load a section of that role's menu is routed
  by \<open>handle_api_get\<close> and passes its session and role checks (no 404, 401 or
  403).\<close>

theorem menu_loads_authorized:
  assumes tok: "verify_token (sys_tokens s) tok now = Some td" "tok \<noteq> []"
    and sec: "sec \<in> set (sidebar_menu (td_role td))" and p: "p \<in> set (section_loads (td_role td) sec)"
  shows "\<not> refused (handle_api_get stamp now (Some tok) (api_path p) s)" 
proof -
  have a: "authenticate (sys_tokens s) (Some tok) now = Inr td"
    using tok by (simp add: authenticate_def)
  have st: "td_role td \<in> {Manager, Admin} \<Longrightarrow> authenticate_staff (sys_tokens s) (Some tok) now = Inr td"
    using tok by (simp add: authenticate_staff_def)
  have r: "authenticate_role (td_role td) (sys_tokens s) (Some tok) now = Inr td"
    using tok by (simp add: authenticate_role_def)
  have cand: "\<not> refused (get_candidate_stats (sys_tokens s) now (Some tok) (sys_db s))" 
    "\<not> refused (get_candidate_aspirations (sys_tokens s) now (Some tok) (sys_db s))" 
    "\<not> refused (get_candidate_profile (sys_tokens s) now (Some tok) (sys_db s))" 
    "\<not> refused (get_candidate_results (sys_tokens s) now (Some tok) (sys_db s))" 
    "\<not> refused (get_payment_history (sys_tokens s) now (Some tok) (sys_db s))" 
    using a by (auto simp: refused_def get_candidate_stats_def get_candidate_aspirations_def
        get_candidate_profile_def get_candidate_results_def get_payment_history_def split: option.splits)
  have staff: "td_role td \<in> {Manager, Admin} \<Longrightarrow>
      \<not> refused (handle_get_pending_aspirations (sys_tokens s) now (Some tok) (sys_db s))" 
    using st by (auto simp: handle_get_pending_aspirations_def refused_def)
  have mgr: "td_role td = Manager \<Longrightarrow> \<not> refused (get_manager_stats (sys_tokens s) now (Some tok) (sys_db s))" 
    using r by (auto simp: get_manager_stats_def refused_def)
  have adm: "td_role td = Admin \<Longrightarrow> \<not> refused (get_admin_stats (sys_tokens s) now (Some tok) (sys_db s))" 
    using r by (auto simp: get_admin_stats_def refused_def)
  show ?thesis
    using sec p
    by (cases "td_role td"; cases sec)
       (auto simp: page_get_routes cand staff mgr adm)
qed
text \<open>C36: A payment made from the page with an instant method completes: when the
  page's \<open>/payment/create\<close> request succeeds with a method other than bank transfer
  and no other verification is pending, the verification its timer sends completes
  the payment and marks the chosen aspiration paid.\<close>

theorem instant_payment_completes:
  assumes req: "page_request pg (ProcessPayment stamp sfx) = Some req"
    and ok: "fst (handle_api_post hash now req s) = Inr ()"
    and pg: "pg_timers pg = []" "pg_token pg = Some tok" "tok \<noteq> []" "pg_method pg \<noteq> Some ''bank_transfer''"
  shows "let (pg1, s1) = page_step hash now (ProcessPayment stamp sfx) (pg, s);
             (pg2, s2) = page_step hash now' TimerFires (pg1, s1)
         in pg_timers pg2 = [] \<and>
            list_all (\<lambda>p. p_status p = TxnCompleted)
              (filter (\<lambda>p. transaction_id p = gen_transaction_id stamp sfx) (payments (sys_db s2))) \<and>
            the (pg_pay_aid pg) \<in> set (map a_id (aspirations (sys_db s2))) \<and>
            list_all (\<lambda>a. a_payment a = Paid)
              (filter (\<lambda>a. a_id a = the (pg_pay_aid pg)) (aspirations (sys_db s2)))"
proof -
  let ?tx = "gen_transaction_id stamp sfx"
  from req obtain m aid where m: "pg_method pg = Some m" and aid: "pg_pay_aid pg = Some aid"
    and r: "req = CreatePayment (Some tok) (Some aid) (Some m) stamp sfx"
    using pg(2) by (auto split: option.splits if_splits)
  from ok obtain d1 x where c: "handle_create_payment (sys_tokens s) now (Some tok) (Some aid) (Some m) ?tx (sys_db s) = Inr (d1, x)"
    unfolding r by (auto split: sum.splits)
  then have s1: "page_step hash now (ProcessPayment stamp sfx) (pg, s) =
      (pg\<lparr>pg_timers := [?tx]\<rparr>, s\<lparr>sys_db := d1\<rparr>)"
    using req r m pg by (simp add: page_step_def)
  have s2: "page_step hash now' TimerFires (pg\<lparr>pg_timers := [?tx]\<rparr>, s\<lparr>sys_db := d1\<rparr>) =
      (pg\<lparr>pg_timers := []\<rparr>, s\<lparr>sys_db := verify_payment d1 ?tx now'\<rparr>)"
    using pg by (simp add: page_step_def apply_db_def handle_verify_payment_def gen_transaction_id_def)
  obtain p where p: "find (\<lambda>p. transaction_id p = ?tx) (payments d1) = Some p" "p_aspiration p = aid"
    using create_payment_request_row(1) [OF c] by blast
  have asp: "aspirations (verify_payment d1 ?tx now') =
      update_where (\<lambda>a. a_id a = aid) (\<lambda>a. a\<lparr>a_payment := Paid\<rparr>) (aspirations d1)"
    using p by (simp add: verify_payment_aspirations)
  have "map a_id (aspirations (verify_payment d1 ?tx now')) = map a_id (aspirations d1)"
    unfolding asp by (rule map_update_where_frame) simp
  then have ids: "aid \<in> set (map a_id (aspirations (verify_payment d1 ?tx now')))"
    using create_payment_request_row(2) [OF c] by simp
  show ?thesis
    using s1 s2 aid ids
    by (simp add: verify_payment_payments asp update_where_completes update_where_marks_paid)
qed


theorem menu_loads_authorized_witness:
  "\<not> refused (handle_api_get ''09/11/2026 10:00'' 1 (Some ''tok-m'') (api_path ''/manager/stats'')
      \<lparr>sys_db = fresh_seed id 0, sys_tokens = demo_tokens\<rparr>)"
  by (rule menu_loads_authorized
        [where td = "\<lparr>td_user_id = 2, td_username = ''manager'', td_role = Manager, created_at = 0\<rparr>"
           and sec = Dashboard])
     (simp_all add: verify_token_def token_ttl_def)

theorem instant_payment_completes_witness:
  "let (pg1, s1) = page_step id 1 (ProcessPayment ''20250101'' ''1111'')
                     (demo_page ''momo'', \<lparr>sys_db = fresh_seed id 0, sys_tokens = demo_tokens\<rparr>);
       (pg2, s2) = page_step id 3 TimerFires (pg1, s1)
   in pg_timers pg2 = [] \<and>
      list_all (\<lambda>p. p_status p = TxnCompleted)
        (filter (\<lambda>p. transaction_id p = gen_transaction_id ''20250101'' ''1111'') (payments (sys_db s2))) \<and>
      the (pg_pay_aid (demo_page ''momo'')) \<in> set (map a_id (aspirations (sys_db s2))) \<and>
      list_all (\<lambda>a. a_payment a = Paid)
        (filter (\<lambda>a. a_id a = the (pg_pay_aid (demo_page ''momo''))) (aspirations (sys_db s2)))"
  by (rule instant_payment_completes
        [where tok = "''tok-c''" and req = "CreatePayment (Some ''tok-c'') (Some 1) (Some ''momo'') ''20250101'' ''1111''"])
     (simp_all add: eval_simps)

text \<open>C37: The page never verifies a bank transfer: after the page has created a
  payment by bank transfer, no later sequence of actions makes it send the
  verification of that transaction id, and nothing else in the program sends one, so
  such a payment stays pending and its aspiration unpaid.\<close>

theorem bank_transfer_never_verified:
  assumes "page_request pg (ProcessPayment stamp sfx) = Some req"
    and "fst (handle_api_post hash now req s) = Inr ()"
    and "pg_method pg = Some ''bank_transfer''"
    and "gen_transaction_id stamp sfx \<notin> set (pg_timers pg)"
  shows "VerifyPayment h (Some (gen_transaction_id stamp sfx)) \<notin>
           set (page_sends hash evs (page_step hash now (ProcessPayment stamp sfx) (pg, s)))"
proof -
  let ?tx = "gen_transaction_id stamp sfx"
  from assms(1) obtain aid where aid: "pg_pay_aid pg = Some aid"
    and r: "req = CreatePayment (pg_token pg) (Some aid) (Some ''bank_transfer'') stamp sfx"
    using assms(3) by (auto split: option.splits if_splits)
  from assms(2) obtain d1 x where
    c: "handle_create_payment (sys_tokens s) now (pg_token pg) (Some aid) (Some ''bank_transfer'') ?tx (sys_db s) = Inr (d1, x)"
    unfolding r by (auto split: sum.splits)
  then have step: "page_step hash now (ProcessPayment stamp sfx) (pg, s) = (pg, s\<lparr>sys_db := d1\<rparr>)"
    using assms(1,3) r by (simp add: page_step_def)
  obtain p where "find (\<lambda>p. transaction_id p = ?tx) (payments d1) = Some p"
    using create_payment_request_row(1) [OF c] by blast
  then have "?tx \<in> set (map transaction_id (payments d1))"
    by (force dest!: find_Some_in_set)
  then show ?thesis
    unfolding step using assms(4) by (intro page_sends_unscheduled) simp_all
qed

theorem bank_transfer_never_verified_witness:
  "VerifyPayment (Some ''tok-c'') (Some (gen_transaction_id ''20250101'' ''1111'')) \<notin>
     set (page_sends id [(5, TimerFires), (6, OpenPayment 1), (7, TimerFires)]
           (page_step id 1 (ProcessPayment ''20250101'' ''1111'')
              (demo_page ''bank_transfer'', \<lparr>sys_db = fresh_seed id 0, sys_tokens = demo_tokens\<rparr>)))"
  by (rule bank_transfer_never_verified
        [where req = "CreatePayment (Some ''tok-c'') (Some 1) (Some ''bank_transfer'') ''20250101'' ''1111''"])
     (simp_all add: eval_simps)

text \<open>C38: The page posts every request to the handler it is for: for every action
  that sends a request, the path the script writes (after \<open>apiBaseUrl\<close>) is routed
  by \<open>do_POST\<close> and \<open>handle_api_post\<close> to the endpoint of that request.\<close>

theorem page_posts_routed:
  assumes "page_request pg ev = Some req"
  shows "\<exists>p. page_endpoint ev = Some p \<and> post_handler (api_path p) = request_endpoint req \<and>
             request_endpoint req \<noteq> None"
  using assms
  by (cases ev)
     (auto simp: api_path_def post_handler_def post_route_def split: option.splits if_splits list.splits prod.splits)

theorem page_posts_routed_witness:
  "\<exists>p. page_endpoint (Remove 1) = Some p \<and>
       post_handler (api_path p) = request_endpoint (RemoveAspiration None (Some 1)) \<and>
       request_endpoint (RemoveAspiration None (Some 1)) \<noteq> None"
  by (rule page_posts_routed [where pg = "page_load None"]) (simp add: page_load_def)

text \<open>C39: Invariant I4 fails through the page itself: the payment list keeps an
  aspiration listed as unpaid until its verification has run, so whenever the page's
  first payment of an aspiration by an instant method succeeds, a second confirmation
  before the timer fires (with a new transaction id) succeeds too, and the two timers
  complete two payments of the one aspiration.\<close>

theorem page_double_payment:
  assumes req: "page_request pg (ProcessPayment stamp sfx) = Some req"
    and ok: "fst (handle_api_post hash now req s) = Inr ()"
    and pg: "pg_timers pg = []" "pg_token pg = Some tok" "tok \<noteq> []" "pg_method pg \<noteq> Some ''bank_transfer''"
    and fresh: "gen_transaction_id stamp' sfx' \<noteq> gen_transaction_id stamp sfx"
      "gen_transaction_id stamp' sfx' \<notin> set (map transaction_id (payments (sys_db s)))"
  shows "let (pg1, s1) = page_step hash now (ProcessPayment stamp sfx) (pg, s);
             (pg2, s2) = page_step hash now (ProcessPayment stamp' sfx') (pg1, s1);
             (pg3, s3) = page_step hash t1 TimerFires (pg2, s2);
             (pg4, s4) = page_step hash t2 TimerFires (pg3, s3)
         in pg_timers pg4 = [] \<and>
            length (filter (\<lambda>p. p_aspiration p = the (pg_pay_aid pg) \<and> p_status p = TxnCompleted)
              (payments (sys_db s4))) = 2"
proof -
  let ?tx = "gen_transaction_id stamp sfx" and ?tx' = "gen_transaction_id stamp' sfx'"
  from req obtain m aid where m: "pg_method pg = Some m" and aid: "pg_pay_aid pg = Some aid"
    and ne: "m \<noteq> []" "aid \<noteq> 0"
    and r: "req = CreatePayment (Some tok) (Some aid) (Some m) stamp sfx"
    using pg(2) by (auto split: option.splits if_splits)
  from ok obtain d1 x where c: "handle_create_payment (sys_tokens s) now (Some tok) (Some aid) (Some m) ?tx (sys_db s) = Inr (d1, x)"
    unfolding r by (auto split: sum.splits)
  then have s1: "page_step hash now (ProcessPayment stamp sfx) (pg, s) =
      (pg\<lparr>pg_timers := [?tx]\<rparr>, s\<lparr>sys_db := d1\<rparr>)"
    using req r m pg by (simp add: page_step_def)
  have "?tx' \<notin> set (map transaction_id (payments d1))"
    using handle_create_payment_row [OF c] fresh by auto
  then obtain d2 y where c2: "handle_create_payment (sys_tokens s) now (Some tok) (Some aid) (Some m) ?tx' d1 = Inr (d2, y)"
    using handle_create_payment_again [OF c] by blast
  have s2: "page_step hash now (ProcessPayment stamp' sfx') (pg\<lparr>pg_timers := [?tx]\<rparr>, s\<lparr>sys_db := d1\<rparr>) =
      (pg\<lparr>pg_timers := [?tx, ?tx']\<rparr>, s\<lparr>sys_db := d2\<rparr>)"
    using c2 m aid ne pg by (simp add: page_step_def)
  have s3: "page_step hash t1 TimerFires (pg\<lparr>pg_timers := [?tx, ?tx']\<rparr>, s\<lparr>sys_db := d2\<rparr>) =
      (pg\<lparr>pg_timers := [?tx']\<rparr>, s\<lparr>sys_db := verify_payment d2 ?tx t1\<rparr>)"
    using pg by (simp add: page_step_def apply_db_def handle_verify_payment_def gen_transaction_id_def)
  have s4: "page_step hash t2 TimerFires (pg\<lparr>pg_timers := [?tx']\<rparr>, s\<lparr>sys_db := verify_payment d2 ?tx t1\<rparr>) =
      (pg\<lparr>pg_timers := []\<rparr>, s\<lparr>sys_db := verify_payment (verify_payment d2 ?tx t1) ?tx' t2\<rparr>)"
    using pg by (simp add: page_step_def apply_db_def handle_verify_payment_def gen_transaction_id_def)
  have "length (filter (\<lambda>p. p_aspiration p = aid \<and> p_status p = TxnCompleted)
          (payments (verify_payment (verify_payment d2 ?tx t1) ?tx' t2))) = 2"
    by (rule create_twice_verify_twice [OF c c2 fresh(1)])
  with s1 s2 s3 s4 aid show ?thesis by simp
qed

theorem page_double_payment_witness:
  "let (pg1, s1) = page_step id 1 (ProcessPayment ''20250101'' ''1111'')
                     (demo_page ''momo'', \<lparr>sys_db = fresh_seed id 0, sys_tokens = demo_tokens\<rparr>);
       (pg2, s2) = page_step id 1 (ProcessPayment ''20250101'' ''2222'') (pg1, s1);
       (pg3, s3) = page_step id 3 TimerFires (pg2, s2);
       (pg4, s4) = page_step id 4 TimerFires (pg3, s3)
   in pg_timers pg4 = [] \<and>
      length (filter (\<lambda>p. p_aspiration p = the (pg_pay_aid (demo_page ''momo'')) \<and> p_status p = TxnCompleted)
        (payments (sys_db s4))) = 2"
  by (rule page_double_payment
        [where tok = "''tok-c''" and req = "CreatePayment (Some ''tok-c'') (Some 1) (Some ''momo'') ''20250101'' ''1111''"])
     (simp_all add: eval_simps)

text \<open>C40: Logging out while a verification is pending loses the payment: whatever
  the page and the store, the timer then sends the verification with no
  \<open>Authorization\<close> header, the server refuses it (401) and leaves the store as it
  was, and the timer is used up, so nothing retries it.\<close>

theorem logout_before_verification:
  assumes "pg_timers pg = tx # txs"
  shows "let (pg1, s1) = page_step hash now Logout (pg, s);
             (pg2, s2) = page_step hash now' TimerFires (pg1, s1)
         in page_request pg1 TimerFires = Some (VerifyPayment None (Some tx)) \<and>
            fst (handle_api_post hash now' (VerifyPayment None (Some tx)) s1) = Inl Unauthorized \<and>
            s2 = s \<and> pg_timers pg2 = txs"
  using assms by (simp add: page_step_def apply_db_def handle_verify_payment_def)

theorem logout_before_verification_witness:
  "let (pg1, s1) = page_step id 2 Logout
                     (demo_page ''momo''\<lparr>pg_timers := [''TXN202501011111'']\<rparr>, init_sys id 0);
       (pg2, s2) = page_step id 3 TimerFires (pg1, s1)
   in page_request pg1 TimerFires = Some (VerifyPayment None (Some ''TXN202501011111'')) \<and>
      fst (handle_api_post id 3 (VerifyPayment None (Some ''TXN202501011111'')) s1) = Inl Unauthorized \<and>
      s2 = init_sys id 0 \<and> pg_timers pg2 = []"
  using logout_before_verification [where pg = "demo_page ''momo''\<lparr>pg_timers := [''TXN202501011111'']\<rparr>"
      and tx = "''TXN202501011111''" and txs = "[]" and hash = id and now = 2 and now' = 3
      and s = "init_sys id 0"]
  by simp

end
