(* ===== verification/Spec2Isabelle.thy ===== *)
theory Spec2Isabelle
  imports Client
begin

text \<open>
  \<^bold>\<open>A verification development of the university admission server.\<close>

  The program is one Python file, \<open>src/university_admission.py\<close>: an HTTP server
  (\<open>AdmissionRequestHandler\<close>, served one request at a time by \<open>main\<close>) over an
  SQLite database created and seeded by \<open>init_database\<close> and
  \<open>insert_default_data\<close>, with a process-wide session dictionary
  \<open>active_tokens\<close>. Candidates register ranked aspirations (a university and a major
  for a priority slot of the active exam), pay a fee per aspiration and have staff
  approve or reject them.

  \<^bold>\<open>Theories.\<close>
  \<^item> \<open>Prelude\<close>: roles, the SQL constraint errors and the API errors of the handlers
    with their HTTP codes (\<open>status_code\<close>), Python truthiness of JSON fields
    (\<open>truthy_int\<close>, \<open>truthy_str\<close>), and the table operations \<open>update_where\<close>
    and \<open>delete_where\<close> (SQL \<open>UPDATE ... WHERE\<close>, \<open>DELETE ... WHERE\<close>) with their
    shared lemmas.
  \<^item> \<open>Text\<close>: the Python string operations the handlers use (\<open>str.split\<close>,
    \<open>in\<close>, \<open>str(n)\<close>) and SQLite's numeric reading of a text parameter
    (\<open>sql_text_int\<close>), with the round trip \<open>sql_text_int (int_str i) = Some i\<close>.
  \<^item> \<open>Session\<close>: \<open>create_token\<close>, \<open>verify_token\<close> (lines 311--331) and the token
    checks every protected handler opens with (\<open>authenticate\<close>,
    \<open>authenticate_staff\<close>).
  \<^item> \<open>Database\<close>: one record per table of \<open>init_database\<close> (lines 39--187), the
    database \<open>db\<close> as lists of rows in rowid order with the \<open>AUTOINCREMENT\<close> counters,
    the constrained \<open>INSERT\<close>/\<open>UPDATE\<close> statements (\<open>insert_aspiration\<close>,
    \<open>update_priority\<close>, \<open>insert_payment\<close>, \<open>insert_user\<close>,
    \<open>insert_candidate\<close>) which check \<open>NOT NULL\<close>, \<open>CHECK\<close> and \<open>UNIQUE\<close> in
    SQLite's order, the well-formedness invariant \<open>db_wf\<close> (unique ids below the
    counters, the unique columns, priorities in 1..10) with one preservation lemma per
    statement, and the relations on payment flags used by the invariants.
  \<^item> \<open>Fixtures\<close>: \<open>insert_default_data\<close> (lines 189--303) statement by statement
    on any store (\<open>INSERT OR IGNORE\<close> as \<open>or_ignore\<close>, the dictionaries built from
    \<open>SELECT\<close>s as \<open>key_map\<close>, a \<open>KeyError\<close> as \<open>None\<close>), the store \<open>fresh_seed\<close>
    it writes into a new file, and the lemmas that reseeding keeps the invariants and
    the looked-up keys and succeeds when they are present.
  \<^item> \<open>Aspirations\<close>: the handlers \<open>add_aspiration\<close>, \<open>remove_aspiration\<close>,
    \<open>reorder_aspirations\<close> and \<open>get_candidate_aspirations\<close>; the reorder loop is
    proved to refine the specification "last write wins" (\<open>reorder_spec\<close>).
  \<^item> \<open>Payments\<close>: the module functions \<open>create_payment\<close>, \<open>verify_payment\<close> and
    their handlers, and the payment history.
  \<^item> \<open>Approval\<close>: \<open>get_pending_aspirations\<close>, \<open>approve_aspiration\<close>,
    \<open>reject_aspiration\<close> and their staff-only handlers, beside the life cycle of the
    specification as an inductive relation \<open>spec_status_step\<close>.
  \<^item> \<open>Accounts\<close>: \<open>login\<close>, \<open>register\<close>, \<open>update_candidate_profile\<close>,
    \<open>get_candidate_profile\<close>.
  \<^item> \<open>Queries\<close>: \<open>SystemConfig\<close>, the payment configuration, the catalog
    queries, the candidate's results and statistics, the staff statistics and the
    document list.
  \<^item> \<open>Reports\<close>: the print data and the CSV export, with the text \<open>csv.writer\<close>
    produces (the quoting of \<open>csv_field\<close> and \<open>csv_row\<close> is the standard
    library's, modelled from its documented behaviour since that code is not in
    \<open>src/\<close>); a reference reader (\<open>csv_read\<close>, a state machine over characters)
    is proved to invert the writer on every table, so that what the export writes can
    be read back cell by cell.
  \<^item> \<open>Server\<close>: the state \<open>sys\<close> (database and session store), the POST requests
    as a datatype, the dispatcher \<open>handle_api_post\<close> (lines 3547--3581) as a step
    function, the GET dispatcher \<open>handle_api_get\<close> (3510--3545) on the path string,
    runs of requests, restarts (\<open>main\<close> runs \<open>init_database\<close> on the existing
    file and starts with no sessions), and the reachable states (inductive
    \<open>reachable\<close>: a first start, then requests and restarts in any order) with the
    invariants proved by rule induction.
  \<^item> \<open>Http\<close>: \<open>do_GET\<close> and \<open>do_POST\<close> (lines 611--623), the POST path chain of
    \<open>handle_api_post\<close> (\<open>post_route\<close>, one endpoint per path), the status of each
    answer (\<open>json_reply\<close>) and the CORS headers of \<open>send_json_response\<close> and
    \<open>do_OPTIONS\<close>.
  \<^item> \<open>Client\<close>: the script of the embedded page (lines 1842--3499), the only client
    of the API, as a state machine: the token in \<open>localStorage\<close>, the current role,
    the choices of the payment and review dialogs and the verifications scheduled
    with \<open>setTimeout\<close>; each user action is an event whose request
    (\<open>page_request\<close>) is handled by \<open>handle_api_post\<close> and whose answer the script
    keeps (\<open>page_react\<close>), composed in \<open>page_step\<close>; the menu of each role and the
    GETs of each section. Its lemmas show that the page and the server agree on
    routes and permissions, that an instant payment made from the page completes,
    and what the deferred verification does under interleaving.
  \<^item> this theory: the properties that span components, over reachable states and
    concrete runs.

  \<^bold>\<open>Modelling choices.\<close> Every handler returns \<open>api_error + result\<close>: the left
  side is each early return of the source with its message, and an error leaves the
  database unchanged (the handlers commit only on success; an exception before the
  commit discards the open transaction). JSON fields are options (\<open>None\<close> for an
  absent key) read with Python truthiness. Time is an integer count of microseconds,
  an input of each step; the password hash (\<open>hashlib.sha256\<close>) is a parameter, and
  the random token and the random parts of a transaction id are inputs of the step
  that draws them. Foreign keys are declared but not enforced by SQLite (no
  \<open>PRAGMA foreign_keys\<close>), so no statement checks them. \<open>socketserver.TCPServer\<close>
  handles one request at a time, so a run is a sequence of whole requests.
  The columns of a row are the record fields, except \<open>users.created_at\<close> (line
  70), a default no statement of the program reads. The
  \<open>status\<close> and \<open>payment_status\<close> columns of \<open>aspirations\<close> are \<open>TEXT\<close>
  without a \<open>CHECK\<close>; they are the closed types \<open>asp_status\<close> and
  \<open>pay_flag\<close>, which is faithful for every state the program reaches, because the
  only values it writes are the defaults (\<open>'pending'\<close>) and the literals of
  \<open>approve_aspiration\<close>, \<open>reject_aspiration\<close> and \<open>verify_payment\<close>; a file
  written by another program with other texts is not modelled.

  \<^bold>\<open>Results.\<close> Invariant I1 (unique priority slot, priority range) and the first
  half of I3 (a paid aspiration has a completed payment) hold in every reachable state;
  only payment verification marks an aspiration paid and nothing unmarks it; payment
  verification is idempotent; the reorder batch implements last-write-wins. Against
  the specification the model shows, each for every store and request satisfying the
  stated guards: I4/P2 fails (whenever a payment is created, a second one for the same
  aspiration is accepted and both can be completed), payment verification needs no
  valid session, approval is not terminal (a rejected aspiration can be approved),
  rejection keeps the approver, a batch that swaps two priorities is refused, the quota
  of four aspirations is not enforced (an insert succeeds however many aspirations the
  candidate holds), an aspiration is deleted whatever its status, \<open>add_aspiration\<close>
  stores any university and major ids without looking them up, the document category
  filter is unreachable through the GET dispatcher, the manager statistics refuse an
  administrator, two notions of the active exam disagree, and the CSV export labels a
  rejected aspiration as awaiting review. The majors route is a round trip (the path
  built from a university id selects exactly that university's majors), and the CSV
  export reads back to rows whose cells are the candidate's and the aspirations' data.
  A restart from any reachable state succeeds (the keys the seeding looks up are never
  deleted); but every restart appends the four sample documents again, and the id
  dictionaries of the seeding keep the last row of each key, so the seeded aspirations
  name majors of another university. Composed with its page, the server answers every
  GET of a role's menu and every POST goes to the handler of its request; a payment by
  an instant method completes when its timer fires, but a bank transfer is never
  verified, paying twice before the timer fires completes two payments of one
  aspiration, and a logout before the timer sends an unauthenticated verification that
  the server refuses, with no retry.

  \<^bold>\<open>Bounds.\<close> No loop of the program can run forever: the reorder loop is
  structural recursion over the request's list, the CSV reader over the text, and the
  loops of the seeding are folds over its constant lists.
  The concrete runs and witnesses use the seeded store and at most five requests.

  \<^bold>\<open>Not modelled.\<close> Of the embedded page (\<open>serve_embedded_html\<close>, lines
  625--3509) the markup and styles (625--1841) and the rendering of answers into HTML
  are not modelled: they send no request and keep no state a later request reads.
  The JSON text of requests and answers (\<open>json.loads\<close>, \<open>json.dumps\<close>), the
  \<open>Content-Length\<close> read and \<open>main\<close>'s console output are library I/O; \<open>hashlib\<close>, \<open>secrets\<close> and the clock are inputs, as above. The
  \<open>CREATE TABLE IF NOT EXISTS\<close> statements are the record types and \<open>empty_db\<close>;
  a database file whose schema differs from them is not modelled. SQLite's reading of texts such as \<open>'1.0'\<close> as numbers is outside
  \<open>sql_text_int\<close>.
\<close>

subsection \<open>A concrete run\<close>

text \<open>The demo candidate logs in, starts two payments for the seeded aspiration 1 (the
  second is accepted, as only a \<^emph>\<open>completed\<close> payment blocks a new one) and then
  confirms both transaction ids.\<close>

definition double_pay_trace :: "(time \<times> request) list" where
  "double_pay_trace =
     [(1, Login (Some ''candidate'') (Some ''candidate123'') ''tok''),
      (2, CreatePayment (Some ''tok'') (Some 1) (Some ''momo'') ''20250101'' ''1111''),
      (3, CreatePayment (Some ''tok'') (Some 1) (Some ''momo'') ''20250101'' ''2222''),
      (4, VerifyPayment (Some ''tok'') (Some ''TXN202501011111'')),
      (5, VerifyPayment (Some ''tok'') (Some ''TXN202501012222''))]"

text \<open>The manager approves the seeded aspiration 1; then the candidate removes it.\<close>

definition approve_remove_trace :: "(time \<times> request) list" where
  "approve_remove_trace =
     [(1, Login (Some ''manager'') (Some ''manager123'') ''tok-m''),
      (2, ApproveAspiration (Some ''tok-m'') (Some 1) (Some ''ok'')),
      (3, Login (Some ''candidate'') (Some ''candidate123'') ''tok-c''),
      (4, RemoveAspiration (Some ''tok-c'') (Some 1))]"

subsection \<open>Helpers across requests\<close>

lemma reachable_paid_backed_helper:
  "reachable hash s \<Longrightarrow> db_wf (sys_db s) \<and> paid_backed (sys_db s)"
proof (induction rule: reachable.induct)
  case (start t0)
  show ?case
    by (simp add: init_sys_def fresh_seed_wf)
       (simp add: paid_backed_def fresh_seed_def)
next
  case (step s now req)
  then show ?case by (simp add: handle_api_post_wf handle_api_post_paid_backed)
next
  case (restart s t s')
  then obtain d' where "insert_default_data hash t (sys_db s) = Some d'" "s' = \<lparr>sys_db = d', sys_tokens = Map.empty\<rparr>"
    by (auto simp: restart_def)
  with restart.IH show ?case
    by (auto simp: seed_safe_def dest!: insert_default_data_safe intro: paid_backed_step)
qed

lemma handle_api_post_tokens:
  "sys_tokens (snd (handle_api_post hash now req s)) = sys_tokens s \<or>
   (\<exists>un pw tok t. req = Login un pw tok \<and> created_at t = now \<and>
      sys_tokens (snd (handle_api_post hash now req s)) = (sys_tokens s)(tok \<mapsto> t))"
proof (cases req)
  case (Login un pw tok)
  show ?thesis
  proof (cases "login hash (sys_tokens s) now un pw tok (sys_db s)")
    case (Inl e)
    with Login show ?thesis by simp
  next
    case (Inr x)
    then obtain toks' t u where l: "login hash (sys_tokens s) now un pw tok (sys_db s) = Inr (toks', t, u)"
      by (cases x) auto
    let ?td = "\<lparr>td_user_id = u_id u, td_username = username u, td_role = u_role u, created_at = now\<rparr>"
    from Login l login_Inr [OF l]
    have "sys_tokens (snd (handle_api_post hash now req s)) = (sys_tokens s)(tok \<mapsto> ?td)" by simp
    with Login show ?thesis by (intro disjI2 exI [of _ un] exI [of _ pw] exI [of _ tok] exI [of _ ?td]) simp
  qed
qed (simp_all add: snd_apply_db split: sum.splits prod.splits)

subsection \<open>Invariants of every reachable state\<close>

text \<open>C1: Invariant I1 in every state the server reaches: no two aspirations share a
  (candidate, exam, priority) slot, and every priority lies in 1..10.\<close>

theorem reachable_priority_slots:
  assumes "reachable hash s"
  shows "distinct (map slot_of (aspirations (sys_db s))) \<and>
         (\<forall>a \<in> set (aspirations (sys_db s)). 1 \<le> priority_order a \<and> priority_order a \<le> 10)"
  using reachable_db_wf [OF assms] by (simp add: db_wf_def priority_ok_def)

theorem reachable_priority_slots_witness:
  "distinct (map slot_of (aspirations (sys_db (init_sys id 0)))) \<and>
   list_all (\<lambda>a. 1 \<le> priority_order a \<and> priority_order a \<le> 10) (aspirations (sys_db (init_sys id 0)))"
  using reachable_priority_slots [OF reachable.start, of id 0] by (simp add: list_all_iff)

text \<open>C2: Invariant I3, first half, in every reachable state: an aspiration marked paid
  has a completed payment linked to it.\<close>

theorem reachable_paid_has_completed_payment:
  assumes "reachable hash s" and "a \<in> set (aspirations (sys_db s))" and "a_payment a = Paid"
  shows "\<exists>p \<in> set (payments (sys_db s)). p_aspiration p = a_id a \<and> p_status p = TxnCompleted"
  using reachable_paid_backed_helper [OF assms(1)] assms(2,3) by (auto simp: paid_backed_def)

theorem reachable_paid_has_completed_payment_witness:
  "\<exists>p \<in> set (payments (sys_db (run id double_pay_trace (init_sys id 0)))).
     p_aspiration p = 1 \<and> p_status p = TxnCompleted"
proof -
  let ?s = "run id double_pay_trace (init_sys id 0)"
  let ?a = "hd (aspirations (sys_db ?s))"
  have r: "reachable id ?s" by (intro reachable_run reachable.start)
  have a: "?a \<in> set (aspirations (sys_db ?s))" "a_payment ?a = Paid" "a_id ?a = 1"
    by (simp_all add: double_pay_trace_def eval_simps)
  from reachable_paid_has_completed_payment [OF r a(1,2)] a(3) show ?thesis by simp
qed

text \<open>C3: Invariant I3, second half: a request other than payment verification never
  marks an aspiration paid; every paid aspiration after it was already paid before.\<close>

theorem only_verify_marks_paid:
  assumes "\<forall>hdr tx. req \<noteq> VerifyPayment hdr tx"
    and "a' \<in> set (aspirations (sys_db (snd (handle_api_post hash now req s))))"
    and "a_payment a' = Paid"
  shows "\<exists>b \<in> set (aspirations (sys_db s)). a_id b = a_id a' \<and> a_payment b = Paid"
  using handle_api_post_not_verify [OF assms(1)] assms(2,3) by (auto simp: pays_nothing_def)

theorem only_verify_marks_paid_witness:
  "\<exists>b \<in> set (aspirations (sys_db (run id double_pay_trace (init_sys id 0)))).
     a_id b = 1 \<and> a_payment b = Paid"
proof -
  let ?s = "run id double_pay_trace (init_sys id 0)"
  let ?req = "RemoveAspiration (Some ''tok'') (Some 2)"
  let ?a = "hd (aspirations (sys_db (snd (handle_api_post id 6 ?req ?s))))"
  have a: "?a \<in> set (aspirations (sys_db (snd (handle_api_post id 6 ?req ?s))))"
    "a_payment ?a = Paid" "a_id ?a = 1"
    by (simp_all add: double_pay_trace_def eval_simps)
  have "\<forall>hdr tx. ?req \<noteq> VerifyPayment hdr tx" by simp
  from only_verify_marks_paid [OF this a(1,2)] a(3) show ?thesis by simp
qed

text \<open>C4: A paid aspiration stays paid: in a reachable state, after any request, a row
  with the id of a paid aspiration is still paid.\<close>

theorem paid_never_reverts:
  assumes "reachable hash s" and "b \<in> set (aspirations (sys_db s))" and "a_payment b = Paid"
    and "a' \<in> set (aspirations (sys_db (snd (handle_api_post hash now req s))))"
    and "a_id a' = a_id b"
  shows "a_payment a' = Paid"
  using handle_api_post_keeps_paid [OF reachable_db_wf [OF assms(1)]] assms(2-5)
  by (auto simp: keeps_paid_def)

theorem paid_never_reverts_witness:
  "a_payment (hd (aspirations (sys_db (snd (handle_api_post id 6
      (ReorderAspirations (Some ''tok'') [\<lparr>item_id = Some 1, item_priority = Some 9\<rparr>])
      (run id double_pay_trace (init_sys id 0))))))) = Paid"
proof -
  let ?s = "run id double_pay_trace (init_sys id 0)"
  let ?req = "ReorderAspirations (Some ''tok'') [\<lparr>item_id = Some 1, item_priority = Some 9\<rparr>]"
  let ?b = "hd (aspirations (sys_db ?s))"
  let ?a = "hd (aspirations (sys_db (snd (handle_api_post id 6 ?req ?s))))"
  have r: "reachable id ?s" by (intro reachable_run reachable.start)
  have b: "?b \<in> set (aspirations (sys_db ?s))" "a_payment ?b = Paid"
    by (simp_all add: double_pay_trace_def eval_simps)
  have a: "?a \<in> set (aspirations (sys_db (snd (handle_api_post id 6 ?req ?s))))" "a_id ?a = a_id ?b"
    by (simp_all add: double_pay_trace_def eval_simps)
  from paid_never_reverts [OF r b a] show ?thesis .
qed

text \<open>C20: The token store only grows: a token present before any request is present
  after it (logout does not exist and nothing deletes an entry).\<close>

theorem sessions_never_revoked:
  assumes "sys_tokens s tok = Some t"
  shows "\<exists>t'. sys_tokens (snd (handle_api_post hash now req s)) tok = Some t'"
  using handle_api_post_tokens [of hash now req s] assms by auto

theorem sessions_never_revoked_witness:
  "\<exists>t'. sys_tokens (snd (handle_api_post id 5 (Login (Some ''manager'') (Some ''manager123'') ''tok-c'')
          \<lparr>sys_db = fresh_seed id 0, sys_tokens = demo_tokens\<rparr>)) ''tok-c'' = Some t'"
  by (rule sessions_never_revoked) simp

text \<open>C14: Payment verification is accepted without a session: any non-empty
  \<open>Authorization\<close> header that names no token, with any non-empty transaction id, is
  answered with success.\<close>

theorem verify_payment_without_session:
  assumes "h \<noteq> []" and "tx \<noteq> []" and "sys_tokens s h = None"
  shows "fst (handle_api_post hash now (VerifyPayment (Some h) (Some tx)) s) = Inr ()"
  using assms by (simp add: apply_db_def handle_verify_payment_def)

theorem verify_payment_without_session_witness:
  "fst (handle_api_post id 5 (VerifyPayment (Some ''forged'') (Some ''TXN1'')) (init_sys id 0)) = Inr ()"
  by (rule verify_payment_without_session) (simp_all add: init_sys_def)

subsection \<open>Restarts\<close>

text \<open>C30: A restart always succeeds: from every state the server reaches, seeding the
  existing database file again finds every key it looks up (the demo users, the four
  university codes, the major codes), so \<open>insert_default_data\<close> raises no
  \<open>KeyError\<close>, and the new process starts in a reachable state with an empty
  session store.\<close>

theorem restart_succeeds:
  assumes "reachable hash s"
  shows "\<exists>s'. restart hash t s = Some s' \<and> reachable hash s' \<and> sys_tokens s' = Map.empty"
proof -
  obtain d' where "insert_default_data hash t (sys_db s) = Some d'"
    using insert_default_data_Some [OF reachable_seed_keys [OF assms]] by blast
  then have r: "restart hash t s = Some \<lparr>sys_db = d', sys_tokens = Map.empty\<rparr>"
    by (simp add: restart_def)
  with reachable.restart [OF assms r] show ?thesis by auto
qed

theorem restart_succeeds_witness:
  "\<exists>s'. restart id 9 (run id approve_remove_trace (init_sys id 0)) = Some s' \<and> reachable id s' \<and>
        sys_tokens s' = Map.empty"
  by (rule restart_succeeds) (intro reachable_run reachable.start)

subsection \<open>Gaps between the specification and the code\<close>

text \<open>C23: Filtering documents by category is unreachable: \<open>handle_api_get\<close> matches
  \<open>/api/documents\<close> exactly, so every path carrying \<open>?category=\<close>, which the handler
  would read, is answered 404.\<close>

theorem documents_category_unreachable:
  "handle_api_get stamp now hdr (''/api/documents?category='' @ c) s = Inl EndpointNotFound"
  by (simp add: handle_api_get_def)

subsection \<open>The majors route\<close>

text \<open>C24: The majors of a university are reached through its id written in the path:
  for every integer \<open>i\<close>, the path \<open>/api/universities/i/majors\<close> is routed to
  \<open>get_majors\<close> with the text \<open>str(i)\<close>, which SQLite reads back as \<open>i\<close>, so the answer
  is exactly the active majors of university \<open>i\<close>, ordered by name.\<close>

theorem majors_route_roundtrip:
  "handle_api_get stamp now hdr (''/api/universities/'' @ int_str i @ ''/majors'') s =
   Inr (MajorList (sort_key m_name (filter (\<lambda>m. m_university m = i \<and> m_active m) (majors (sys_db s)))))"
proof -
  define p where "p = ''/api/universities/'' @ int_str i @ ''/majors''"
  have facts: "p \<noteq> ''/api/universities''" "prefix ''/api/universities/'' p" "contains ''/majors'' p"
    "split_on CHR ''/'' p ! 3 = int_str i"
    unfolding p_def
    using contains_suffix [of "''/majors''" "''/api/universities/'' @ int_str i"]
    by (simp_all add: split_on_append_sep slash_not_in_int_str)
  have "get_majors (int_str i) (sys_db s) =
        sort_key m_name (filter (\<lambda>m. m_university m = i \<and> m_active m) (majors (sys_db s)))"
    by (simp add: get_majors_def sql_text_int_int_str eq_commute)
  with facts have "handle_api_get stamp now hdr p s =
      Inr (MajorList (sort_key m_name (filter (\<lambda>m. m_university m = i \<and> m_active m) (majors (sys_db s)))))"
    by (simp add: handle_api_get_def Let_def)
  then show ?thesis by (simp only: p_def)
qed

end
